(* ===== verification/JsPrelude.thy ===== *)
theory JsPrelude
  imports Main "HOL-Library.Word" "HOL-Library.AList"
begin

text \<open>
  Shared vocabulary of the development: JavaScript strings as lists of UTF-16 code
  units, the few string built-ins the bot calls (\<open>trim\<close>, \<open>startsWith\<close>,
  \<open>toLowerCase\<close> compared with an ASCII literal, regular-expression \<open>test\<close> on a
  literal pattern), the JavaScript exceptions the code can raise, the configuration
  and global scope the modules run in, and an exception-state monad in which the
  asynchronous handlers are written (each \<open>await\<close> is one bind; a rejected promise
  is an \<open>Inl\<close> result).
\<close>

named_theorems io_simps "unfolding rules of the exception-state monad"
named_theorems jstr_simps "evaluation rules of the JavaScript string built-ins"

section \<open>Strings\<close>

type_synonym code_unit = "16 word"
type_synonym jstr = "code_unit list"

text \<open>An ASCII literal of the source, as the code units JavaScript stores for it.\<close>

definition js :: "string \<Rightarrow> jstr" where
  "js s = map (\<lambda>c. of_nat (of_char c)) s"

lemma js_simps [simp, jstr_simps]:
  "js [] = []" "js (c # s) = of_nat (of_char c) # js s" "js (s @ t) = js s @ js t"
  by (simp_all add: js_def)

lemma length_js [simp]: "length (js s) = length s"
  by (simp add: js_def)

text \<open>
  \<open>String(v)\<close> of a value that is a string or \<open>undefined\<close>, as a template literal
  \<open>${v}\<close> computes it.
\<close>

definition js_str_of :: "jstr option \<Rightarrow> jstr" where
  "js_str_of v = (case v of None \<Rightarrow> js ''undefined'' | Some s \<Rightarrow> s)"

lemma js_str_of_simps [simp]: "js_str_of None = js ''undefined''" "js_str_of (Some s) = s"
  by (simp_all add: js_str_of_def)

text \<open>
  ECMAScript WhiteSpace and LineTerminator code points (all in the basic plane, so
  one code unit each): what \<open>String.prototype.trim\<close> strips.
\<close>

definition js_is_space :: "code_unit \<Rightarrow> bool" where
  "js_is_space c \<longleftrightarrow>
     c \<in> {0x09, 0x0A, 0x0B, 0x0C, 0x0D, 0x20, 0xA0, 0x1680, 0x2028, 0x2029, 0x202F,
          0x205F, 0x3000, 0xFEFF} \<or> (0x2000 \<le> c \<and> c \<le> 0x200A)"

definition js_trim :: "jstr \<Rightarrow> jstr" where
  "js_trim s = rev (dropWhile js_is_space (rev (dropWhile js_is_space s)))"

fun js_starts_with :: "jstr \<Rightarrow> jstr \<Rightarrow> bool" where
  "js_starts_with [] s = True"
| "js_starts_with (p # ps) [] = False"
| "js_starts_with (p # ps) (c # cs) = (p = c \<and> js_starts_with ps cs)"

text \<open>\<open>/pat/.test(s)\<close> for a pattern of literal characters: a match anywhere.\<close>

fun js_includes :: "jstr \<Rightarrow> jstr \<Rightarrow> bool" where
  "js_includes p [] = (p = [])"
| "js_includes p (c # cs) = (js_starts_with p (c # cs) \<or> js_includes p cs)"

text \<open>
  \<open>toLowerCase\<close> restricted to what the code compares its result with (the ASCII
  literal \<open>'done'\<close>): ASCII upper-case letters are lowered, every other code unit is
  kept. No other code point of Unicode lower-cases to one of \<open>d, o, n, e\<close> (the
  only non-ASCII code points with ASCII lower-case images are U+0130 and U+212A,
  which give \<open>i\<close> and \<open>k\<close>), so the comparison is decided exactly.
\<close>

definition js_lower_unit :: "code_unit \<Rightarrow> code_unit" where
  "js_lower_unit c = (if 0x41 \<le> c \<and> c \<le> 0x5A then c + 0x20 else c)"

definition js_to_lower :: "jstr \<Rightarrow> jstr" where
  "js_to_lower s = map js_lower_unit s"

section \<open>Exceptions and the global scope\<close>

text \<open>
  The exceptions the modules raise: a rejected Bot API request (node-telegram-bot-api
  rejects with an \<open>ETELEGRAM\<close>/\<open>EFATAL\<close> error; its text is not modelled), a
  \<open>ReferenceError\<close> for an unbound identifier, a \<open>TypeError\<close> for a property read on
  \<open>undefined\<close> (the property named), and \<open>new Error(message)\<close>.
\<close>

datatype js_error =
    TelegramError
  | ReferenceError jstr
  | TypeError jstr
  | NotCallable jstr
  | Error jstr

definition js_apos :: code_unit where
  "js_apos = 0x27"

fun error_message :: "js_error \<Rightarrow> jstr" where
  "error_message TelegramError = js ''ETELEGRAM''"
| "error_message (ReferenceError x) = x @ js '' is not defined''"
| "error_message (TypeError p) =
     js ''Cannot read properties of undefined (reading '' @ [js_apos] @ p @ [js_apos, 0x29]"
| "error_message (NotCallable f) = f @ js '' is not a function''"
| "error_message (Error m) = m"

text \<open>
  The environment of the process: the destination chat (\<open>TARGET_CHAT_ID\<close>), the
  clock's ISO-8601 rendering (\<open>new Date().toISOString()\<close>, kept abstract), and
  whether the two identifiers the sources use but never declare, \<open>logger\<close>
  (ticketService.js, index.js) and \<open>lconsole\<close> (bot.js), are bound in the global
  scope. In the deployed program neither is (\<open>deployed_env\<close>); the other
  valuation describes what the code was written to do.
\<close>

record js_env =
  target_chat :: int
  iso_string :: "int \<Rightarrow> jstr"
  logger_defined :: bool
  lconsole_defined :: bool

definition deployed_env :: "int \<Rightarrow> (int \<Rightarrow> jstr) \<Rightarrow> js_env" where
  "deployed_env t render =
     \<lparr>target_chat = t, iso_string = render, logger_defined = False, lconsole_defined = False\<rparr>"

section \<open>The exception-state monad\<close>

type_synonym ('s, 'a) io = "'s \<Rightarrow> (js_error + 'a) \<times> 's"

definition io_return :: "'a \<Rightarrow> ('s, 'a) io" where
  "io_return a s = (Inr a, s)"

definition io_throw :: "js_error \<Rightarrow> ('s, 'a) io" where
  "io_throw e s = (Inl e, s)"

definition io_bind :: "('s, 'a) io \<Rightarrow> ('a \<Rightarrow> ('s, 'b) io) \<Rightarrow> ('s, 'b) io" where
  "io_bind m f s = (case m s of (Inl e, s') \<Rightarrow> (Inl e, s') | (Inr a, s') \<Rightarrow> f a s')"

definition io_seq :: "('s, 'a) io \<Rightarrow> ('s, 'b) io \<Rightarrow> ('s, 'b) io" where
  "io_seq m n = io_bind m (\<lambda>_. n)"

text \<open>\<open>try { m } catch (e) { h(e) }\<close>.\<close>

definition io_catch :: "('s, 'a) io \<Rightarrow> (js_error \<Rightarrow> ('s, 'a) io) \<Rightarrow> ('s, 'a) io" where
  "io_catch m h s = (case m s of (Inl e, s') \<Rightarrow> h e s' | r \<Rightarrow> r)"

definition io_modify :: "('s \<Rightarrow> 's) \<Rightarrow> ('s, unit) io" where
  "io_modify f s = (Inr (), f s)"

text \<open>A value computed by code that may throw, lifted into the monad.\<close>

definition io_lift :: "js_error + 'a \<Rightarrow> ('s, 'a) io" where
  "io_lift r s = (r, s)"

lemmas io_defs = io_bind_def io_seq_def io_catch_def io_return_def io_throw_def io_lift_def io_modify_def

lemma io_unfold [io_simps]:
  "io_return a s = (Inr a, s)"
  "io_throw e s = (Inl e, s)"
  "io_modify f s = (Inr (), f s)"
  "io_lift r s = (r, s)"
  by (simp_all add: io_return_def io_throw_def io_modify_def io_lift_def)

lemma io_bind_Inl [io_simps]: "m s = (Inl e, s') \<Longrightarrow> io_bind m f s = (Inl e, s')"
  by (simp add: io_bind_def)

lemma io_bind_Inr [io_simps]: "m s = (Inr a, s') \<Longrightarrow> io_bind m f s = f a s'"
  by (simp add: io_bind_def)

lemma io_seq_Inl [io_simps]: "m s = (Inl e, s') \<Longrightarrow> io_seq m n s = (Inl e, s')"
  by (simp add: io_seq_def io_bind_def)

lemma io_seq_Inr [io_simps]: "m s = (Inr a, s') \<Longrightarrow> io_seq m n s = n s'"
  by (simp add: io_seq_def io_bind_def)

lemma io_catch_Inl [io_simps]: "m s = (Inl e, s') \<Longrightarrow> io_catch m h s = h e s'"
  by (simp add: io_catch_def)

lemma io_catch_Inr [io_simps]: "m s = (Inr a, s') \<Longrightarrow> io_catch m h s = (Inr a, s')"
  by (simp add: io_catch_def)

lemma io_bind_return [simp, io_simps]: "io_bind (io_return a) f = f a"
  by (simp add: fun_eq_iff io_bind_def io_return_def)

lemma io_seq_return [simp, io_simps]: "io_seq (io_return a) n = n"
  by (simp add: fun_eq_iff io_seq_def io_bind_def io_return_def)

lemma io_seq_throw [simp, io_simps]: "io_seq (io_throw e) n = io_throw e"
  by (simp add: fun_eq_iff io_seq_def io_bind_def io_throw_def)

lemma io_catch_return [simp, io_simps]: "io_catch (io_return a) h = io_return a"
  by (simp add: fun_eq_iff io_catch_def io_return_def)

lemma io_catch_throw [simp, io_simps]: "io_catch (io_throw e) h = h e"
  by (simp add: fun_eq_iff io_catch_def io_throw_def)

lemma io_seq_assoc [io_simps]: "io_seq (io_seq a b) c = io_seq a (io_seq b c)"
  by (simp add: fun_eq_iff io_seq_def io_bind_def split: prod.splits sum.splits)

section \<open>Generic lemmas\<close>

lemma js_trim_no_space_ends:
  assumes "s = [] \<or> (\<not> js_is_space (hd s) \<and> \<not> js_is_space (last s))"
  shows "js_trim s = s"
proof -
  from assms have "dropWhile js_is_space s = s"
    by (auto simp: dropWhile_eq_self_iff)
  moreover from assms have "dropWhile js_is_space (rev s) = rev s"
    by (auto simp: dropWhile_eq_self_iff hd_rev)
  ultimately show ?thesis by (simp add: js_trim_def)
qed

lemma length_js_trim_le: "length (js_trim s) \<le> length s"
proof -
  have "length (dropWhile js_is_space s) \<le> length s" by (rule length_dropWhile_le)
  moreover have "length (dropWhile js_is_space (rev (dropWhile js_is_space s)))
                   \<le> length (rev (dropWhile js_is_space s))" by (rule length_dropWhile_le)
  ultimately show ?thesis by (simp add: js_trim_def)
qed

lemma js_starts_with_append [simp]: "js_starts_with p (p @ s)"
  by (induction p) auto

lemma js_starts_with_includes: "js_starts_with p s \<Longrightarrow> js_includes p s"
  by (cases s; cases p) auto

lemma js_starts_with_length: "js_starts_with p s \<Longrightarrow> length p \<le> length s"
  by (induction p s rule: js_starts_with.induct) auto

lemma js_includes_length: "js_includes p s \<Longrightarrow> length p \<le> length s"
  by (induction s) (auto dest: js_starts_with_length)

lemma js_to_lower_length [simp]: "length (js_to_lower s) = length s"
  by (simp add: js_to_lower_def)

lemma js_includes_append: "js_includes p (s @ p @ t)"
  by (induction s) (auto intro: js_starts_with_includes)

end
