(* ===== verification/JsMap.thy ===== *)
theory JsMap
  imports JsPrelude
begin

text \<open>
  The JavaScript \<open>Map\<close> that holds the conversation states (\<open>userStates\<close>,
  bot.js line 18), as an association list in insertion order: \<open>get\<close> finds the
  entry of a key, \<open>set\<close> replaces the value of an existing key in place and appends
  a new key at the end, \<open>delete\<close> removes the entry of the key. Iteration
  (\<open>entries()\<close>) visits the list from the front. The keys are distinct in every
  map these operations build (\<open>js_map_wf\<close>); the refinement lemmas show that
  \<open>map_of\<close> abstracts the list to the partial function \<open>'k \<rightharpoonup> 'v\<close> the
  program means, and that the operations coincide with AList's.
\<close>

type_synonym ('k, 'v) js_map = "('k \<times> 'v) list"

fun map_get :: "('k, 'v) js_map \<Rightarrow> 'k \<Rightarrow> 'v option" where
  "map_get [] k = None"
| "map_get ((k', v) # m) k = (if k' = k then Some v else map_get m k)"

definition map_has :: "('k, 'v) js_map \<Rightarrow> 'k \<Rightarrow> bool" where
  "map_has m k \<longleftrightarrow> map_get m k \<noteq> None"

fun map_set :: "('k, 'v) js_map \<Rightarrow> 'k \<Rightarrow> 'v \<Rightarrow> ('k, 'v) js_map" where
  "map_set [] k v = [(k, v)]"
| "map_set ((k', v') # m) k v = (if k' = k then (k, v) # m else (k', v') # map_set m k v)"

fun map_delete :: "('k, 'v) js_map \<Rightarrow> 'k \<Rightarrow> ('k, 'v) js_map" where
  "map_delete [] k = []"
| "map_delete ((k', v') # m) k = (if k' = k then m else (k', v') # map_delete m k)"

definition js_map_wf :: "('k, 'v) js_map \<Rightarrow> bool" where
  "js_map_wf m \<longleftrightarrow> distinct (map fst m)"

section \<open>Refinement to AList and to partial functions\<close>

lemma map_get_map_of [simp]: "map_get m k = map_of m k"
  by (induction m) auto

lemma map_set_update: "map_set m k v = AList.update k v m"
  by (induction m) auto

lemma map_delete_delete:
  "js_map_wf m \<Longrightarrow> map_delete m k = AList.delete k m"
proof (induction m)
  case Nil
  then show ?case by simp
next
  case (Cons p m)
  obtain k' v' where p: "p = (k', v')" by (cases p)
  from Cons.prems p have "k' \<notin> fst ` set m" and "js_map_wf m"
    by (auto simp: js_map_wf_def)
  with Cons.IH p show ?case
    by (auto simp: delete_id)
qed

lemma map_of_map_set [simp]: "map_of (map_set m k v) = (map_of m)(k \<mapsto> v)"
  by (simp add: map_set_update update_conv')

lemma map_of_map_delete [simp]:
  "js_map_wf m \<Longrightarrow> map_of (map_delete m k) = (map_of m)(k := None)"
  by (simp add: map_delete_delete delete_conv')

lemma map_has_iff [simp]: "map_has m k \<longleftrightarrow> k \<in> fst ` set m"
  by (simp add: map_has_def map_of_eq_None_iff)

lemma js_map_wf_Nil [simp]: "js_map_wf []"
  by (simp add: js_map_wf_def)

lemma js_map_wf_set [simp]: "js_map_wf m \<Longrightarrow> js_map_wf (map_set m k v)"
  by (simp add: js_map_wf_def map_set_update distinct_update)

lemma js_map_wf_delete [simp]: "js_map_wf m \<Longrightarrow> js_map_wf (map_delete m k)"
  by (simp add: js_map_wf_def map_delete_delete distinct_delete)

lemma set_map_set_subset: "set (map_set m k v) \<subseteq> insert (k, v) (set m)"
  by (induction m) (auto split: if_splits)

lemma set_map_delete_subset: "set (map_delete m k) \<subseteq> set m"
  by (induction m) (auto split: if_splits)

lemma in_set_map_delete:
  "js_map_wf m \<Longrightarrow> (k', v) \<in> set (map_delete m k) \<longleftrightarrow> (k', v) \<in> set m \<and> k' \<noteq> k"
  by (auto simp: map_delete_delete AList.delete_eq)

lemma key_in_map_set [simp]: "k \<in> fst ` set (map_set m k v)"
  by (simp add: map_set_update dom_update)

lemma map_delete_absent [simp]: "k \<notin> fst ` set m \<Longrightarrow> map_delete m k = m"
  by (induction m) auto

lemma keys_map_set:
  "map fst (map_set m k v) = (if k \<in> fst ` set m then map fst m else map fst m @ [k])"
proof (induction m)
  case Nil
  then show ?case by simp
next
  case (Cons p m)
  then show ?case by (cases p) (force simp: image_iff)
qed

lemma keys_map_delete:
  "js_map_wf m \<Longrightarrow> map fst (map_delete m k) = removeAll k (map fst m)"
  by (simp add: map_delete_delete delete_keys)

end
