(* ===== verification/Messenger.thy ===== *)
theory Messenger
  imports JsPrelude
begin

text \<open>
  The Bot API as the modules use it (node-telegram-bot-api's \<open>sendMessage\<close>,
  \<open>sendPhoto\<close>, \<open>sendVideo\<close>): every call is one \<open>outbound\<close> request. The
  network's answers are an oracle in the state, \<open>faults\<close>: the next request fails
  (the promise rejects) when the head of the list is \<open>True\<close>, and an empty list
  means every further request succeeds. A request that succeeds is appended to
  \<open>outbox\<close>, the messages delivered in order. The state is the record \<open>net\<close>,
  which the bot's world extends, so the sending operations and their lemmas apply to
  every extension of it.

  Fixed texts of the bot's replies are named by constructors of \<open>bot_text\<close>; the
  texts that embed data carry it: the error report embeds \<open>error.message\<close>, the
  ticket embeds the HTML text built by \<open>formatTicketMessage\<close>, the attachment warning
  embeds the media kind and the reporter.
\<close>

datatype media_type = Photo | Video

datatype bot_text =
    Welcome
  | HelpGuide
  | AskMerchant
  | CancelledText
  | NothingToCancel
  | NoActiveTicket
  | MediaNotExpected
  | MediaAttached
  | AskDescription
  | InfoReceived
  | TicketCreated
  | DoneOrMedia
  | ErrorReport jstr
  | TicketHtml jstr
  | MediaFailed media_type jstr

datatype outbound =
    SendMessage int bot_text
  | SendPhoto int jstr jstr
  | SendVideo int jstr jstr

record net =
  outbox :: "outbound list"
  faults :: "bool list"

definition send :: "outbound \<Rightarrow> ('a net_scheme, unit) io" where
  "send r w =
     (case faults w of
        True # fs \<Rightarrow> (Inl TelegramError, w\<lparr>faults := fs\<rparr>)
      | False # fs \<Rightarrow> (Inr (), w\<lparr>outbox := outbox w @ [r], faults := fs\<rparr>)
      | [] \<Rightarrow> (Inr (), w\<lparr>outbox := outbox w @ [r]\<rparr>))"

text \<open>The three answers of the network, as rewrite rules for the proofs.\<close>

lemma send_ok [io_simps]:
  "faults w = [] \<Longrightarrow> send r w = (Inr (), w\<lparr>outbox := outbox w @ [r]\<rparr>)"
  "faults w = False # fs \<Longrightarrow> send r w = (Inr (), w\<lparr>outbox := outbox w @ [r], faults := fs\<rparr>)"
  by (simp_all add: send_def)

lemma send_fail [io_simps]:
  "faults w = True # fs \<Longrightarrow> send r w = (Inl TelegramError, w\<lparr>faults := fs\<rparr>)"
  by (simp add: send_def)

lemma send_cases:
  "send r w = (Inr (), w\<lparr>outbox := outbox w @ [r], faults := tl (faults w)\<rparr>)
   \<or> (send r w = (Inl TelegramError, w\<lparr>faults := tl (faults w)\<rparr>))"
  by (auto simp: send_def split: list.splits bool.splits)

lemma send_result_cases:
  assumes "send r w = (res, w')"
  obtains "res = Inr ()" "w' = w\<lparr>outbox := outbox w @ [r], faults := tl (faults w)\<rparr>"
    | "res = Inl TelegramError" "w' = w\<lparr>faults := tl (faults w)\<rparr>"
  using assms send_cases [of r w] by auto

text \<open>Sending touches nothing but the network part of the state.\<close>

lemma send_frame: "send r w = (res, w') \<Longrightarrow> net.more w' = net.more w"
  by (auto simp: send_def split: list.splits bool.splits)

lemma send_outbox_prefix: "\<exists>d. outbox (snd (send r w)) = outbox w @ d"
  by (auto simp: send_def split: list.splits bool.splits)

end
