(* ===== verification/TicketService.thy ===== *)
theory TicketService
  imports Messenger
begin

text \<open>
  src/ticketService.js: the ticket draft, its validation (\<open>validateTicketData\<close>),
  the HTML escaping and formatting of the ticket text (\<open>escapeHtml\<close>,
  \<open>formatTicketMessage\<close>) and the dispatch of a finished ticket with its
  attachments to the destination chat (\<open>createTicket\<close>). The draft's fields are
  \<open>jstr option\<close>: a field that was never assigned, or was assigned \<open>msg.text\<close> of
  a message without text, is \<open>undefined\<close>. \<open>escapeHtml\<close> is proved equal to a
  one-pass escaping (\<open>escape_ref\<close>), inverted by entity decoding, and free of the
  markup characters; \<open>createTicket\<close> is characterised on each pattern of network
  failures, with the undeclared \<open>logger\<close> unbound and bound.
\<close>

section \<open>The draft\<close>

record media_item =
  item_type :: media_type
  fileId :: jstr

record ticket_data =
  merchantName :: "jstr option"
  description :: "jstr option"
  username :: "jstr option"
  media :: "media_item list"

text \<open>The draft \<open>{ media: [] }\<close> a new ticket starts with (bot.js lines 100--102).\<close>

definition empty_ticket :: ticket_data where
  "empty_ticket = \<lparr>merchantName = None, description = None, username = None, media = []\<rparr>"

section \<open>Validation\<close>

text \<open>
  \<open>!v || v.trim().length < n\<close>: \<open>undefined\<close> and the empty string are falsy; the
  length counts UTF-16 code units.
\<close>

definition short_field :: "jstr option \<Rightarrow> nat \<Rightarrow> bool" where
  "short_field v n = (case v of None \<Rightarrow> True | Some s \<Rightarrow> s = [] \<or> length (js_trim s) < n)"

definition merchant_too_short :: jstr where
  "merchant_too_short = js ''Merchant name must be at least 2 characters long''"

definition description_too_short :: jstr where
  "description_too_short = js ''Problem description must be at least 10 characters long''"

definition validateTicketData :: "ticket_data \<Rightarrow> jstr option" where
  "validateTicketData td =
     (if short_field (merchantName td) 2 then Some merchant_too_short
      else if short_field (description td) 10 then Some description_too_short
      else None)"

section \<open>HTML escaping\<close>

text \<open>\<open>s.replace(/c/g, r)\<close> for a one-character pattern and a replacement without \<open>$\<close>.\<close>

definition replace_all :: "code_unit \<Rightarrow> jstr \<Rightarrow> jstr \<Rightarrow> jstr" where
  "replace_all c r s = concat (map (\<lambda>x. if x = c then r else [x]) s)"

text \<open>\<open>text.replace\<close> on \<open>undefined\<close> raises a \<open>TypeError\<close>.\<close>

definition escapeHtml :: "jstr option \<Rightarrow> js_error + jstr" where
  "escapeHtml t =
     (case t of
        None \<Rightarrow> Inl (TypeError (js ''replace''))
      | Some s \<Rightarrow> Inr (replace_all 0x27 (js ''&#039;'')
                      (replace_all 0x22 (js ''&quot;'')
                        (replace_all 0x3E (js ''&gt;'')
                          (replace_all 0x3C (js ''&lt;'')
                            (replace_all 0x26 (js ''&amp;'') s))))))"

text \<open>The reference: each code unit replaced by its entity in one pass.\<close>

definition escape_unit :: "code_unit \<Rightarrow> jstr" where
  "escape_unit c =
     (if c = 0x26 then js ''&amp;'' else if c = 0x3C then js ''&lt;''
      else if c = 0x3E then js ''&gt;'' else if c = 0x22 then js ''&quot;''
      else if c = 0x27 then js ''&#039;'' else [c])"

definition escape_ref :: "jstr \<Rightarrow> jstr" where
  "escape_ref s = concat (map escape_unit s)"

text \<open>Decoding of the five entities, as the receiving HTML parser reads the text.\<close>

fun unescape_html :: "jstr \<Rightarrow> jstr" where
  "unescape_html [] = []"
| "unescape_html (c # s) =
     (if c = 0x26 then
        (if js_starts_with (js ''amp;'') s then 0x26 # unescape_html (drop 4 s)
         else if js_starts_with (js ''lt;'') s then 0x3C # unescape_html (drop 3 s)
         else if js_starts_with (js ''gt;'') s then 0x3E # unescape_html (drop 3 s)
         else if js_starts_with (js ''quot;'') s then 0x22 # unescape_html (drop 5 s)
         else if js_starts_with (js ''#039;'') s then 0x27 # unescape_html (drop 5 s)
         else c # unescape_html s)
      else c # unescape_html s)"

section \<open>Formatting\<close>

text \<open>
  The template literal of \<open>formatTicketMessage\<close>, code unit by code unit: the
  emoji are surrogate pairs (U+1F3AB, U+1F3EA, U+1F464, U+1F4DD) or one unit
  (U+23F0); the title line ends with an escaped and a literal newline.
\<close>

definition ticket_template :: "jstr \<Rightarrow> jstr \<Rightarrow> jstr \<Rightarrow> jstr \<Rightarrow> jstr" where
  "ticket_template m u d created =
     [0xD83C, 0xDFAB] @ js '' <b>New Support Ticket</b>'' @ [0x0A, 0x0A] @
     [0xD83C, 0xDFEA] @ js '' <b>Merchant:</b> '' @ m @ [0x0A] @
     [0xD83D, 0xDC64] @ js '' <b>Reported by:</b> @'' @ u @ [0x0A] @
     [0xD83D, 0xDCDD] @ js '' <b>Description:</b> '' @ d @ [0x0A] @
     [0x23F0] @ js '' <b>Created:</b> '' @ created"

text \<open>The substitutions are evaluated left to right; the first that throws wins.\<close>

definition formatTicketMessage ::
  "jstr option \<Rightarrow> jstr option \<Rightarrow> jstr option \<Rightarrow> jstr \<Rightarrow> js_error + jstr" where
  "formatTicketMessage merchant desc user created =
     (case escapeHtml merchant of
        Inl e \<Rightarrow> Inl e
      | Inr m \<Rightarrow> (case escapeHtml user of
          Inl e \<Rightarrow> Inl e
        | Inr u \<Rightarrow> (case escapeHtml desc of
            Inl e \<Rightarrow> Inl e
          | Inr d \<Rightarrow> Inr (ticket_template m u d created))))"

section \<open>Dispatch\<close>

text \<open>\<open>logger.error(...)\<close>: a \<open>ReferenceError\<close> when \<open>logger\<close> is unbound.\<close>

definition log_error :: "js_env \<Rightarrow> ('s, unit) io" where
  "log_error env = (if logger_defined env then io_return () else io_throw (ReferenceError (js ''logger'')))"

definition attachment_caption :: "jstr \<Rightarrow> jstr" where
  "attachment_caption u = js ''Attachment for ticket from @'' @ u"

text \<open>The request of one attachment: \<open>item.type\<close> selects \<open>sendPhoto\<close> or \<open>sendVideo\<close>.\<close>

definition media_request :: "js_env \<Rightarrow> jstr \<Rightarrow> media_item \<Rightarrow> outbound" where
  "media_request env u item =
     (case item_type item of
        Photo \<Rightarrow> SendPhoto (target_chat env) (fileId item) (attachment_caption u)
      | Video \<Rightarrow> SendVideo (target_chat env) (fileId item) (attachment_caption u))"

text \<open>
  The \<open>for ... of\<close> loop over \<open>media\<close>: each attachment in its own
  \<open>try/catch\<close>, whose handler logs and then warns the destination chat.
\<close>

primrec send_media_items :: "js_env \<Rightarrow> jstr \<Rightarrow> media_item list \<Rightarrow> ('a net_scheme, unit) io" where
  "send_media_items env u [] = io_return ()"
| "send_media_items env u (item # items) =
     io_seq
       (io_catch (send (media_request env u item))
          (\<lambda>_. io_seq (log_error env) (send (SendMessage (target_chat env) (MediaFailed (item_type item) u)))))
       (send_media_items env u items)"

definition failed_to_create :: jstr where
  "failed_to_create = js ''Failed to create ticket. Please try again.''"

definition createTicket :: "js_env \<Rightarrow> jstr \<Rightarrow> ticket_data \<Rightarrow> ('a net_scheme, bool) io" where
  "createTicket env created td =
     io_catch
       (io_bind (io_lift (formatTicketMessage (merchantName td) (description td) (username td) created))
          (\<lambda>text. io_seq (send (SendMessage (target_chat env) (TicketHtml text)))
             (io_seq (if media td \<noteq> [] then send_media_items env (js_str_of (username td)) (media td)
                      else io_return ())
                (io_return True))))
       (\<lambda>_. io_seq (log_error env) (io_throw (Error failed_to_create)))"

section \<open>Failure patterns of the network\<close>

text \<open>
  \<open>fault_plan bs\<close>: the network's answers when the attachments whose flag in
  \<open>bs\<close> is set fail and everything else, the warnings included, succeeds;
  \<open>delivered\<close>: what the destination chat then receives for the attachments
  when every failure is recovered locally, as the catch block intends.
\<close>

definition fault_plan :: "bool list \<Rightarrow> bool list" where
  "fault_plan bs = concat (map (\<lambda>b. if b then [True, False] else [False]) bs)"

definition delivered :: "js_env \<Rightarrow> jstr \<Rightarrow> media_item list \<Rightarrow> bool list \<Rightarrow> outbound list" where
  "delivered env u items bs =
     concat (map2 (\<lambda>it b. if b then [SendMessage (target_chat env) (MediaFailed (item_type it) u)]
                          else [media_request env u it]) items bs)"

section \<open>Sample data for the witnesses\<close>

definition sample_env :: js_env where
  "sample_env = deployed_env 5 (\<lambda>_. js ''2026-11-09T00:00:00.000Z'')"

definition sample_intended_env :: js_env where
  "sample_intended_env = sample_env\<lparr>logger_defined := True\<rparr>"

definition sample_draft :: ticket_data where
  "sample_draft =
     \<lparr>merchantName = Some (js ''Acme Corp''), description = Some (js ''Checkout page freezes''),
      username = Some (js ''alice''),
      media = [\<lparr>item_type = Photo, fileId = js ''P1''\<rparr>, \<lparr>item_type = Video, fileId = js ''V1''\<rparr>]\<rparr>"

section \<open>Lemmas on validation and escaping\<close>

lemma replace_all_simps [simp]:
  "replace_all c r [] = []"
  "replace_all c r (x # s) = (if x = c then r else [x]) @ replace_all c r s"
  "replace_all c r (s @ t) = replace_all c r s @ replace_all c r t"
  by (simp_all add: replace_all_def)

lemma escape_ref_simps [simp]:
  "escape_ref [] = []" "escape_ref (c # s) = escape_unit c @ escape_ref s"
  by (simp_all add: escape_ref_def)

lemma escape_unit_cases:
  "escape_unit c \<in> {js ''&amp;'', js ''&lt;'', js ''&gt;'', js ''&quot;'', js ''&#039;'', [c]}"
  by (simp add: escape_unit_def)

lemma escapeHtml_None [simp]: "escapeHtml None = Inl (TypeError (js ''replace''))"
  by (simp add: escapeHtml_def)

lemma escapeHtml_Some: "escapeHtml (Some s) = Inr (escape_ref s)"
  by (induction s) (simp_all add: escapeHtml_def escape_unit_def)

lemma unescape_escape_ref [simp]: "unescape_html (escape_ref s) = s"
  by (induction s) (auto simp: escape_unit_def)

lemma escape_ref_no_markup: "x \<in> set (escape_ref s) \<Longrightarrow> x \<notin> {0x3C, 0x3E, 0x22, 0x27}"
  by (induction s) (auto simp: escape_unit_def split: if_splits)

lemma short_field_iff:
  "0 < n \<Longrightarrow> short_field v n \<longleftrightarrow> (case v of None \<Rightarrow> True | Some s \<Rightarrow> length (js_trim s) < n)"
  by (auto simp: short_field_def js_trim_def split: option.splits)

lemma formatTicketMessage_Some:
  "formatTicketMessage (Some m) (Some d) (Some u) created =
     Inr (ticket_template (escape_ref m) (escape_ref u) (escape_ref d) created)"
  by (simp add: formatTicketMessage_def escapeHtml_Some)

lemma send_media_items_ok:
  "faults w = [] \<Longrightarrow>
   send_media_items env u items w = (Inr (), w\<lparr>outbox := outbox w @ map (media_request env u) items\<rparr>)"
  by (induction items arbitrary: w) (simp_all add: io_defs send_def)

lemma send_media_items_abort:
  "\<not> logger_defined env \<Longrightarrow> faults w = replicate i False @ True # fs \<Longrightarrow> i < length items \<Longrightarrow>
   send_media_items env u items w =
     (Inl (ReferenceError (js ''logger'')),
      w\<lparr>outbox := outbox w @ map (media_request env u) (take i items), faults := fs\<rparr>)"
proof (induction items arbitrary: i w)
  case Nil
  then show ?case by simp
next
  case (Cons item items)
  show ?case
  proof (cases i)
    case 0
    with Cons.prems show ?thesis by (simp add: io_defs send_def log_error_def)
  next
    case (Suc j)
    with Cons.prems have "faults (snd (send (media_request env u item) w)) = replicate j False @ True # fs"
      by (simp add: send_def)
    with Cons.IH [where i = j] Cons.prems Suc show ?thesis by (simp add: io_defs send_def)
  qed
qed

lemma send_media_items_recover:
  "logger_defined env \<Longrightarrow> length bs = length items \<Longrightarrow> faults w = fault_plan bs @ fs \<Longrightarrow>
   send_media_items env u items w =
     (Inr (), w\<lparr>outbox := outbox w @ delivered env u items bs, faults := fs\<rparr>)"
proof (induction items arbitrary: bs w)
  case Nil
  then show ?case by (simp add: io_defs fault_plan_def delivered_def)
next
  case (Cons item items)
  then obtain b bs' where bs: "bs = b # bs'" by (cases bs) auto
  with Cons show ?case
    by (cases b) (simp_all add: io_defs send_def log_error_def fault_plan_def delivered_def)
qed
lemma createTicket_delivers:
  assumes "faults w = []" "merchantName td = Some m" "description td = Some d" "username td = Some u"
  shows "createTicket env c td w =
     (Inr True, w\<lparr>outbox := outbox w @ SendMessage (target_chat env)
        (TicketHtml (ticket_template (escape_ref m) (escape_ref u) (escape_ref d) c))
        # map (media_request env u) (media td)\<rparr>)"
  using assms by (simp add: createTicket_def formatTicketMessage_Some io_defs send_def send_media_items_ok)

text \<open>
  C4: As deployed (\<open>logger\<close> unbound), when the ticket text is delivered and the
  attachment at position \<open>i\<close> fails to send, \<open>createTicket\<close> rejects with
  \<open>ReferenceError: logger is not defined\<close>: the attachments before \<open>i\<close> were sent,
  no warning reaches the destination, and no later attachment is attempted.
\<close>

theorem createTicket_attachment_abort:
  assumes "\<not> logger_defined env" "merchantName td = Some m" "description td = Some d" "username td = Some u"
    and "faults w = False # replicate i False @ True # fs" "i < length (media td)"
  shows "createTicket env c td w =
     (Inl (ReferenceError (js ''logger'')),
      w\<lparr>outbox := outbox w @ SendMessage (target_chat env)
        (TicketHtml (ticket_template (escape_ref m) (escape_ref u) (escape_ref d) c))
        # map (media_request env u) (take i (media td)), faults := fs\<rparr>)"
proof -
  let ?t = "SendMessage (target_chat env) (TicketHtml (ticket_template (escape_ref m) (escape_ref u) (escape_ref d) c))"
  have s: "send ?t w = (Inr (), w\<lparr>outbox := outbox w @ [?t], faults := replicate i False @ True # fs\<rparr>)"
    using assms(5) by (simp add: send_def)
  have m: "media td \<noteq> []" using assms(6) by auto
  show ?thesis
    using assms s m send_media_items_abort [OF assms(1), of "w\<lparr>outbox := outbox w @ [?t], faults := replicate i False @ True # fs\<rparr>" i fs "media td" u]
    by (simp add: createTicket_def formatTicketMessage_Some io_defs log_error_def)
qed

text \<open>
  C6: When sending the ticket text fails, \<open>createTicket\<close> sends nothing else and
  rejects: with \<open>logger\<close> bound with the generic \<open>Failed to create ticket\<close> error,
  as deployed with \<open>ReferenceError: logger is not defined\<close>.
\<close>

theorem createTicket_text_fails:
  assumes "faults w = True # fs" "merchantName td = Some m" "description td = Some d" "username td = Some u"
  shows "createTicket env c td w =
     (Inl (if logger_defined env then Error failed_to_create else ReferenceError (js ''logger'')),
      w\<lparr>faults := fs\<rparr>)"
  using assms by (simp add: createTicket_def formatTicketMessage_Some io_defs send_def log_error_def)

text \<open>
  C5: With \<open>logger\<close> bound, as the code is written to run, a failing attachment never
  aborts the dispatch: for any pattern of failing attachments, each failure is
  replaced by a warning naming its kind and reporter, every other attachment is sent
  in order after the ticket text, and \<open>createTicket\<close> resolves to \<open>true\<close>.
\<close>

theorem createTicket_recovers:
  assumes "logger_defined env" "merchantName td = Some m" "description td = Some d" "username td = Some u"
    and "length bs = length (media td)" "faults w = False # fault_plan bs @ fs"
  shows "createTicket env c td w =
     (Inr True,
      w\<lparr>outbox := outbox w @ SendMessage (target_chat env)
        (TicketHtml (ticket_template (escape_ref m) (escape_ref u) (escape_ref d) c))
        # delivered env u (media td) bs, faults := fs\<rparr>)"
proof -
  let ?t = "SendMessage (target_chat env) (TicketHtml (ticket_template (escape_ref m) (escape_ref u) (escape_ref d) c))"
  let ?w1 = "w\<lparr>outbox := outbox w @ [?t], faults := fault_plan bs @ fs\<rparr>"
  have s: "send ?t w = (Inr (), ?w1)"
    using assms(6) by (simp add: send_def)
  show ?thesis
  proof (cases "media td = []")
    case True
    with assms(5) have "bs = []" by simp
    with True assms s show ?thesis
      by (simp add: createTicket_def formatTicketMessage_Some io_defs delivered_def fault_plan_def)
  next
    case False
    with assms s send_media_items_recover [OF assms(1,5), of ?w1 fs u] show ?thesis
      by (simp add: createTicket_def formatTicketMessage_Some io_defs)
  qed
qed

theorem createTicket_attachment_abort_witness:
  "\<not> logger_defined sample_env \<and> merchantName sample_draft = Some (js ''Acme Corp'') \<and>
   description sample_draft = Some (js ''Checkout page freezes'') \<and> username sample_draft = Some (js ''alice'') \<and>
   faults \<lparr>outbox = [], faults = [False, True]\<rparr> = False # replicate 0 False @ True # [] \<and>
   0 < length (media sample_draft) \<and>
   createTicket sample_env [] sample_draft \<lparr>outbox = [], faults = [False, True]\<rparr> =
     (Inl (ReferenceError (js ''logger'')),
      \<lparr>outbox = [SendMessage 5 (TicketHtml (ticket_template (escape_ref (js ''Acme Corp'')) (escape_ref (js ''alice''))
                     (escape_ref (js ''Checkout page freezes'')) []))], faults = []\<rparr>)"
proof -
  have h: "\<not> logger_defined sample_env" "merchantName sample_draft = Some (js ''Acme Corp'')"
    "description sample_draft = Some (js ''Checkout page freezes'')" "username sample_draft = Some (js ''alice'')"
    "faults \<lparr>outbox = [], faults = [False, True]\<rparr> = False # replicate 0 False @ True # []"
    "0 < length (media sample_draft)"
    by (simp_all add: sample_env_def deployed_env_def sample_draft_def)
  show ?thesis using h createTicket_attachment_abort [OF h] by (simp add: sample_env_def deployed_env_def)
qed

theorem createTicket_recovers_witness:
  "logger_defined sample_intended_env \<and> merchantName sample_draft = Some (js ''Acme Corp'') \<and>
   description sample_draft = Some (js ''Checkout page freezes'') \<and> username sample_draft = Some (js ''alice'') \<and>
   length [True, False] = length (media sample_draft) \<and>
   faults \<lparr>outbox = [], faults = [False, True, False, False]\<rparr> = False # fault_plan [True, False] @ [] \<and>
   createTicket sample_intended_env [] sample_draft \<lparr>outbox = [], faults = [False, True, False, False]\<rparr> =
     (Inr True,
      \<lparr>outbox = [SendMessage 5 (TicketHtml (ticket_template (escape_ref (js ''Acme Corp'')) (escape_ref (js ''alice''))
                     (escape_ref (js ''Checkout page freezes'')) [])),
                  SendMessage 5 (MediaFailed Photo (js ''alice'')),
                  SendVideo 5 (js ''V1'') (attachment_caption (js ''alice''))], faults = []\<rparr>)"
proof -
  have h: "logger_defined sample_intended_env" "merchantName sample_draft = Some (js ''Acme Corp'')"
    "description sample_draft = Some (js ''Checkout page freezes'')" "username sample_draft = Some (js ''alice'')"
    "length [True, False] = length (media sample_draft)"
    "faults \<lparr>outbox = [], faults = [False, True, False, False]\<rparr> = False # fault_plan [True, False] @ []"
    by (simp_all add: sample_intended_env_def sample_env_def deployed_env_def sample_draft_def fault_plan_def)
  show ?thesis using h createTicket_recovers [OF h]
    by (simp add: sample_intended_env_def sample_env_def deployed_env_def sample_draft_def delivered_def
                  media_request_def)
qed

theorem createTicket_text_fails_witness:
  "faults \<lparr>outbox = [], faults = [True]\<rparr> = True # [] \<and> merchantName sample_draft = Some (js ''Acme Corp'') \<and>
   description sample_draft = Some (js ''Checkout page freezes'') \<and> username sample_draft = Some (js ''alice'') \<and>
   createTicket sample_env [] sample_draft \<lparr>outbox = [], faults = [True]\<rparr> =
     (Inl (ReferenceError (js ''logger'')), \<lparr>outbox = [], faults = []\<rparr>)"
proof -
  have h: "faults \<lparr>outbox = [], faults = [True]\<rparr> = True # []" "merchantName sample_draft = Some (js ''Acme Corp'')"
    "description sample_draft = Some (js ''Checkout page freezes'')" "username sample_draft = Some (js ''alice'')"
    by (simp_all add: sample_draft_def)
  show ?thesis using h createTicket_text_fails [OF h] by (simp add: sample_env_def deployed_env_def)
qed

text \<open>
  C7: \<open>escapeHtml\<close>, five global replacements in sequence with \<open>&\<close> first, equals
  the one-pass escaping that replaces each of \<open>& < > " '\<close> by its entity; on
  \<open>undefined\<close> it raises a \<open>TypeError\<close>.
\<close>

theorem escapeHtml_spec:
  "escapeHtml t = (case t of None \<Rightarrow> Inl (TypeError (js ''replace'')) | Some s \<Rightarrow> Inr (escape_ref s))"
  by (cases t) (simp_all add: escapeHtml_Some)

text \<open>
  C8: Decoding the five entities recovers the escaped text exactly: the ticket shows
  the user's text as typed.
\<close>

theorem escapeHtml_roundtrip:
  assumes "escapeHtml (Some s) = Inr e"
  shows "unescape_html e = s"
proof -
  from assms have "e = escape_ref s" by (simp add: escapeHtml_Some)
  then show ?thesis by simp
qed

theorem escapeHtml_roundtrip_witness:
  "escapeHtml (Some (js ''<b>A&B</b>'')) = Inr (escape_ref (js ''<b>A&B</b>'')) \<and>
   unescape_html (escape_ref (js ''<b>A&B</b>'')) = js ''<b>A&B</b>''"
proof -
  have h: "escapeHtml (Some (js ''<b>A&B</b>'')) = Inr (escape_ref (js ''<b>A&B</b>''))"
    by (rule escapeHtml_Some)
  show ?thesis using h escapeHtml_roundtrip [OF h] by simp
qed

text \<open>
  C9: The escaped text contains none of \<open>< > " '\<close>, so user input cannot open or
  close a tag or an attribute in the HTML ticket.
\<close>

theorem escapeHtml_no_markup:
  assumes "escapeHtml t = Inr e" "x \<in> set e"
  shows "x \<noteq> 0x3C \<and> x \<noteq> 0x3E \<and> x \<noteq> 0x22 \<and> x \<noteq> 0x27"
proof -
  from assms(1) obtain s where "t = Some s" "e = escape_ref s"
    by (cases t) (auto simp: escapeHtml_Some)
  with assms(2) escape_ref_no_markup [of x s] show ?thesis by auto
qed

theorem escapeHtml_no_markup_witness:
  "escapeHtml (Some (js ''<i>'')) = Inr (js ''&lt;i&gt;'') \<and> 0x26 \<in> set (js ''&lt;i&gt;'') \<and>
   ((0x26::code_unit) \<noteq> 0x3C \<and> (0x26::code_unit) \<noteq> 0x3E \<and> (0x26::code_unit) \<noteq> 0x22 \<and>
    (0x26::code_unit) \<noteq> 0x27)"
proof -
  have h: "escapeHtml (Some (js ''<i>'')) = Inr (js ''&lt;i&gt;'')"
    by (simp add: escapeHtml_Some escape_unit_def)
  have x: "(0x26::code_unit) \<in> set (js ''&lt;i&gt;'')" by simp
  show ?thesis using h x escapeHtml_no_markup [OF h x] by simp
qed

text \<open>
  C10: \<open>validateTicketData\<close> accepts a draft exactly when it has a merchant name of at
  least 2 and a description of at least 10 code units after trimming; the emptiness
  tests of the code are subsumed by the length tests.
\<close>

theorem validateTicketData_accepts_iff:
  "validateTicketData td = None \<longleftrightarrow>
     (\<exists>m d. merchantName td = Some m \<and> description td = Some d \<and>
            2 \<le> length (js_trim m) \<and> 10 \<le> length (js_trim d))"
  by (auto simp: validateTicketData_def short_field_iff split: option.splits)

end
