(* ===== verification/StateStore.thy ===== *)
theory StateStore
  imports JsMap TicketService
begin

text \<open>
  The conversation store of src/bot.js: the phases of a conversation (the module
  ticketStates.js, which is imported but not part of the sources, so its three
  values are taken from the specification), the state kept per user, the map
  \<open>userStates\<close> from user id to state, \<open>updateUserState\<close> (lines 32--40) and the
  expiry sweep \<open>cleanupExpiredStates\<close> (lines 20--28) that \<open>setInterval\<close> runs
  every five minutes. Timestamps are milliseconds since the epoch as \<open>int\<close>: the
  values of \<open>Date.now()\<close> are integers far below \<open>2^53\<close>, where JavaScript
  numbers are exact, so the subtraction in the sweep never rounds.

  The sweep iterates the live map while deleting from it; it only ever deletes
  the entry it is visiting, which a \<open>Map\<close> iterator tolerates (the next entry is
  still visited), so iterating over the list of entries taken before the loop,
  as \<open>cleanup_loop\<close> does, visits the same entries. After a deletion the loop calls
  \<open>lconsole.log\<close>, an identifier no module declares: in the deployed program the
  first expired entry is deleted and then a \<open>ReferenceError\<close> leaves the loop.
\<close>

datatype phase = AWAITING_MERCHANT | AWAITING_DESCRIPTION | AWAITING_MEDIA

record user_state =
  state :: phase
  ticketData :: ticket_data
  lastUpdated :: int

type_synonym user_states = "(int, user_state) js_map"

text \<open>
  \<open>updateUserState(userId, updates)\<close>: every call site passes both \<open>state\<close> and
  \<open>ticketData\<close>, so the spread of the current state under the updates keeps none
  of its fields; the new value is stored under the key (in place when the key is
  present) with the time of the call.
\<close>

definition updateUserState :: "int \<Rightarrow> int \<Rightarrow> phase \<Rightarrow> ticket_data \<Rightarrow> user_states \<Rightarrow> user_states" where
  "updateUserState now userId st td m =
     map_set m userId \<lparr>state = st, ticketData = td, lastUpdated = now\<rparr>"

definition expiry_ms :: int where
  "expiry_ms = 30 * 60 * 1000"

definition sweep_interval_ms :: int where
  "sweep_interval_ms = 5 * 60 * 1000"

definition expired :: "int \<Rightarrow> user_state \<Rightarrow> bool" where
  "expired now st \<longleftrightarrow> now - lastUpdated st > expiry_ms"

text \<open>\<open>lconsole.log(...)\<close>: a \<open>ReferenceError\<close> when \<open>lconsole\<close> is unbound.\<close>

definition log_cleanup :: "js_env \<Rightarrow> ('s, unit) io" where
  "log_cleanup env =
     (if lconsole_defined env then io_return () else io_throw (ReferenceError (js ''lconsole'')))"

fun cleanup_loop :: "js_env \<Rightarrow> int \<Rightarrow> (int \<times> user_state) list \<Rightarrow> (user_states, unit) io" where
  "cleanup_loop env now [] = io_return ()"
| "cleanup_loop env now ((userId, st) # es) =
     (if expired now st
      then io_seq (io_modify (\<lambda>m. map_delete m userId))
             (io_seq (log_cleanup env) (cleanup_loop env now es))
      else cleanup_loop env now es)"

definition cleanupExpiredStates :: "js_env \<Rightarrow> int \<Rightarrow> (user_states, unit) io" where
  "cleanupExpiredStates env now m = cleanup_loop env now m m"

text \<open>Two conversations untouched since time 0, for the witnesses.\<close>

definition stale_store :: user_states where
  "stale_store =
     [(1, \<lparr>state = AWAITING_MERCHANT, ticketData = empty_ticket, lastUpdated = 0\<rparr>),
      (2, \<lparr>state = AWAITING_MERCHANT, ticketData = empty_ticket, lastUpdated = 0\<rparr>)]"

section \<open>Lemmas\<close>

lemma map_of_updateUserState [simp]:
  "map_of (updateUserState now k st td m) =
     (map_of m)(k \<mapsto> \<lparr>state = st, ticketData = td, lastUpdated = now\<rparr>)"
  by (simp add: updateUserState_def)

lemma wf_updateUserState [simp]: "js_map_wf m \<Longrightarrow> js_map_wf (updateUserState now k st td m)"
  by (simp add: updateUserState_def)

lemma set_updateUserState:
  "set (updateUserState now k st td m) \<subseteq>
     insert (k, \<lparr>state = st, ticketData = td, lastUpdated = now\<rparr>) (set m)"
  by (simp add: updateUserState_def set_map_set_subset)

text \<open>The loop with \<open>lconsole\<close> bound deletes every expired key of the snapshot.\<close>

lemma cleanup_loop_bound:
  "lconsole_defined env \<Longrightarrow> js_map_wf m \<Longrightarrow>
   cleanup_loop env now es m =
     (Inr (), filter (\<lambda>p. fst p \<notin> fst ` {q \<in> set es. expired now (snd q)}) m)"
proof (induction es arbitrary: m)
  case Nil
  then show ?case by (simp add: io_defs)
next
  case (Cons e es)
  obtain k st where e: "e = (k, st)" by (cases e)
  show ?case
  proof (cases "expired now st")
    case True
    from Cons.prems have "js_map_wf (map_delete m k)" by simp
    with Cons.IH Cons.prems have "cleanup_loop env now es (map_delete m k) =
        (Inr (), filter (\<lambda>p. fst p \<notin> fst ` {q \<in> set es. expired now (snd q)}) (map_delete m k))"
      by blast
    with True e Cons.prems show ?thesis
      by (auto simp: io_defs log_cleanup_def map_delete_delete AList.delete_eq filter_filter image_iff
               intro!: filter_cong)
  next
    case False
    with e Cons show ?thesis by (auto intro!: filter_cong)
  qed
qed

text \<open>The loop with \<open>lconsole\<close> unbound stops after the first expired entry.\<close>

lemma cleanup_loop_unbound:
  "\<not> lconsole_defined env \<Longrightarrow>
   cleanup_loop env now es m =
     (case find (\<lambda>p. expired now (snd p)) es of
        None \<Rightarrow> (Inr (), m)
      | Some p \<Rightarrow> (Inl (ReferenceError (js ''lconsole'')), map_delete m (fst p)))"
  by (induction es arbitrary: m) (auto simp: io_defs log_cleanup_def)

lemma filter_expired_snapshot:
  assumes "js_map_wf m"
  shows "filter (\<lambda>p. fst p \<notin> fst ` {q \<in> set m. expired now (snd q)}) m =
         filter (\<lambda>p. \<not> expired now (snd p)) m"
proof (rule filter_cong)
  fix p assume p: "p \<in> set m"
  have "fst p \<in> fst ` {q \<in> set m. expired now (snd q)} \<longleftrightarrow> expired now (snd p)"
  proof
    assume "fst p \<in> fst ` {q \<in> set m. expired now (snd q)}"
    then obtain q where q: "q \<in> set m" "expired now (snd q)" "fst q = fst p" by auto
    with p assms have "q = p"
      by (metis js_map_wf_def eq_key_imp_eq_value prod.collapse)
    with q show "expired now (snd p)" by simp
  next
    assume "expired now (snd p)"
    with p show "fst p \<in> fst ` {q \<in> set m. expired now (snd q)}" by blast
  qed
  then show "(fst p \<notin> fst ` {q \<in> set m. expired now (snd q)}) = (\<not> expired now (snd p))"
    by simp
qed simp

lemma cleanupExpiredStates_bound:
  "lconsole_defined env \<Longrightarrow> js_map_wf m \<Longrightarrow>
   cleanupExpiredStates env now m = (Inr (), filter (\<lambda>p. \<not> expired now (snd p)) m)"
  by (simp add: cleanupExpiredStates_def cleanup_loop_bound filter_expired_snapshot)

lemma cleanupExpiredStates_unbound:
  "\<not> lconsole_defined env \<Longrightarrow>
   cleanupExpiredStates env now m =
     (case find (\<lambda>p. expired now (snd p)) m of
        None \<Rightarrow> (Inr (), m)
      | Some p \<Rightarrow> (Inl (ReferenceError (js ''lconsole'')), map_delete m (fst p)))"
  by (simp add: cleanupExpiredStates_def cleanup_loop_unbound)

lemma find_via_filter: "find P xs = (case filter P xs of [] \<Rightarrow> None | x # _ \<Rightarrow> Some x)"
  by (induction xs) auto

lemma map_of_filter_snd:
  "js_map_wf m \<Longrightarrow>
   map_of (filter (\<lambda>p. Q (snd p)) m) k =
     (case map_of m k of None \<Rightarrow> None | Some v \<Rightarrow> if Q v then Some v else None)"
  by (induction m) (auto simp: js_map_wf_def map_of_eq_None_iff)

text \<open>
  C11: As deployed (\<open>lconsole\<close> unbound), a sweep over a store with expired
  entries deletes only the first of them in the map's insertion order and then throws
  \<open>ReferenceError: lconsole is not defined\<close> out of the timer callback; every other
  expired entry is still in the store.
\<close>

theorem sweep_deployed_stops_at_first_expired:
  assumes "\<not> lconsole_defined env" "js_map_wf m" "filter (\<lambda>p. expired now (snd p)) m = e # es"
  shows "cleanupExpiredStates env now m = (Inl (ReferenceError (js ''lconsole'')), map_delete m (fst e)) \<and>
         set es \<subseteq> set (map_delete m (fst e))"
proof -
  have c: "cleanupExpiredStates env now m = (Inl (ReferenceError (js ''lconsole'')), map_delete m (fst e))"
    using assms(1,3) by (simp add: cleanupExpiredStates_unbound find_via_filter)
  have "distinct (map fst (filter (\<lambda>p. expired now (snd p)) m))"
    using assms(2) by (simp add: js_map_wf_def distinct_map_filter)
  with assms(3) have keys: "fst e \<notin> fst ` set es" by simp
  have sub: "set es \<subseteq> set m"
    using assms(3) by (metis filter_is_subset list.set_intros(2) subsetI subset_iff)
  have "set es \<subseteq> set (map_delete m (fst e))"
  proof
    fix q assume q: "q \<in> set es"
    with sub have "q \<in> set m" by blast
    moreover from q keys have "fst q \<noteq> fst e" by (metis image_eqI)
    ultimately show "q \<in> set (map_delete m (fst e))"
      using in_set_map_delete [OF assms(2), of "fst q" "snd q" "fst e"] by simp
  qed
  with c show ?thesis by simp
qed

theorem sweep_deployed_stops_at_first_expired_witness:
  "\<not> lconsole_defined (deployed_env 5 (\<lambda>_. [])) \<and> js_map_wf stale_store \<and>
   filter (\<lambda>p. expired 2000000 (snd p)) stale_store = [hd stale_store, stale_store ! 1] \<and>
   cleanupExpiredStates (deployed_env 5 (\<lambda>_. [])) 2000000 stale_store =
     (Inl (ReferenceError (js ''lconsole'')), map_delete stale_store (fst (hd stale_store))) \<and>
   set [stale_store ! 1] \<subseteq> set (map_delete stale_store (fst (hd stale_store)))"
proof -
  have h: "\<not> lconsole_defined (deployed_env 5 (\<lambda>_. []))" "js_map_wf stale_store"
    "filter (\<lambda>p. expired 2000000 (snd p)) stale_store = [hd stale_store, stale_store ! 1]"
    by (simp_all add: deployed_env_def stale_store_def js_map_wf_def expired_def expiry_ms_def)
  show ?thesis using h sweep_deployed_stops_at_first_expired [OF h] by simp
qed

text \<open>
  C12: With \<open>lconsole\<close> bound, as the code is written to run, the sweep refines the
  abstract expiry: the resulting store is the old one as a map with every user whose
  state is older than 30 minutes removed, and its keys stay distinct.
\<close>

theorem sweep_intended_refines:
  assumes "lconsole_defined env" "js_map_wf m"
  shows "\<exists>m'. cleanupExpiredStates env now m = (Inr (), m') \<and> js_map_wf m' \<and>
           map_of m' = (\<lambda>k. case map_of m k of None \<Rightarrow> None
                                | Some st \<Rightarrow> if now - lastUpdated st > expiry_ms then None else Some st)"
proof -
  let ?m' = "filter (\<lambda>p. \<not> expired now (snd p)) m"
  have "cleanupExpiredStates env now m = (Inr (), ?m')"
    using assms by (rule cleanupExpiredStates_bound)
  moreover have "js_map_wf ?m'"
    using assms(2) by (simp add: js_map_wf_def distinct_map_filter)
  moreover have "map_of ?m' = (\<lambda>k. case map_of m k of None \<Rightarrow> None
                                | Some st \<Rightarrow> if now - lastUpdated st > expiry_ms then None else Some st)"
    using map_of_filter_snd [OF assms(2), of "\<lambda>st. \<not> expired now st"]
    by (auto simp: fun_eq_iff expired_def split: option.splits)
  ultimately show ?thesis by blast
qed

theorem sweep_intended_refines_witness:
  "lconsole_defined ((deployed_env 5 (\<lambda>_. []))\<lparr>lconsole_defined := True\<rparr>) \<and> js_map_wf stale_store \<and>
   (\<exists>m'. cleanupExpiredStates ((deployed_env 5 (\<lambda>_. []))\<lparr>lconsole_defined := True\<rparr>) 2000000 stale_store = (Inr (), m') \<and>
      js_map_wf m' \<and>
      map_of m' = (\<lambda>k. case map_of stale_store k of None \<Rightarrow> None
                          | Some st \<Rightarrow> if 2000000 - lastUpdated st > expiry_ms then None else Some st))"
proof -
  have h: "lconsole_defined ((deployed_env 5 (\<lambda>_. []))\<lparr>lconsole_defined := True\<rparr>)" "js_map_wf stale_store"
    by (simp_all add: stale_store_def js_map_wf_def)
  show ?thesis using h sweep_intended_refines [OF h] by blast
qed

end
