(* ===== verification/Bot.thy ===== *)
theory Bot
  imports StateStore
begin

text \<open>
  The handlers of src/bot.js and the way node-telegram-bot-api calls them. The
  state of the running process is \<open>world\<close>: the Bot API's \<open>net\<close> (delivered
  requests and the network's answers) extended by the map \<open>userStates\<close>. Each
  handler is an \<open>async\<close> function of the incoming message, written in the
  exception-state monad with the time of the event; its result is \<open>Inl\<close> when the
  returned promise rejects. A handler is run to completion before the next one
  starts: the process handles one event at a time, as the specification's
  concurrency model states, so the interleaving of the handlers' continuations at
  their \<open>await\<close>s is not part of this theory.

  For one incoming message the library emits \<open>'message'\<close> first, then the
  message's type event (\<open>'photo'\<close>, \<open>'video'\<close>), then tests the \<open>onText\<close>
  patterns in registration order and calls the first that matches
  (\<open>onlyFirstMatch\<close>). A promise that rejects with nobody handling it ends the Node
  process (unhandled rejection), as does an exception thrown out of the
  \<open>setInterval\<close> callback: \<open>process\<close> has a \<open>Crashed\<close> state for both.
\<close>

record world = net +
  userStates :: user_states

datatype content = TextMsg jstr | PhotoMsg "jstr list" | VideoMsg jstr | OtherMsg

text \<open>
  The fields of a Bot API message the handlers read: \<open>msg.from.id\<close>,
  \<open>msg.from.username\<close>, \<open>msg.chat.id\<close> and the content (\<open>msg.text\<close>, the sizes
  of \<open>msg.photo\<close> by their \<open>file_id\<close>, \<open>msg.video.file_id\<close>, or none of them, as
  for a sticker or a document).
\<close>

record message =
  from_id :: int
  from_username :: "jstr option"
  chat_id :: int
  content :: content

definition msg_text :: "message \<Rightarrow> jstr option" where
  "msg_text msg = (case content msg of TextMsg t \<Rightarrow> Some t | _ \<Rightarrow> None)"

definition is_media_msg :: "message \<Rightarrow> bool" where
  "is_media_msg msg = (case content msg of PhotoMsg _ \<Rightarrow> True | VideoMsg _ \<Rightarrow> True | _ \<Rightarrow> False)"

text \<open>\<open>msg.from.username || 'No username'\<close>.\<close>

definition reporter_handle :: "message \<Rightarrow> jstr" where
  "reporter_handle msg =
     (case from_username msg of
        None \<Rightarrow> js ''No username''
      | Some u \<Rightarrow> if u = [] then js ''No username'' else u)"

section \<open>Operations on the store\<close>

text \<open>A handler that reads \<open>userStates\<close> and continues with what it read.\<close>

definition read_store :: "(user_states \<Rightarrow> (world, 'a) io) \<Rightarrow> (world, 'a) io" where
  "read_store f w = f (userStates w) w"

definition store_update :: "int \<Rightarrow> int \<Rightarrow> phase \<Rightarrow> ticket_data \<Rightarrow> (world, unit) io" where
  "store_update now userId st td =
     io_modify (\<lambda>w. w\<lparr>userStates := updateUserState now userId st td (userStates w)\<rparr>)"

text \<open>An assignment to a field of the object the map holds: the entry changes in place.\<close>

definition store_write :: "int \<Rightarrow> user_state \<Rightarrow> (world, unit) io" where
  "store_write userId st = io_modify (\<lambda>w. w\<lparr>userStates := map_set (userStates w) userId st\<rparr>)"

definition store_delete :: "int \<Rightarrow> (world, unit) io" where
  "store_delete userId = io_modify (\<lambda>w. w\<lparr>userStates := map_delete (userStates w) userId\<rparr>)"

section \<open>Handlers\<close>

text \<open>\<open>sendErrorMessage\<close>: a failure to send the report is caught and logged.\<close>

definition sendErrorMessage :: "int \<Rightarrow> js_error \<Rightarrow> ('a net_scheme, unit) io" where
  "sendErrorMessage chatId e =
     io_catch (send (SendMessage chatId (ErrorReport (error_message e)))) (\<lambda>_. io_return ())"

definition on_start :: "message \<Rightarrow> (world, unit) io" where
  "on_start msg =
     io_catch (send (SendMessage (chat_id msg) Welcome))
       (\<lambda>_. sendErrorMessage (chat_id msg) (Error (js ''Failed to start bot. Please try again.'')))"

definition on_help :: "message \<Rightarrow> (world, unit) io" where
  "on_help msg =
     io_catch (send (SendMessage (chat_id msg) HelpGuide))
       (\<lambda>_. sendErrorMessage (chat_id msg) (Error (js ''Failed to show help. Please try again.'')))"

definition on_newticket :: "int \<Rightarrow> message \<Rightarrow> (world, unit) io" where
  "on_newticket now msg =
     io_catch
       (io_seq (store_update now (from_id msg) AWAITING_MERCHANT empty_ticket)
          (send (SendMessage (chat_id msg) AskMerchant)))
       (\<lambda>_. sendErrorMessage (chat_id msg) (Error (js ''Failed to start new ticket. Please try again.'')))"

definition on_cancel :: "message \<Rightarrow> (world, unit) io" where
  "on_cancel msg =
     read_store (\<lambda>m.
       io_catch
         (if map_has m (from_id msg)
          then io_seq (store_delete (from_id msg)) (send (SendMessage (chat_id msg) CancelledText))
          else send (SendMessage (chat_id msg) NothingToCancel))
         (\<lambda>_. sendErrorMessage (chat_id msg) (Error (js ''Failed to cancel ticket. Please try again.''))))"

text \<open>
  \<open>msg.photo ? 'photo' : 'video'\<close> and the \<open>file_id\<close> of the last photo size or
  of the video; an empty size list is truthy and its last element \<open>undefined\<close>.
\<close>

definition media_of_message :: "message \<Rightarrow> js_error + media_item" where
  "media_of_message msg =
     (case content msg of
        PhotoMsg ps \<Rightarrow>
          if ps = [] then Inl (TypeError (js ''file_id''))
          else Inr \<lparr>item_type = Photo, fileId = last ps\<rparr>
      | VideoMsg f \<Rightarrow> Inr \<lparr>item_type = Video, fileId = f\<rparr>
      | _ \<Rightarrow> Inl (TypeError (js ''file_id'')))"

definition media_failed :: jstr where
  \<open>media_failed = js ''Failed to process media. Please try again or type "done" to submit without it.''\<close>

text \<open>
  \<open>handleMedia\<close>: the two rejections at the top are outside the \<open>try\<close>, so a failure
  to send them rejects the handler's promise. The \<open>push\<close> onto the stored draft and
  the \<open>updateUserState\<close> that follows it are one store update.
\<close>

definition handleMedia :: "int \<Rightarrow> message \<Rightarrow> (world, unit) io" where
  "handleMedia now msg =
     read_store (\<lambda>m.
       case map_get m (from_id msg) of
         None \<Rightarrow> send (SendMessage (chat_id msg) NoActiveTicket)
       | Some st \<Rightarrow>
           if state st \<noteq> AWAITING_MEDIA then send (SendMessage (chat_id msg) MediaNotExpected)
           else io_catch
             (io_bind (io_lift (media_of_message msg))
                (\<lambda>item. io_seq
                   (store_update now (from_id msg) (state st)
                      (ticketData st\<lparr>media := media (ticketData st) @ [item]\<rparr>))
                   (send (SendMessage (chat_id msg) MediaAttached))))
             (\<lambda>_. sendErrorMessage (chat_id msg) (Error media_failed)))"

text \<open>
  The \<open>switch\<close> of the \<open>'message'\<close> handler, on the state read before it. In the
  description branch the fields are assigned on the stored object before the
  validation, which may throw before \<open>updateUserState\<close> refreshes the entry.
\<close>

definition message_step :: "js_env \<Rightarrow> int \<Rightarrow> message \<Rightarrow> user_state \<Rightarrow> (world, unit) io" where
  "message_step env now msg st =
     (let userId = from_id msg; chatId = chat_id msg; td = ticketData st in
      case state st of
        AWAITING_MERCHANT \<Rightarrow>
          io_seq (store_update now userId AWAITING_DESCRIPTION (td\<lparr>merchantName := msg_text msg\<rparr>))
            (send (SendMessage chatId AskDescription))
      | AWAITING_DESCRIPTION \<Rightarrow>
          (let td' = td\<lparr>description := msg_text msg, username := Some (reporter_handle msg)\<rparr> in
           io_seq (store_write userId (st\<lparr>state := AWAITING_MEDIA, ticketData := td'\<rparr>))
             (case validateTicketData td' of
                Some err \<Rightarrow> io_throw (Error err)
              | None \<Rightarrow> io_seq (store_update now userId AWAITING_MEDIA td')
                          (send (SendMessage chatId InfoReceived))))
      | AWAITING_MEDIA \<Rightarrow>
          (case msg_text msg of
             None \<Rightarrow> io_throw (TypeError (js ''toLowerCase''))
           | Some t \<Rightarrow>
               if js_to_lower t = js ''done'' then
                 io_seq (createTicket env (iso_string env now) td)
                   (io_seq (send (SendMessage chatId TicketCreated)) (store_delete userId))
               else send (SendMessage chatId DoneOrMedia)))"

text \<open>
  The \<open>'message'\<close> handler: commands and media return at once, a user without a
  conversation is ignored, and every failure of the turn is reported and ends the
  conversation.
\<close>

definition on_message :: "js_env \<Rightarrow> int \<Rightarrow> message \<Rightarrow> (world, unit) io" where
  "on_message env now msg =
     (if (case msg_text msg of Some t \<Rightarrow> js_starts_with (js ''/'') t | None \<Rightarrow> False)
         \<or> is_media_msg msg
      then io_return ()
      else read_store (\<lambda>m.
             case map_get m (from_id msg) of
               None \<Rightarrow> io_return ()
             | Some st \<Rightarrow>
                 io_catch (message_step env now msg st)
                   (\<lambda>e. io_seq (sendErrorMessage (chat_id msg) e) (store_delete (from_id msg)))))"

section \<open>Dispatch of one update\<close>

text \<open>The \<open>onText\<close> patterns in registration order; the first match is called.\<close>

definition on_text :: "int \<Rightarrow> message \<Rightarrow> jstr \<Rightarrow> (world, unit) io" where
  "on_text now msg t =
     (if js_includes (js ''/start'') t then on_start msg
      else if js_includes (js ''/help'') t then on_help msg
      else if js_includes (js ''/newticket'') t then on_newticket now msg
      else if js_includes (js ''/cancel'') t then on_cancel msg
      else io_return ())"

definition process_message :: "js_env \<Rightarrow> int \<Rightarrow> message \<Rightarrow> (world, unit) io" where
  "process_message env now msg =
     io_seq (on_message env now msg)
       (io_seq (if is_media_msg msg then handleMedia now msg else io_return ())
          (case msg_text msg of Some t \<Rightarrow> on_text now msg t | None \<Rightarrow> io_return ()))"

datatype event = Incoming message | SweepTimer

datatype process = Running world | Crashed js_error world

definition bot_event :: "js_env \<Rightarrow> int \<Rightarrow> event \<Rightarrow> world \<Rightarrow> process" where
  "bot_event env now ev w =
     (case ev of
        Incoming msg \<Rightarrow>
          (case process_message env now msg w of
             (Inl e, w') \<Rightarrow> Crashed e w'
           | (Inr _, w') \<Rightarrow> Running w')
      | SweepTimer \<Rightarrow>
          (case cleanupExpiredStates env now (userStates w) of
             (Inl e, m) \<Rightarrow> Crashed e (w\<lparr>userStates := m\<rparr>)
           | (Inr _, m) \<Rightarrow> Running (w\<lparr>userStates := m\<rparr>)))"

text \<open>
  The runs of the process: it boots with an empty store, whatever the network will
  answer, and handles events at non-decreasing times.
\<close>

definition boot_world :: "bool list \<Rightarrow> world" where
  "boot_world fs = \<lparr>outbox = [], faults = fs, userStates = []\<rparr>"

inductive reach :: "js_env \<Rightarrow> int \<Rightarrow> process \<Rightarrow> bool" where
  boot: "reach env t (Running (boot_world fs))"
| step: "reach env t (Running w) \<Longrightarrow> t \<le> t' \<Longrightarrow> reach env t' (bot_event env t' ev w)"

text \<open>A trace of timed events run from a process state; a crashed process stays crashed.\<close>

fun run_events :: "js_env \<Rightarrow> process \<Rightarrow> (int \<times> event) list \<Rightarrow> process" where
  "run_events env p [] = p"
| "run_events env (Running w) ((t, ev) # evs) = run_events env (bot_event env t ev w) evs"
| "run_events env (Crashed e w) (_ # evs) = Crashed e w"

text \<open>The definitions a concrete run unfolds, for evaluation by the simplifier.\<close>

lemmas bot_defs = bot_event_def process_message_def on_message_def message_step_def on_text_def
  on_start_def on_help_def on_newticket_def on_cancel_def handleMedia_def sendErrorMessage_def
  read_store_def store_update_def store_write_def store_delete_def msg_text_def is_media_msg_def
  reporter_handle_def media_of_message_def io_defs send_def updateUserState_def Let_def

end
