(* ===== verification/BotInvariant.thy ===== *)
theory BotInvariant
  imports Bot
begin

text \<open>
  The invariant of the conversation store and its proof. \<open>keeps P m\<close> says that
  the computation \<open>m\<close> leaves the store in \<open>P\<close> when it starts in \<open>P\<close>, whatever
  it returns; the rules \<open>keeps_intros\<close> decompose a handler along the monad. The
  invariant \<open>store_inv t\<close>: the keys are distinct, every entry was written no later
  than \<open>t\<close>, and each entry's draft fits its phase (\<open>phase_ok\<close>): a conversation
  awaiting the merchant has the empty draft, one awaiting the description has no
  description, reporter or media yet, and one awaiting media has a draft that passes
  \<open>validateTicketData\<close> and a reporter. Every handler keeps it; the description
  branch writes an entry that breaks it, in place, but either refreshes that entry
  with a valid one or deletes it before the handler returns.
\<close>

named_theorems keeps_intros "decomposition rules of keeps"

definition keeps :: "(user_states \<Rightarrow> bool) \<Rightarrow> (world, 'a) io \<Rightarrow> bool" where
  "keeps P m \<longleftrightarrow> (\<forall>w. P (userStates w) \<longrightarrow> P (userStates (snd (m w))))"

lemma keeps_return [keeps_intros]: "keeps P (io_return a)"
  and keeps_throw [keeps_intros]: "keeps P (io_throw e)"
  and keeps_lift [keeps_intros]: "keeps P (io_lift r)"
  by (simp_all add: keeps_def io_defs)

lemma keeps_send [keeps_intros]: "keeps P (send r)"
  by (simp add: keeps_def send_def split: list.splits bool.splits)

lemma keeps_seq [keeps_intros]: "keeps P a \<Longrightarrow> keeps P b \<Longrightarrow> keeps P (io_seq a b)"
  by (auto simp: keeps_def io_seq_def io_bind_def split: prod.splits sum.splits)

lemma keeps_bind [keeps_intros]: "keeps P a \<Longrightarrow> (\<And>x. keeps P (f x)) \<Longrightarrow> keeps P (io_bind a f)"
  by (auto simp: keeps_def io_bind_def split: prod.splits sum.splits)

lemma keeps_catch [keeps_intros]: "keeps P a \<Longrightarrow> (\<And>e. keeps P (h e)) \<Longrightarrow> keeps P (io_catch a h)"
  by (auto simp: keeps_def io_catch_def split: prod.splits sum.splits)

lemma keeps_if [keeps_intros]: "keeps P a \<Longrightarrow> keeps P b \<Longrightarrow> keeps P (if c then a else b)"
  by simp

lemma keeps_sendErrorMessage [keeps_intros]: "keeps P (sendErrorMessage c e)"
  unfolding sendErrorMessage_def by (intro keeps_intros)

lemma keeps_log_error [keeps_intros]: "keeps P (log_error env)"
  unfolding log_error_def by (intro keeps_intros)

lemma keeps_send_media_items [keeps_intros]: "keeps P (send_media_items env u items)"
  by (induction items) (auto intro!: keeps_intros)

lemma keeps_createTicket [keeps_intros]: "keeps P (createTicket env c td)"
  unfolding createTicket_def by (intro keeps_intros)

lemma keeps_store_update:
  "(\<And>m. P m \<Longrightarrow> P (updateUserState now k ph td m)) \<Longrightarrow> keeps P (store_update now k ph td)"
  by (simp add: keeps_def store_update_def io_defs)

lemma keeps_store_delete:
  "(\<And>m. P m \<Longrightarrow> P (map_delete m k)) \<Longrightarrow> keeps P (store_delete k)"
  by (simp add: keeps_def store_delete_def io_defs)

lemma keeps_read [keeps_intros]: "(\<And>m. P m \<Longrightarrow> keeps P (f m)) \<Longrightarrow> keeps P (read_store f)"
  by (simp add: keeps_def read_store_def)

definition phase_ok :: "user_state \<Rightarrow> bool" where
  "phase_ok st =
     (case state st of
        AWAITING_MERCHANT \<Rightarrow> ticketData st = empty_ticket
      | AWAITING_DESCRIPTION \<Rightarrow>
          description (ticketData st) = None \<and> username (ticketData st) = None \<and> media (ticketData st) = []
      | AWAITING_MEDIA \<Rightarrow> validateTicketData (ticketData st) = None \<and> username (ticketData st) \<noteq> None)"

definition store_inv :: "int \<Rightarrow> user_states \<Rightarrow> bool" where
  "store_inv t m \<longleftrightarrow> js_map_wf m \<and> (\<forall>p \<in> set m. phase_ok (snd p) \<and> lastUpdated (snd p) \<le> t)"

lemma store_inv_update:
  "store_inv t m \<Longrightarrow> phase_ok \<lparr>state = ph, ticketData = td, lastUpdated = now\<rparr> \<Longrightarrow> now \<le> t \<Longrightarrow>
   store_inv t (updateUserState now k ph td m)"
  using set_updateUserState [of now k ph td m] by (auto simp: store_inv_def)

lemma store_inv_delete [simp]: "store_inv t m \<Longrightarrow> store_inv t (map_delete m k)"
  using set_map_delete_subset [of m k] by (auto simp: store_inv_def)

lemma store_inv_get:
  assumes "store_inv t m" "map_get m k = Some st"
  shows "phase_ok st \<and> lastUpdated st \<le> t"
proof -
  from assms(2) have "(k, st) \<in> set m" by (simp add: map_of_SomeD)
  with assms(1) show ?thesis unfolding store_inv_def by fastforce
qed

lemma store_inv_mono: "store_inv t m \<Longrightarrow> t \<le> t' \<Longrightarrow> store_inv t' m"
  by (force simp: store_inv_def)

lemma store_inv_filter: "store_inv t m \<Longrightarrow> store_inv t (filter P m)"
  by (auto simp: store_inv_def js_map_wf_def distinct_map_filter)

lemma keeps_store_update_inv:
  "phase_ok \<lparr>state = ph, ticketData = td, lastUpdated = now\<rparr> \<Longrightarrow>
   keeps (store_inv now) (store_update now k ph td)"
  by (rule keeps_store_update) (simp add: store_inv_update)

lemma keeps_store_delete_inv [keeps_intros]: "keeps (store_inv t) (store_delete k)"
  by (rule keeps_store_delete) simp

lemma validate_media_update [simp]:
  "validateTicketData (td\<lparr>media := x\<rparr>) = validateTicketData td"
  by (simp add: validateTicketData_def)

lemma keeps_on_newticket: "keeps (store_inv now) (on_newticket now msg)"
  unfolding on_newticket_def
  by (intro keeps_intros keeps_store_update_inv) (simp add: phase_ok_def)

lemma keeps_on_cancel: "keeps (store_inv t) (on_cancel msg)"
  unfolding on_cancel_def by (intro keeps_intros)

lemma keeps_handleMedia: "keeps (store_inv now) (handleMedia now msg)"
  unfolding handleMedia_def
proof (intro keeps_intros)
  fix m assume inv: "store_inv now m"
  show "keeps (store_inv now) (case map_get m (from_id msg) of
         None \<Rightarrow> send (SendMessage (chat_id msg) NoActiveTicket)
       | Some st \<Rightarrow>
           if state st \<noteq> AWAITING_MEDIA then send (SendMessage (chat_id msg) MediaNotExpected)
           else io_catch
             (io_bind (io_lift (media_of_message msg))
                (\<lambda>item. io_seq
                   (store_update now (from_id msg) (state st)
                      (ticketData st\<lparr>media := media (ticketData st) @ [item]\<rparr>))
                   (send (SendMessage (chat_id msg) MediaAttached))))
             (\<lambda>_. sendErrorMessage (chat_id msg) (Error media_failed)))"
  proof (cases "map_get m (from_id msg)")
    case None
    then show ?thesis by (simp add: keeps_intros)
  next
    case (Some st)
    with inv have "phase_ok st" by (simp add: store_inv_get)
    with Some show ?thesis
      by (auto simp: phase_ok_def intro!: keeps_intros keeps_store_update_inv)
  qed
qed

lemma map_set_map_set_same [simp]: "map_set (map_set m k v) k v' = map_set m k v'"
  by (simp add: map_set_update)

lemma map_delete_map_set_same:
  assumes "js_map_wf m"
  shows "map_delete (map_set m k v) k = map_delete m k"
proof -
  from assms have "js_map_wf (map_set m k v)" by simp
  then have "map_delete (map_set m k v) k = AList.delete k (map_set m k v)"
    by (rule map_delete_delete)
  also have "\<dots> = AList.delete k m" by (simp add: map_set_update delete_update_same)
  also have "\<dots> = map_delete m k" using assms by (simp add: map_delete_delete)
  finally show ?thesis .
qed

lemma store_inv_write_delete [simp]:
  "store_inv t m \<Longrightarrow> store_inv t (map_delete (map_set m k v) k)"
  by (simp add: map_delete_map_set_same store_inv_def [of t m])

lemma store_write_update_same:
  "io_seq (store_write k v) (io_seq (store_update now k ph td) x) = io_seq (store_update now k ph td) x"
  by (simp add: fun_eq_iff store_write_def store_update_def updateUserState_def io_defs)

lemma keeps_sendErrorMessage_delete [keeps_intros]:
  "keeps (store_inv t) (\<lambda>w. io_seq (sendErrorMessage c e) (store_delete k) w)"
  by (intro keeps_intros)

lemma keeps_write_throw_delete:
  "keeps (store_inv t)
     (io_catch (io_seq (store_write k v) (io_throw ex)) (\<lambda>e. io_seq (sendErrorMessage c e) (store_delete k)))"
  by (auto simp: keeps_def io_defs store_write_def store_delete_def sendErrorMessage_def send_def
           split: list.splits bool.splits)

lemma keeps_turn:
  assumes ok: "phase_ok st"
  shows "keeps (store_inv now)
           (io_catch (message_step env now msg st)
              (\<lambda>e. io_seq (sendErrorMessage (chat_id msg) e) (store_delete (from_id msg))))"
proof (cases "state st")
  case AWAITING_MERCHANT
  with ok show ?thesis
    by (auto simp: message_step_def phase_ok_def empty_ticket_def intro!: keeps_intros keeps_store_update_inv)
next
  case AWAITING_DESCRIPTION
  let ?td = "ticketData st\<lparr>description := msg_text msg, username := Some (reporter_handle msg)\<rparr>"
  show ?thesis
  proof (cases "validateTicketData ?td")
    case None
    with AWAITING_DESCRIPTION show ?thesis
      by (simp add: message_step_def Let_def store_write_update_same)
         (intro keeps_intros keeps_store_update_inv, simp add: phase_ok_def)
  next
    case (Some err)
    with AWAITING_DESCRIPTION show ?thesis
      by (simp add: message_step_def Let_def keeps_write_throw_delete)
  qed
next
  case AWAITING_MEDIA
  then show ?thesis
    by (auto simp: message_step_def Let_def split: option.splits intro!: keeps_intros)
qed

lemma keeps_on_message: "keeps (store_inv now) (on_message env now msg)"
  unfolding on_message_def
  by (intro keeps_intros)
     (auto split: option.splits intro!: keeps_intros keeps_turn dest: store_inv_get)

lemma keeps_on_text: "keeps (store_inv now) (on_text now msg t)"
  unfolding on_text_def on_start_def on_help_def
  by (intro keeps_intros keeps_on_newticket keeps_on_cancel)

lemma keeps_process_message: "keeps (store_inv now) (process_message env now msg)"
  unfolding process_message_def
  by (auto split: option.splits intro!: keeps_intros keeps_on_message keeps_handleMedia keeps_on_text)

section \<open>Reachable states\<close>

lemma cleanup_keeps_inv:
  assumes "cleanupExpiredStates env now m = (r, m')" "store_inv t m"
  shows "store_inv t m'"
proof (cases "lconsole_defined env")
  case True
  with assms have "m' = filter (\<lambda>p. \<not> expired now (snd p)) m"
    by (simp add: cleanupExpiredStates_bound store_inv_def)
  with assms(2) show ?thesis by (simp add: store_inv_filter)
next
  case False
  with assms show ?thesis
    by (auto simp: cleanupExpiredStates_unbound split: option.splits)
qed

definition proc_inv :: "int \<Rightarrow> process \<Rightarrow> bool" where
  "proc_inv t p = (case p of Running w \<Rightarrow> store_inv t (userStates w) | Crashed _ w \<Rightarrow> True)"

lemma proc_inv_step:
  assumes "store_inv t (userStates w)" "t \<le> t'"
  shows "proc_inv t' (bot_event env t' ev w)"
proof (cases ev)
  case (Incoming msg)
  from assms have "store_inv t' (userStates w)" by (rule store_inv_mono)
  with keeps_process_message [of t' env msg] have
    "store_inv t' (userStates (snd (process_message env t' msg w)))"
    by (simp add: keeps_def)
  with Incoming show ?thesis
    by (auto simp: bot_event_def proc_inv_def split: prod.splits sum.splits)
next
  case SweepTimer
  from assms have "store_inv t' (userStates w)" by (rule store_inv_mono)
  with SweepTimer show ?thesis
    by (auto simp: bot_event_def proc_inv_def split: prod.splits sum.splits
             dest: cleanup_keeps_inv)
qed

lemma reach_proc_inv: "reach env t p \<Longrightarrow> proc_inv t p"
proof (induction rule: reach.induct)
  case (boot env t fs)
  then show ?case by (simp add: proc_inv_def boot_world_def store_inv_def)
next
  case (step env t w t' ev)
  then have "store_inv t (userStates w)" by (simp add: proc_inv_def)
  then show ?case using step.hyps(2) by (rule proc_inv_step)
qed

lemma reach_store_inv_helper: "reach env t (Running w) \<Longrightarrow> store_inv t (userStates w)"
  using reach_proc_inv [of env t "Running w"] by (simp add: proc_inv_def)

end
