(* ===== verification/BotBehaviour.thy ===== *)
theory BotBehaviour
  imports BotInvariant
begin

text \<open>
  What the bot does, stated over the reachable states of the process and over single
  events: the store invariant and the safety it gives the dispatch, the turns of
  the conversation and their error paths, the media handler, and the expiry sweep
  as the deployed process runs it. The witnesses run a concrete conversation from
  boot: the user 7 (\<open>alice\<close>) starts a ticket at time 1000, names the merchant at
  2000 and describes the problem at 3000 (\<open>demo_world\<close>).
\<close>

section \<open>A concrete run\<close>

definition demo_env :: js_env where
  "demo_env = deployed_env (-100) (\<lambda>_. js ''2026-11-09T00:00:00.000Z'')"

definition alice :: "content \<Rightarrow> message" where
  "alice c = \<lparr>from_id = 7, from_username = Some (js ''alice''), chat_id = 7, content = c\<rparr>"

definition demo_desc :: jstr where
  "demo_desc = js ''Screen freezes on checkout page for ten seconds''"

definition demo_draft :: ticket_data where
  "demo_draft = \<lparr>merchantName = Some (js ''Acme Corp''), description = Some demo_desc,
                  username = Some (js ''alice''), media = []\<rparr>"

definition demo_state :: user_state where
  "demo_state = \<lparr>state = AWAITING_MEDIA, ticketData = demo_draft, lastUpdated = 3000\<rparr>"

definition demo_world :: world where
  "demo_world =
     \<lparr>outbox = [SendMessage 7 AskMerchant, SendMessage 7 AskDescription, SendMessage 7 InfoReceived],
      faults = [], userStates = [(7, demo_state)]\<rparr>"

text \<open>A second user without a conversation, and a store awaiting alice's merchant.\<close>

definition bob :: "content \<Rightarrow> message" where
  "bob c = \<lparr>from_id = 8, from_username = None, chat_id = 8, content = c\<rparr>"

definition merchant_state :: user_state where
  "merchant_state = \<lparr>state = AWAITING_MERCHANT, ticketData = empty_ticket, lastUpdated = 1000\<rparr>"

definition merchant_world :: world where
  "merchant_world = \<lparr>outbox = [SendMessage 7 AskMerchant], faults = [], userStates = [(7, merchant_state)]\<rparr>"

lemmas demo_defs = demo_env_def alice_def demo_desc_def demo_draft_def demo_state_def demo_world_def
  deployed_env_def bob_def merchant_state_def merchant_world_def

lemma demo_reach: "reach demo_env 3000 (Running demo_world)"
proof -
  let ?w1 = "\<lparr>outbox = [SendMessage 7 AskMerchant], faults = [],
       userStates = [(7, \<lparr>state = AWAITING_MERCHANT, ticketData = empty_ticket, lastUpdated = 1000\<rparr>)]\<rparr>"
  let ?w2 = "\<lparr>outbox = [SendMessage 7 AskMerchant, SendMessage 7 AskDescription], faults = [],
       userStates = [(7, \<lparr>state = AWAITING_DESCRIPTION,
                          ticketData = empty_ticket\<lparr>merchantName := Some (js ''Acme Corp'')\<rparr>,
                          lastUpdated = 2000\<rparr>)]\<rparr>"
  have r0: "reach demo_env 0 (Running (boot_world []))" by (rule reach.boot)
  have e1: "bot_event demo_env 1000 (Incoming (alice (TextMsg (js ''/newticket'')))) (boot_world []) =
            Running ?w1"
    by (simp add: bot_defs boot_world_def alice_def)
  have r1: "reach demo_env 1000 (Running ?w1)"
    using reach.step [OF r0, of 1000 "Incoming (alice (TextMsg (js ''/newticket'')))"] e1 by simp
  have e2: "bot_event demo_env 2000 (Incoming (alice (TextMsg (js ''Acme Corp'')))) ?w1 = Running ?w2"
    by (simp add: bot_defs alice_def)
  have r2: "reach demo_env 2000 (Running ?w2)"
    using reach.step [OF r1, of 2000 "Incoming (alice (TextMsg (js ''Acme Corp'')))"] e2 by simp
  have e3: "bot_event demo_env 3000 (Incoming (alice (TextMsg demo_desc))) ?w2 = Running demo_world"
    by (simp add: bot_defs demo_defs empty_ticket_def validateTicketData_def short_field_def
                  js_trim_def js_is_space_def)
  show ?thesis
    using reach.step [OF r2, of 3000 "Incoming (alice (TextMsg demo_desc))"] e3 by simp
qed

section \<open>Helper facts\<close>

lemma done_not_command:
  assumes "js_to_lower t = js ''done''"
  shows "\<not> js_starts_with (js ''/'') t \<and> \<not> js_includes (js ''/start'') t \<and> \<not> js_includes (js ''/help'') t \<and>
         \<not> js_includes (js ''/newticket'') t \<and> \<not> js_includes (js ''/cancel'') t"
proof -
  have "length (js_to_lower t) = length (js ''done'')" using assms by simp
  then have len: "length t = 4" by simp
  then obtain c cs where t: "t = c # cs" by (cases t) auto
  from assms t have "js_lower_unit c = 0x64" by (simp add: js_to_lower_def)
  then have "c \<noteq> 0x2F" by (auto simp: js_lower_unit_def)
  with t len show ?thesis by (auto dest: js_includes_length)
qed

section \<open>Submitting the ticket\<close>

text \<open>
  C3: From any reachable state, when a user whose conversation awaits media sends
  \<open>done\<close> in any letter case and the network delivers every request, the ticket
  text is sent to the destination chat followed by every attachment of the draft in
  the order they were attached, the user is told the ticket was created, and the
  conversation is removed from the store.
\<close>

theorem done_dispatches_ticket:
  assumes hreach: "reach env t (Running w)" and "t \<le> now"
    and hget: "map_get (userStates w) (from_id msg) = Some st" and hph: "state st = AWAITING_MEDIA"
    and htxt: "content msg = TextMsg txt" "js_to_lower txt = js ''done''" and hnet: "faults w = []"
  shows "\<exists>html u. username (ticketData st) = Some u \<and>
     formatTicketMessage (merchantName (ticketData st)) (description (ticketData st))
       (username (ticketData st)) (iso_string env now) = Inr html \<and>
     bot_event env now (Incoming msg) w =
       Running (w\<lparr>outbox := outbox w @ SendMessage (target_chat env) (TicketHtml html)
                    # map (media_request env u) (media (ticketData st)) @ [SendMessage (chat_id msg) TicketCreated],
                  userStates := map_delete (userStates w) (from_id msg)\<rparr>)"
proof -
  from reach_store_inv_helper [OF hreach] hget have "phase_ok st" by (simp add: store_inv_get)
  with hph obtain m d u where f: "merchantName (ticketData st) = Some m" "description (ticketData st) = Some d"
      "username (ticketData st) = Some u"
    by (auto simp: phase_ok_def validateTicketData_def short_field_def split: if_splits option.splits)
  let ?html = "ticket_template (escape_ref m) (escape_ref u) (escape_ref d) (iso_string env now)"
  have ct: "createTicket env (iso_string env now) (ticketData st) w =
      (Inr True, w\<lparr>outbox := outbox w @ SendMessage (target_chat env) (TicketHtml ?html)
                     # map (media_request env u) (media (ticketData st))\<rparr>)"
    using createTicket_delivers [OF hnet f] .
  from htxt(2) have nc: "\<not> js_starts_with (js ''/'') txt \<and> \<not> js_includes (js ''/start'') txt \<and>
      \<not> js_includes (js ''/help'') txt \<and> \<not> js_includes (js ''/newticket'') txt \<and> \<not> js_includes (js ''/cancel'') txt"
    by (rule done_not_command)
  have "bot_event env now (Incoming msg) w =
       Running (w\<lparr>outbox := outbox w @ SendMessage (target_chat env) (TicketHtml ?html)
                    # map (media_request env u) (media (ticketData st)) @ [SendMessage (chat_id msg) TicketCreated],
                  userStates := map_delete (userStates w) (from_id msg)\<rparr>)"
    using hget hph htxt ct nc hnet
    by (simp add: bot_event_def process_message_def on_message_def read_store_def message_step_def Let_def
                  io_defs send_def store_delete_def msg_text_def is_media_msg_def on_text_def)
  with f show ?thesis by (auto simp: formatTicketMessage_Some)
qed


theorem done_dispatches_ticket_witness:
  "reach demo_env 3000 (Running demo_world) \<and> (3000::int) \<le> 4000 \<and>
   map_get (userStates demo_world) (from_id (alice (TextMsg (js ''DONE'')))) = Some demo_state \<and>
   state demo_state = AWAITING_MEDIA \<and>
   content (alice (TextMsg (js ''DONE''))) = TextMsg (js ''DONE'') \<and> js_to_lower (js ''DONE'') = js ''done'' \<and>
   faults demo_world = [] \<and>
   (\<exists>html u. username (ticketData demo_state) = Some u \<and>
     formatTicketMessage (merchantName (ticketData demo_state)) (description (ticketData demo_state))
       (username (ticketData demo_state)) (iso_string demo_env 4000) = Inr html \<and>
     bot_event demo_env 4000 (Incoming (alice (TextMsg (js ''DONE'')))) demo_world =
       Running (demo_world\<lparr>outbox := outbox demo_world @ SendMessage (target_chat demo_env) (TicketHtml html)
                    # map (media_request demo_env u) (media (ticketData demo_state)) @
                    [SendMessage (chat_id (alice (TextMsg (js ''DONE'')))) TicketCreated],
                  userStates := map_delete (userStates demo_world) (from_id (alice (TextMsg (js ''DONE''))))\<rparr>))"
proof -
  have h: "(3000::int) \<le> 4000"
    "map_get (userStates demo_world) (from_id (alice (TextMsg (js ''DONE'')))) = Some demo_state"
    "state demo_state = AWAITING_MEDIA"
    "content (alice (TextMsg (js ''DONE''))) = TextMsg (js ''DONE'')" "js_to_lower (js ''DONE'') = js ''done''"
    "faults demo_world = []"
    by (simp_all add: demo_defs js_to_lower_def js_lower_unit_def)
  show ?thesis using demo_reach h done_dispatches_ticket [OF demo_reach h] by blast
qed

section \<open>Turns of the conversation\<close>

text \<open>
  C13: A plain-text message from a user with no conversation, matching none of the
  command patterns, is ignored: no reply is sent and no conversation is created.
\<close>
theorem plain_text_without_conversation_ignored:
  assumes "map_get (userStates w) (from_id msg) = None" "content msg = TextMsg t"
    and "\<not> js_includes (js ''/start'') t" "\<not> js_includes (js ''/help'') t"
    and "\<not> js_includes (js ''/newticket'') t" "\<not> js_includes (js ''/cancel'') t"
  shows "bot_event env now (Incoming msg) w = Running w"
  using assms by (simp add: bot_defs)

theorem plain_text_without_conversation_ignored_witness:
  "map_get (userStates demo_world) (from_id (bob (TextMsg (js ''hello'')))) = None \<and>
   content (bob (TextMsg (js ''hello''))) = TextMsg (js ''hello'') \<and>
   \<not> js_includes (js ''/start'') (js ''hello'') \<and> \<not> js_includes (js ''/help'') (js ''hello'') \<and>
   \<not> js_includes (js ''/newticket'') (js ''hello'') \<and> \<not> js_includes (js ''/cancel'') (js ''hello'') \<and>
   bot_event demo_env 4000 (Incoming (bob (TextMsg (js ''hello'')))) demo_world = Running demo_world"
proof -
  have h: "map_get (userStates demo_world) (from_id (bob (TextMsg (js ''hello'')))) = None"
    "content (bob (TextMsg (js ''hello''))) = TextMsg (js ''hello'')"
    "\<not> js_includes (js ''/start'') (js ''hello'')" "\<not> js_includes (js ''/help'') (js ''hello'')"
    "\<not> js_includes (js ''/newticket'') (js ''hello'')" "\<not> js_includes (js ''/cancel'') (js ''hello'')"
    by (simp_all add: demo_defs)
  show ?thesis using h plain_text_without_conversation_ignored [OF h] by simp
qed

text \<open>
  C14: \<open>/newticket\<close> starts the user's conversation afresh whatever state it was in
  and whatever the network does: the user's entry becomes the empty draft awaiting the
  merchant, stamped now, and no other user's entry changes.
\<close>
theorem newticket_resets_conversation:
  assumes "content msg = TextMsg (js ''/newticket'')"
  shows "\<exists>w'. bot_event env now (Incoming msg) w = Running w' \<and>
           map_get (userStates w') (from_id msg) =
             Some \<lparr>state = AWAITING_MERCHANT, ticketData = empty_ticket, lastUpdated = now\<rparr> \<and>
           (\<forall>k. k \<noteq> from_id msg \<longrightarrow> map_get (userStates w') k = map_get (userStates w) k)"
  using assms by (auto simp: bot_defs split: list.splits bool.splits)

theorem newticket_resets_conversation_witness:
  "content (alice (TextMsg (js ''/newticket''))) = TextMsg (js ''/newticket'') \<and>
   (\<exists>w'. bot_event demo_env 4000 (Incoming (alice (TextMsg (js ''/newticket'')))) demo_world = Running w' \<and>
      map_get (userStates w') (from_id (alice (TextMsg (js ''/newticket'')))) =
        Some \<lparr>state = AWAITING_MERCHANT, ticketData = empty_ticket, lastUpdated = 4000\<rparr> \<and>
      (\<forall>k. k \<noteq> from_id (alice (TextMsg (js ''/newticket''))) \<longrightarrow>
             map_get (userStates w') k = map_get (userStates demo_world) k))"
proof -
  have h: "content (alice (TextMsg (js ''/newticket''))) = TextMsg (js ''/newticket'')"
    by (simp add: alice_def)
  show ?thesis using h newticket_resets_conversation [OF h] by blast
qed

section \<open>The media handler\<close>

text \<open>
  C15: A photo or video from a user with no conversation is answered with the
  "no active ticket" notice and changes no state.
\<close>
theorem media_without_conversation_rejected:
  assumes "map_get (userStates w) (from_id msg) = None" "is_media_msg msg" "faults w = []"
  shows "bot_event env now (Incoming msg) w =
           Running (w\<lparr>outbox := outbox w @ [SendMessage (chat_id msg) NoActiveTicket]\<rparr>)"
  using assms by (auto simp: bot_defs split: content.splits)

theorem media_without_conversation_rejected_witness:
  "map_get (userStates demo_world) (from_id (bob (PhotoMsg [js ''P'']))) = None \<and>
   is_media_msg (bob (PhotoMsg [js ''P''])) \<and> faults demo_world = [] \<and>
   bot_event demo_env 4000 (Incoming (bob (PhotoMsg [js ''P'']))) demo_world =
     Running (demo_world\<lparr>outbox := outbox demo_world @ [SendMessage (chat_id (bob (PhotoMsg [js ''P'']))) NoActiveTicket]\<rparr>)"
proof -
  have h: "map_get (userStates demo_world) (from_id (bob (PhotoMsg [js ''P'']))) = None"
    "is_media_msg (bob (PhotoMsg [js ''P'']))" "faults demo_world = []"
    by (simp_all add: demo_defs is_media_msg_def)
  show ?thesis using h media_without_conversation_rejected [OF h] by simp
qed

text \<open>
  C16: The two rejections of \<open>handleMedia\<close> are sent outside its \<open>try\<close>: when the
  "no active ticket" notice cannot be sent, the handler's promise rejects with nobody
  to handle it, and the process ends.
\<close>
theorem media_rejection_failure_crashes:
  assumes "map_get (userStates w) (from_id msg) = None" "is_media_msg msg" "faults w = True # fs"
  shows "bot_event env now (Incoming msg) w = Crashed TelegramError (w\<lparr>faults := fs\<rparr>)"
  using assms by (auto simp: bot_defs split: content.splits)

theorem media_rejection_failure_crashes_witness:
  "map_get (userStates (demo_world\<lparr>faults := [True]\<rparr>)) (from_id (bob (PhotoMsg [js ''P'']))) = None \<and>
   is_media_msg (bob (PhotoMsg [js ''P''])) \<and> faults (demo_world\<lparr>faults := [True]\<rparr>) = True # [] \<and>
   bot_event demo_env 4000 (Incoming (bob (PhotoMsg [js ''P'']))) (demo_world\<lparr>faults := [True]\<rparr>) =
     Crashed TelegramError (demo_world\<lparr>faults := [True]\<rparr>\<lparr>faults := []\<rparr>)"
proof -
  have h: "map_get (userStates (demo_world\<lparr>faults := [True]\<rparr>)) (from_id (bob (PhotoMsg [js ''P'']))) = None"
    "is_media_msg (bob (PhotoMsg [js ''P'']))" "faults (demo_world\<lparr>faults := [True]\<rparr>) = True # []"
    by (simp_all add: demo_defs is_media_msg_def)
  show ?thesis using h media_rejection_failure_crashes [OF h] by simp
qed

text \<open>
  C17: A photo or video while the conversation awaits the merchant or the description
  is answered with "media not expected" and changes no state.
\<close>
theorem media_in_wrong_phase_rejected:
  assumes "map_get (userStates w) (from_id msg) = Some st" "state st \<noteq> AWAITING_MEDIA"
    and "is_media_msg msg" "faults w = []"
  shows "bot_event env now (Incoming msg) w =
           Running (w\<lparr>outbox := outbox w @ [SendMessage (chat_id msg) MediaNotExpected]\<rparr>)"
  using assms by (auto simp: bot_defs split: content.splits)

theorem media_in_wrong_phase_rejected_witness:
  "map_get (userStates merchant_world) (from_id (alice (VideoMsg (js ''V'')))) = Some merchant_state \<and>
   state merchant_state \<noteq> AWAITING_MEDIA \<and> is_media_msg (alice (VideoMsg (js ''V''))) \<and>
   faults merchant_world = [] \<and>
   bot_event demo_env 4000 (Incoming (alice (VideoMsg (js ''V'')))) merchant_world =
     Running (merchant_world\<lparr>outbox := outbox merchant_world @
                [SendMessage (chat_id (alice (VideoMsg (js ''V'')))) MediaNotExpected]\<rparr>)"
proof -
  have h: "map_get (userStates merchant_world) (from_id (alice (VideoMsg (js ''V'')))) = Some merchant_state"
    "state merchant_state \<noteq> AWAITING_MEDIA" "is_media_msg (alice (VideoMsg (js ''V'')))"
    "faults merchant_world = []"
    by (simp_all add: demo_defs is_media_msg_def)
  show ?thesis using h media_in_wrong_phase_rejected [OF h] by simp
qed

text \<open>
  C18: In the media phase a photo (its largest size, the last of the list) or a video
  is appended to the end of the draft's media, the entry is refreshed with the current
  time, and the user is told the attachment was received.
\<close>
theorem media_appended_in_order:
  assumes "map_get (userStates w) (from_id msg) = Some st" "state st = AWAITING_MEDIA"
    and "media_of_message msg = Inr item" "faults w = []"
  shows "(case content msg of
            PhotoMsg ps \<Rightarrow> item = \<lparr>item_type = Photo, fileId = last ps\<rparr>
          | VideoMsg f \<Rightarrow> item = \<lparr>item_type = Video, fileId = f\<rparr>
          | _ \<Rightarrow> False) \<and>
         bot_event env now (Incoming msg) w =
           Running (w\<lparr>outbox := outbox w @ [SendMessage (chat_id msg) MediaAttached],
                      userStates := updateUserState now (from_id msg) AWAITING_MEDIA
                         (ticketData st\<lparr>media := media (ticketData st) @ [item]\<rparr>) (userStates w)\<rparr>)"
proof
  from assms(3) show "case content msg of
            PhotoMsg ps \<Rightarrow> item = \<lparr>item_type = Photo, fileId = last ps\<rparr>
          | VideoMsg f \<Rightarrow> item = \<lparr>item_type = Video, fileId = f\<rparr>
          | _ \<Rightarrow> False"
    by (auto simp: media_of_message_def split: content.splits if_splits)
  from assms(3) have "is_media_msg msg" "msg_text msg = None"
    by (auto simp: media_of_message_def is_media_msg_def msg_text_def split: content.splits if_splits)
  with assms show "bot_event env now (Incoming msg) w =
           Running (w\<lparr>outbox := outbox w @ [SendMessage (chat_id msg) MediaAttached],
                      userStates := updateUserState now (from_id msg) AWAITING_MEDIA
                         (ticketData st\<lparr>media := media (ticketData st) @ [item]\<rparr>) (userStates w)\<rparr>)"
    by (simp add: bot_event_def process_message_def on_message_def handleMedia_def read_store_def
                  io_defs send_def store_update_def)
qed

theorem media_appended_in_order_witness:
  "map_get (userStates demo_world) (from_id (alice (PhotoMsg [js ''small'', js ''large'']))) = Some demo_state \<and>
   state demo_state = AWAITING_MEDIA \<and>
   media_of_message (alice (PhotoMsg [js ''small'', js ''large''])) = Inr \<lparr>item_type = Photo, fileId = js ''large''\<rparr> \<and>
   faults demo_world = [] \<and>
   \<lparr>item_type = Photo, fileId = js ''large''\<rparr> = \<lparr>item_type = Photo, fileId = last [js ''small'', js ''large'']\<rparr> \<and>
   bot_event demo_env 4000 (Incoming (alice (PhotoMsg [js ''small'', js ''large'']))) demo_world =
     Running (demo_world\<lparr>outbox := outbox demo_world @
                 [SendMessage (chat_id (alice (PhotoMsg [js ''small'', js ''large'']))) MediaAttached],
               userStates := updateUserState 4000 (from_id (alice (PhotoMsg [js ''small'', js ''large''])))
                  AWAITING_MEDIA (ticketData demo_state\<lparr>media := media (ticketData demo_state) @
                     [\<lparr>item_type = Photo, fileId = js ''large''\<rparr>]\<rparr>) (userStates demo_world)\<rparr>)"
proof -
  have h: "map_get (userStates demo_world) (from_id (alice (PhotoMsg [js ''small'', js ''large'']))) = Some demo_state"
    "state demo_state = AWAITING_MEDIA"
    "media_of_message (alice (PhotoMsg [js ''small'', js ''large''])) = Inr \<lparr>item_type = Photo, fileId = js ''large''\<rparr>"
    "faults demo_world = []"
    by (simp_all add: demo_defs media_of_message_def)
  show ?thesis using h media_appended_in_order [OF h] by (simp add: alice_def)
qed

text \<open>
  C19: A message without text (a sticker, a document) while the conversation awaits
  media makes \<open>msg.text.toLowerCase()\<close> throw a \<open>TypeError\<close>: the user receives
  its text as an error report and the conversation, draft and media included, is
  deleted.
\<close>
theorem non_text_in_media_phase_ends_conversation:
  assumes "map_get (userStates w) (from_id msg) = Some st" "state st = AWAITING_MEDIA"
    and "content msg = OtherMsg" "faults w = []"
  shows "bot_event env now (Incoming msg) w =
           Running (w\<lparr>outbox := outbox w @ [SendMessage (chat_id msg)
                        (ErrorReport (error_message (TypeError (js ''toLowerCase''))))],
                      userStates := map_delete (userStates w) (from_id msg)\<rparr>)"
  using assms by (simp add: bot_defs)

theorem non_text_in_media_phase_ends_conversation_witness:
  "map_get (userStates demo_world) (from_id (alice OtherMsg)) = Some demo_state \<and>
   state demo_state = AWAITING_MEDIA \<and> content (alice OtherMsg) = OtherMsg \<and> faults demo_world = [] \<and>
   bot_event demo_env 4000 (Incoming (alice OtherMsg)) demo_world =
     Running (demo_world\<lparr>outbox := outbox demo_world @ [SendMessage (chat_id (alice OtherMsg))
                        (ErrorReport (error_message (TypeError (js ''toLowerCase''))))],
                      userStates := map_delete (userStates demo_world) (from_id (alice OtherMsg))\<rparr>)"
proof -
  have h: "map_get (userStates demo_world) (from_id (alice OtherMsg)) = Some demo_state"
    "state demo_state = AWAITING_MEDIA" "content (alice OtherMsg) = OtherMsg" "faults demo_world = []"
    by (simp_all add: demo_defs)
  show ?thesis using h non_text_in_media_phase_ends_conversation [OF h] by simp
qed

section \<open>Order of the handlers of one update\<close>

text \<open>
  C22: The command patterns match anywhere in the text, and the \<open>'message'\<close>
  handler only skips texts that start with a slash. A text such as
  \<open>hello /cancel\<close> sent while the merchant is awaited is first stored as the
  merchant name, which moves the conversation on and prompts for the description,
  and then cancels the conversation.
\<close>
theorem embedded_cancel_runs_both_handlers:
  assumes "map_get (userStates w) (from_id msg) = Some st" "state st = AWAITING_MERCHANT"
    and "content msg = TextMsg t" "\<not> js_starts_with (js ''/'') t"
    and "\<not> js_includes (js ''/start'') t" "\<not> js_includes (js ''/help'') t"
    and "\<not> js_includes (js ''/newticket'') t" "js_includes (js ''/cancel'') t"
    and "faults w = []" "js_map_wf (userStates w)"
  shows "bot_event env now (Incoming msg) w =
           Running (w\<lparr>outbox := outbox w @ [SendMessage (chat_id msg) AskDescription,
                                            SendMessage (chat_id msg) CancelledText],
                      userStates := map_delete (userStates w) (from_id msg)\<rparr>)"
  using assms by (simp add: bot_defs map_delete_map_set_same keys_map_set)

theorem embedded_cancel_runs_both_handlers_witness:
  "map_get (userStates merchant_world) (from_id (alice (TextMsg (js ''hello /cancel'')))) = Some merchant_state \<and>
   state merchant_state = AWAITING_MERCHANT \<and>
   content (alice (TextMsg (js ''hello /cancel''))) = TextMsg (js ''hello /cancel'') \<and>
   \<not> js_starts_with (js ''/'') (js ''hello /cancel'') \<and>
   \<not> js_includes (js ''/start'') (js ''hello /cancel'') \<and> \<not> js_includes (js ''/help'') (js ''hello /cancel'') \<and>
   \<not> js_includes (js ''/newticket'') (js ''hello /cancel'') \<and> js_includes (js ''/cancel'') (js ''hello /cancel'') \<and>
   faults merchant_world = [] \<and> js_map_wf (userStates merchant_world) \<and>
   bot_event demo_env 4000 (Incoming (alice (TextMsg (js ''hello /cancel'')))) merchant_world =
     Running (merchant_world\<lparr>outbox := outbox merchant_world @ [SendMessage 7 AskDescription, SendMessage 7 CancelledText],
                userStates := map_delete (userStates merchant_world) 7\<rparr>)"
proof -
  have h: "map_get (userStates merchant_world) (from_id (alice (TextMsg (js ''hello /cancel'')))) = Some merchant_state"
    "state merchant_state = AWAITING_MERCHANT"
    "content (alice (TextMsg (js ''hello /cancel''))) = TextMsg (js ''hello /cancel'')"
    "\<not> js_starts_with (js ''/'') (js ''hello /cancel'')"
    "\<not> js_includes (js ''/start'') (js ''hello /cancel'')" "\<not> js_includes (js ''/help'') (js ''hello /cancel'')"
    "\<not> js_includes (js ''/newticket'') (js ''hello /cancel'')" "js_includes (js ''/cancel'') (js ''hello /cancel'')"
    "faults merchant_world = []" "js_map_wf (userStates merchant_world)"
    by (simp_all add: demo_defs js_map_wf_def)
  show ?thesis using h embedded_cancel_runs_both_handlers [OF h] by (simp add: alice_def)
qed

end
