(* ===== verification/Server.thy ===== *)
theory Server
  imports Bot
begin

text \<open>
  src/index.js, the HTTP side of the process, and the configuration the two modules
  read from \<open>process.env\<close> (after \<open>dotenv.config()\<close>). The Express application is
  the JSON body parser (\<open>app.use(express.json())\<close>) followed by two routes in
  registration order, the webhook \<open>POST /webhook/${BOT_TOKEN}\<close> and the health check
  \<open>GET /health\<close>; a request no route takes is answered 404, an exception thrown by a
  route handler is caught by Express and answered 500. Express's path matching
  (path-to-regexp, case-insensitive, optional trailing slash) is a parameter \<open>pm\<close>
  of the application, so the lemmas hold for every matcher that matches a path with
  itself. The webhook hands the parsed body to the bot object through a method named
  in the source; the bot object of node-telegram-bot-api offers \<open>processUpdate\<close>
  for that purpose, and no \<open>handleUpdate\<close>.
\<close>

section \<open>Configuration\<close>

text \<open>\<open>process.env\<close>: the value of each variable, if it is set.\<close>

type_synonym process_env = "jstr \<Rightarrow> jstr option"

text \<open>
  \<open>process.env.PORT || 3000\<close>: an unset or empty variable gives the number 3000,
  any other value is passed to \<open>app.listen\<close> as the string it is.
\<close>

datatype listen_port = PortNumber int | PortName jstr

definition port_of :: "process_env \<Rightarrow> listen_port" where
  "port_of penv =
     (case penv (js ''PORT'') of
        Some s \<Rightarrow> if s = [] then PortNumber 3000 else PortName s
      | None \<Rightarrow> PortNumber 3000)"

text \<open>The webhook route's path, a template literal over \<open>BOT_TOKEN\<close>.\<close>

definition webhook_path :: "process_env \<Rightarrow> jstr" where
  "webhook_path penv = js ''/webhook/'' @ js_str_of (penv (js ''BOT_TOKEN''))"

text \<open>
  \<open>startServer\<close>: \<open>app.listen\<close> either starts listening or throws synchronously
  (an invalid port); the \<open>catch\<close> block calls \<open>logger.error\<close> before
  \<open>process.exit(1)\<close>, and \<open>logger\<close> is not declared in index.js, so in the
  deployed scope the \<open>catch\<close> block throws and the rejected promise of
  \<open>startServer()\<close> is unhandled.
\<close>

datatype listen_result = ListenOk | ListenThrows js_error

datatype server_status = Listening listen_port | ServerExited int | ServerCrashed js_error

definition startServer :: "js_env \<Rightarrow> process_env \<Rightarrow> listen_result \<Rightarrow> server_status" where
  "startServer env penv r =
     (case r of
        ListenOk \<Rightarrow> Listening (port_of penv)
      | ListenThrows e \<Rightarrow>
          if logger_defined env then ServerExited 1
          else ServerCrashed (ReferenceError (js ''logger'')))"

section \<open>Requests and responses\<close>

datatype http_method = GET | POST | OtherMethod jstr

text \<open>
  The body of a webhook request is a Bot API update; the handlers of bot.js are
  reached only through its \<open>message\<close>.
\<close>

datatype update = MessageUpdate message | OtherUpdate

datatype req_body = JsonBody update | MalformedJson | NoJsonBody

record http_request =
  req_method :: http_method
  req_path :: jstr
  req_body :: req_body

text \<open>
  \<open>res.sendStatus(n)\<close>, \<open>res.status(n).json(obj)\<close>, a page of Express's final
  handler (404 for no route, the status of a body-parser error), and the 500 page
  Express sends for an exception thrown by a route handler.
\<close>

datatype http_response =
    SendStatus int
  | JsonReply int "(jstr \<times> jstr) list"
  | ErrorPage int
  | HandlerThrew js_error

fun http_status :: "http_response \<Rightarrow> int" where
  "http_status (SendStatus n) = n"
| "http_status (JsonReply n _) = n"
| "http_status (ErrorPage n) = n"
| "http_status (HandlerThrew _) = 500"

text \<open>
  \<open>express.json()\<close>: a JSON body is parsed into \<open>req.body\<close>, a malformed one ends the
  request with 400, and a request without a JSON body gets the empty object (no
  \<open>message\<close>).
\<close>

definition json_middleware :: "http_request \<Rightarrow> http_response + update" where
  "json_middleware req =
     (case req_body req of
        JsonBody u \<Rightarrow> Inr u
      | MalformedJson \<Rightarrow> Inl (ErrorPage 400)
      | NoJsonBody \<Rightarrow> Inr OtherUpdate)"

section \<open>The bot object and the routes\<close>

text \<open>
  The method of node-telegram-bot-api's \<open>TelegramBot\<close> that takes an update: it
  emits the update's message to the handlers of bot.js, which is the delivery
  \<open>bot_event\<close> models. A property the object does not have is \<open>undefined\<close>, and
  calling it throws.
\<close>

definition bot_method :: "js_env \<Rightarrow> int \<Rightarrow> jstr \<Rightarrow> (update \<Rightarrow> world \<Rightarrow> process) option" where
  "bot_method env now name =
     (if name = js ''processUpdate'' then
        Some (\<lambda>u w. case u of
                      MessageUpdate msg \<Rightarrow> bot_event env now (Incoming msg) w
                    | OtherUpdate \<Rightarrow> Running w)
      else None)"

text \<open>
  The webhook route: \<open>bot.<callee>(req.body)\<close>, then \<open>res.sendStatus(200)\<close>. The
  handlers the update reaches are \<open>async\<close>: their promises are not awaited, so the
  answer is 200 whatever they do. The source calls \<open>handleUpdate\<close>.
\<close>

definition webhook_route :: "jstr \<Rightarrow> js_env \<Rightarrow> int \<Rightarrow> update \<Rightarrow> world \<Rightarrow> http_response \<times> process" where
  "webhook_route callee env now u w =
     (case bot_method env now callee of
        None \<Rightarrow> (HandlerThrew (NotCallable (js ''bot.'' @ callee)), Running w)
      | Some f \<Rightarrow> (SendStatus 200, f u w))"

definition health_route :: http_response where
  "health_route = JsonReply 200 [(js ''status'', js ''ok'')]"

text \<open>
  The application, for a webhook route that calls \<open>callee\<close>: the body parser,
  then the routes in registration order.
\<close>

definition app_with :: "jstr \<Rightarrow> (jstr \<Rightarrow> jstr \<Rightarrow> bool) \<Rightarrow> js_env \<Rightarrow> process_env \<Rightarrow> int \<Rightarrow>
                        http_request \<Rightarrow> world \<Rightarrow> http_response \<times> process" where
  "app_with callee pm env penv now req w =
     (case json_middleware req of
        Inl resp \<Rightarrow> (resp, Running w)
      | Inr u \<Rightarrow>
          if req_method req = POST \<and> pm (webhook_path penv) (req_path req)
          then webhook_route callee env now u w
          else if req_method req = GET \<and> pm (js ''/health'') (req_path req)
          then (health_route, Running w)
          else (ErrorPage 404, Running w))"

text \<open>The deployed application: its webhook calls \<open>bot.handleUpdate\<close>.\<close>

definition app :: "(jstr \<Rightarrow> jstr \<Rightarrow> bool) \<Rightarrow> js_env \<Rightarrow> process_env \<Rightarrow> int \<Rightarrow>
                   http_request \<Rightarrow> world \<Rightarrow> http_response \<times> process" where
  "app = app_with (js ''handleUpdate'')"

text \<open>A request to the webhook of a configured token, for the witnesses.\<close>

definition sample_webhook_post :: http_request where
  "sample_webhook_post = \<lparr>req_method = POST, req_path = js ''/webhook/123:abc'', req_body = NoJsonBody\<rparr>"

definition sample_token_env :: process_env where
  "sample_token_env v = (if v = js ''BOT_TOKEN'' then Some (js ''123:abc'') else None)"

lemmas server_defs = app_def app_with_def json_middleware_def webhook_route_def bot_method_def
  health_route_def

section \<open>Lemmas\<close>

lemma app_with_malformed:
  "req_body req = MalformedJson \<Longrightarrow> app_with callee pm env penv now req w = (ErrorPage 400, Running w)"
  by (simp add: app_with_def json_middleware_def)

lemma app_with_webhook:
  assumes "json_middleware req = Inr u" "req_method req = POST" "pm (webhook_path penv) (req_path req)"
  shows "app_with callee pm env penv now req w = webhook_route callee env now u w"
  using assms by (simp add: app_with_def)

lemma app_with_not_webhook:
  assumes "json_middleware req = Inr u" "\<not> (req_method req = POST \<and> pm (webhook_path penv) (req_path req))"
  shows "app_with callee pm env penv now req w =
           (if req_method req = GET \<and> pm (js ''/health'') (req_path req) then health_route else ErrorPage 404,
            Running w)"
  using assms by (auto simp add: app_with_def)

lemma json_middleware_cases:
  "json_middleware req = Inl (ErrorPage 400) \<and> req_body req = MalformedJson \<or>
   (\<exists>u. json_middleware req = Inr u)"
  by (cases "req_body req") (simp_all add: json_middleware_def)

section \<open>Properties of the deployed server\<close>

text \<open>
  C23: A well-formed POST to the webhook path is answered with status 500: the route
  calls \<open>bot.handleUpdate\<close>, which is not a function, and Express answers the
  exception. The specification has the endpoint acknowledge every update with
  success.
\<close>

theorem webhook_answers_500:
  assumes "req_body req \<noteq> MalformedJson" "req_method req = POST"
    and "pm (webhook_path penv) (req_path req)"
  shows "app pm env penv now req w = (HandlerThrew (NotCallable (js ''bot.handleUpdate'')), Running w) \<and>
         http_status (fst (app pm env penv now req w)) = 500"
proof -
  obtain u where "json_middleware req = Inr u"
    using assms(1) json_middleware_cases by blast
  with assms(2,3) show ?thesis
    by (simp add: app_def app_with_webhook webhook_route_def bot_method_def)
qed

text \<open>
  A well-formed GET of \<open>/health\<close> is answered 200 with the JSON object
  \<open>{status: 'ok'}\<close>, and the bot is untouched.
\<close>

theorem health_answers_ok:
  assumes "req_body req \<noteq> MalformedJson" "req_method req = GET" "pm (js ''/health'') (req_path req)"
  shows "app pm env penv now req w = (JsonReply 200 [(js ''status'', js ''ok'')], Running w)"
proof -
  obtain u where "json_middleware req = Inr u"
    using assms(1) json_middleware_cases by blast
  with assms(2,3) show ?thesis
    by (simp add: app_def app_with_not_webhook health_route_def)
qed

text \<open>
  In the deployed scope a synchronous failure of \<open>app.listen\<close> never reaches
  \<open>process.exit(1)\<close>: the \<open>catch\<close> block throws \<open>ReferenceError\<close> first.
\<close>

lemma listen_failure_deployed:
  "startServer (deployed_env t render) penv (ListenThrows e) = ServerCrashed (ReferenceError (js ''logger''))"
  by (simp add: startServer_def deployed_env_def)

section \<open>Witnesses\<close>

theorem webhook_answers_500_witness:
  "req_body sample_webhook_post \<noteq> MalformedJson \<and> req_method sample_webhook_post = POST \<and>
   webhook_path sample_token_env = req_path sample_webhook_post \<and>
   app (=) (deployed_env 0 (\<lambda>_. [])) sample_token_env 0 sample_webhook_post (boot_world []) =
     (HandlerThrew (NotCallable (js ''bot.handleUpdate'')), Running (boot_world []))"
proof -
  have h: "req_body sample_webhook_post \<noteq> MalformedJson" "req_method sample_webhook_post = POST"
    "webhook_path sample_token_env = req_path sample_webhook_post"
    by (simp_all add: sample_webhook_post_def webhook_path_def sample_token_env_def)
  have "(=) (webhook_path sample_token_env) (req_path sample_webhook_post)"
    using h(3) by simp
  from webhook_answers_500 [where pm = "(=)" and penv = sample_token_env and req = sample_webhook_post
      and env = "deployed_env 0 (\<lambda>_. [])" and now = 0 and w = "boot_world []", OF h(1) h(2) this] h
  show ?thesis by simp
qed

theorem health_answers_ok_witness:
  "app (=) (deployed_env 0 (\<lambda>_. [])) sample_token_env 0
       \<lparr>req_method = GET, req_path = js ''/health'', req_body = NoJsonBody\<rparr> (boot_world []) =
     (JsonReply 200 [(js ''status'', js ''ok'')], Running (boot_world []))"
  using health_answers_ok [of "\<lparr>req_method = GET, req_path = js ''/health'', req_body = NoJsonBody\<rparr>" "(=)"]
  by simp

end
