(* ===== verification/AsyncModel.thy ===== *)
theory AsyncModel
  imports Bot
begin

text \<open>
  The handlers of src/bot.js as the JavaScript runtime executes them: an \<open>async\<close>
  handler runs synchronously until its first \<open>await\<close> of a pending promise, and the
  rest of it runs later, when the awaited Bot API request has been answered. Between
  the two, other handlers run: the handlers of the same update (node-telegram-bot-api
  calls them one after another), the handlers of later updates, the continuations of
  other requests, and the sweep timer. The theory Bot runs each handler to completion
  instead; this theory is the finer model, and AsyncRaces states what its
  interleavings do to the store.

  \<^item> The state \<open>cworld\<close> is the network of Messenger, the map \<open>userStates\<close> and a
    heap of draft objects. A stored conversation (\<open>centry\<close>) holds the address of its
    \<open>ticketData\<close> object, because the code mutates that object in place
    (\<open>userState.ticketData.merchantName = ...\<close>, \<open>media.push(...)\<close>) and
    \<open>updateUserState\<close>'s spread copies the conversation object but shares its
    \<open>ticketData\<close>; \<open>createTicket\<close> iterates the live \<open>media\<close> array of the draft it
    was given. The \<open>media\<close> array of a draft is created with it and never replaced, so
    one address names both. Allocation follows Imperative_HOL: \<open>lim\<close> is the next
    free address.
  \<^item> A continuation is a stack of \<open>frame\<close>s, one per \<open>await\<close> of the source still to
    be resumed (innermost first), each naming the local variables it needs. \<open>resume\<close>
    runs one frame on the settled value of the awaited promise up to the next
    \<open>await\<close> or to its return; \<open>unwind\<close> runs the stack.
  \<^item> A pending handler (\<open>task\<close>) is the request it waits for and its stack. The process
    \<open>cproc\<close> is the state and the pool of pending handlers, or a crash. Its steps are
    the arrival of an update (the synchronous parts of its handlers, in emission
    order), the answer to one pending request (any of them: the network answers in any
    order), and the sweep timer.
\<close>

section \<open>State: the store and the heap of drafts\<close>

record centry =
  cstate :: phase
  cdraft :: nat
  clast :: int

record cworld = net +
  cstore :: "(int, centry) js_map"
  drafts :: "nat \<Rightarrow> ticket_data"
  lim :: nat

text \<open>\<open>{ media: [] }\<close> and the other object literals: a fresh address.\<close>

definition alloc_draft :: "ticket_data \<Rightarrow> cworld \<Rightarrow> nat \<times> cworld" where
  "alloc_draft td cw = (lim cw, cw\<lparr>drafts := (drafts cw)(lim cw := td), lim := Suc (lim cw)\<rparr>)"

text \<open>An assignment to a field of a draft object, in place.\<close>

definition write_draft :: "nat \<Rightarrow> ticket_data \<Rightarrow> cworld \<Rightarrow> cworld" where
  "write_draft d td cw = cw\<lparr>drafts := (drafts cw)(d := td)\<rparr>"

definition cset :: "int \<Rightarrow> centry \<Rightarrow> cworld \<Rightarrow> cworld" where
  "cset userId e cw = cw\<lparr>cstore := map_set (cstore cw) userId e\<rparr>"

definition cdelete :: "int \<Rightarrow> cworld \<Rightarrow> cworld" where
  "cdelete userId cw = cw\<lparr>cstore := map_delete (cstore cw) userId\<rparr>"

text \<open>
  \<open>updateUserState\<close>: a new conversation object with the given phase and draft,
  stamped now, in place of the old one (the spread keeps nothing else).
\<close>

definition cupdateUserState :: "int \<Rightarrow> int \<Rightarrow> phase \<Rightarrow> nat \<Rightarrow> cworld \<Rightarrow> cworld" where
  "cupdateUserState now userId st d = cset userId \<lparr>cstate = st, cdraft = d, clast = now\<rparr>"

section \<open>Continuations\<close>

text \<open>
  The \<open>await\<close>s of the source, as the frames that resume after them:
  \<^item> \<open>FCatch chatId m\<close>: the \<open>try { ... await bot.sendMessage(...) } catch\<close> of
    \<open>/start\<close>, \<open>/help\<close>, \<open>/newticket\<close>, \<open>/cancel\<close> and \<open>handleMedia\<close>, whose
    \<open>catch\<close> awaits \<open>sendErrorMessage(chatId, new Error(m))\<close>;
  \<^item> \<open>FSendErr\<close>: \<open>sendErrorMessage\<close> after its \<open>await\<close>, whose failure it swallows;
  \<^item> \<open>FTicketText u d\<close>, \<open>FMediaSent u d i item\<close>, \<open>FMediaWarned u d i\<close>,
    \<open>FCreateCatch\<close>: \<open>createTicket\<close> after the ticket text, after the attachment at
    index \<open>i\<close> of the live array \<open>d\<close>, after the warning for it, and its outer
    \<open>catch\<close>; \<open>u\<close> is the destructured \<open>username\<close> as the captions print it;
  \<^item> \<open>FDoneCreated chatId userId\<close>, \<open>FDoneSent userId\<close>: the \<open>'message'\<close> handler
    after \<open>await createTicket(...)\<close> and after the success message;
  \<^item> \<open>FTurnCatch chatId userId\<close>, \<open>FTurnDelete userId\<close>: the \<open>'message'\<close>
    handler's \<open>catch\<close>, and its \<open>userStates.delete(userId)\<close> after
    \<open>await sendErrorMessage(...)\<close>.
\<close>

datatype frame =
    FCatch int jstr
  | FSendErr
  | FTicketText jstr nat
  | FMediaSent jstr nat nat media_item
  | FMediaWarned jstr nat nat
  | FCreateCatch
  | FDoneCreated int int
  | FDoneSent int
  | FTurnCatch int int
  | FTurnDelete int

text \<open>
  Where a run of synchronous code ends: the function returns (or throws), or it awaits
  a request with the frames that resume after it.
\<close>

datatype outcome = Ret "js_error + unit" | Wait outbound "frame list"

text \<open>The synchronous part of \<open>sendErrorMessage(chatId, error)\<close>.\<close>

definition start_sendErrorMessage :: "int \<Rightarrow> js_error \<Rightarrow> outcome" where
  "start_sendErrorMessage chatId e =
     Wait (SendMessage chatId (ErrorReport (error_message e))) [FSendErr]"

text \<open>
  One turn of \<open>for (const item of media)\<close>: the array iterator compares its index with
  the array's current length, so items pushed while the loop awaits are visited.
\<close>

definition media_next :: "js_env \<Rightarrow> jstr \<Rightarrow> nat \<Rightarrow> nat \<Rightarrow> cworld \<Rightarrow> outcome" where
  "media_next env u d i cw =
     (let ms = media (drafts cw d) in
      if i < length ms then Wait (media_request env u (ms ! i)) [FMediaSent u d i (ms ! i)]
      else Ret (Inr ()))"

fun resume :: "js_env \<Rightarrow> frame \<Rightarrow> js_error + unit \<Rightarrow> cworld \<Rightarrow> outcome \<times> cworld" where
  "resume env (FCatch chatId m) r cw =
     (case r of Inr _ \<Rightarrow> (Ret r, cw) | Inl _ \<Rightarrow> (start_sendErrorMessage chatId (Error m), cw))"
| "resume env FSendErr r cw = (Ret (Inr ()), cw)"
| "resume env (FTicketText u d) r cw =
     (case r of
        Inl e \<Rightarrow> (Ret (Inl e), cw)
      | Inr _ \<Rightarrow> (if media (drafts cw d) \<noteq> [] then media_next env u d 0 cw else Ret (Inr ()), cw))"
| "resume env (FMediaSent u d i item) r cw =
     (case r of
        Inr _ \<Rightarrow> (media_next env u d (Suc i) cw, cw)
      | Inl _ \<Rightarrow>
          if logger_defined env
          then (Wait (SendMessage (target_chat env) (MediaFailed (item_type item) u)) [FMediaWarned u d i], cw)
          else (Ret (Inl (ReferenceError (js ''logger''))), cw))"
| "resume env (FMediaWarned u d i) r cw =
     (case r of Inr _ \<Rightarrow> (media_next env u d (Suc i) cw, cw) | Inl e \<Rightarrow> (Ret (Inl e), cw))"
| "resume env FCreateCatch r cw =
     (case r of
        Inr _ \<Rightarrow> (Ret r, cw)
      | Inl _ \<Rightarrow>
          (Ret (Inl (if logger_defined env then Error failed_to_create else ReferenceError (js ''logger''))), cw))"
| "resume env (FDoneCreated chatId userId) r cw =
     (case r of
        Inl e \<Rightarrow> (Ret (Inl e), cw)
      | Inr _ \<Rightarrow> (Wait (SendMessage chatId TicketCreated) [FDoneSent userId], cw))"
| "resume env (FDoneSent userId) r cw =
     (case r of Inl e \<Rightarrow> (Ret (Inl e), cw) | Inr _ \<Rightarrow> (Ret (Inr ()), cdelete userId cw))"
| "resume env (FTurnCatch chatId userId) r cw =
     (case r of
        Inr _ \<Rightarrow> (Ret r, cw)
      | Inl e \<Rightarrow>
          (Wait (SendMessage chatId (ErrorReport (error_message e))) [FSendErr, FTurnDelete userId], cw))"
| "resume env (FTurnDelete userId) r cw =
     (case r of Inl e \<Rightarrow> (Ret (Inl e), cw) | Inr _ \<Rightarrow> (Ret (Inr ()), cdelete userId cw))"

text \<open>
  Running a stack on a settled value: each frame that returns passes its result to the
  next; a frame that awaits again leaves the frames below it waiting.
\<close>

fun unwind :: "js_env \<Rightarrow> frame list \<Rightarrow> js_error + unit \<Rightarrow> cworld \<Rightarrow> outcome \<times> cworld" where
  "unwind env [] r cw = (Ret r, cw)"
| "unwind env (f # fs) r cw =
     (case resume env f r cw of
        (Ret r', cw') \<Rightarrow> unwind env fs r' cw'
      | (Wait out fs', cw') \<Rightarrow> (Wait out (fs' @ fs), cw'))"

text \<open>
  A call that is awaited, or a \<open>try\<close> block: the outcome of the synchronous code,
  continued by the caller's frames \<open>ks\<close>.
\<close>

definition then_frames :: "js_env \<Rightarrow> outcome \<times> cworld \<Rightarrow> frame list \<Rightarrow> outcome \<times> cworld" where
  "then_frames env oc ks =
     (case oc of
        (Ret r, cw) \<Rightarrow> unwind env ks r cw
      | (Wait out fs, cw) \<Rightarrow> (Wait out (fs @ ks), cw))"

section \<open>The synchronous parts of the handlers\<close>

text \<open>
  \<open>createTicket(bot, targetChatId, ticketData)\<close> up to its first \<open>await\<close>: the
  fields are destructured and the text formatted from the draft as it is now.
\<close>

definition start_createTicket :: "js_env \<Rightarrow> jstr \<Rightarrow> nat \<Rightarrow> cworld \<Rightarrow> outcome \<times> cworld" where
  "start_createTicket env created d cw =
     (let td = drafts cw d in
      then_frames env
        (case formatTicketMessage (merchantName td) (description td) (username td) created of
           Inl e \<Rightarrow> (Ret (Inl e), cw)
         | Inr text \<Rightarrow>
             (Wait (SendMessage (target_chat env) (TicketHtml text)) [FTicketText (js_str_of (username td)) d], cw))
        [FCreateCatch])"

text \<open>
  The \<open>switch\<close> of the \<open>'message'\<close> handler on the conversation object \<open>e\<close> it has
  just read: the assignments go to the draft object and to \<open>e\<close> in the map.
\<close>

definition start_step :: "js_env \<Rightarrow> int \<Rightarrow> message \<Rightarrow> centry \<Rightarrow> cworld \<Rightarrow> outcome \<times> cworld" where
  "start_step env now msg e cw =
     (let userId = from_id msg; chatId = chat_id msg; d = cdraft e; td = drafts cw d in
      case cstate e of
        AWAITING_MERCHANT \<Rightarrow>
          (Wait (SendMessage chatId AskDescription) [],
           cupdateUserState now userId AWAITING_DESCRIPTION d
             (write_draft d (td\<lparr>merchantName := msg_text msg\<rparr>) cw))
      | AWAITING_DESCRIPTION \<Rightarrow>
          (let cw1 = cset userId (e\<lparr>cstate := AWAITING_MEDIA\<rparr>)
                       (write_draft d (td\<lparr>description := msg_text msg, username := Some (reporter_handle msg)\<rparr>) cw)
           in case validateTicketData (drafts cw1 d) of
                Some err \<Rightarrow> (Ret (Inl (Error err)), cw1)
              | None \<Rightarrow>
                  (Wait (SendMessage chatId InfoReceived) [], cupdateUserState now userId AWAITING_MEDIA d cw1))
      | AWAITING_MEDIA \<Rightarrow>
          (case msg_text msg of
             None \<Rightarrow> (Ret (Inl (TypeError (js ''toLowerCase''))), cw)
           | Some t \<Rightarrow>
               if js_to_lower t = js ''done''
               then then_frames env (start_createTicket env (iso_string env now) d cw) [FDoneCreated chatId userId]
               else (Wait (SendMessage chatId DoneOrMedia) [], cw)))"

definition start_message :: "js_env \<Rightarrow> int \<Rightarrow> message \<Rightarrow> cworld \<Rightarrow> outcome \<times> cworld" where
  "start_message env now msg cw =
     (if (case msg_text msg of Some t \<Rightarrow> js_starts_with (js ''/'') t | None \<Rightarrow> False) \<or> is_media_msg msg
      then (Ret (Inr ()), cw)
      else case map_get (cstore cw) (from_id msg) of
             None \<Rightarrow> (Ret (Inr ()), cw)
           | Some e \<Rightarrow> then_frames env (start_step env now msg e cw) [FTurnCatch (chat_id msg) (from_id msg)])"

definition start_media :: "js_env \<Rightarrow> int \<Rightarrow> message \<Rightarrow> cworld \<Rightarrow> outcome \<times> cworld" where
  "start_media env now msg cw =
     (case map_get (cstore cw) (from_id msg) of
        None \<Rightarrow> (Wait (SendMessage (chat_id msg) NoActiveTicket) [], cw)
      | Some e \<Rightarrow>
          if cstate e \<noteq> AWAITING_MEDIA then (Wait (SendMessage (chat_id msg) MediaNotExpected) [], cw)
          else then_frames env
            (case media_of_message msg of
               Inl err \<Rightarrow> (Ret (Inl err), cw)
             | Inr item \<Rightarrow>
                 (Wait (SendMessage (chat_id msg) MediaAttached) [],
                  cupdateUserState now (from_id msg) (cstate e) (cdraft e)
                    (write_draft (cdraft e)
                       ((drafts cw (cdraft e))\<lparr>media := media (drafts cw (cdraft e)) @ [item]\<rparr>) cw)))
            [FCatch (chat_id msg) media_failed])"

definition start_start :: "message \<Rightarrow> cworld \<Rightarrow> outcome \<times> cworld" where
  "start_start msg cw =
     (Wait (SendMessage (chat_id msg) Welcome)
        [FCatch (chat_id msg) (js ''Failed to start bot. Please try again.'')], cw)"

definition start_help :: "message \<Rightarrow> cworld \<Rightarrow> outcome \<times> cworld" where
  "start_help msg cw =
     (Wait (SendMessage (chat_id msg) HelpGuide)
        [FCatch (chat_id msg) (js ''Failed to show help. Please try again.'')], cw)"

definition start_newticket :: "int \<Rightarrow> message \<Rightarrow> cworld \<Rightarrow> outcome \<times> cworld" where
  "start_newticket now msg cw =
     (case alloc_draft empty_ticket cw of
        (d, cw1) \<Rightarrow>
          (Wait (SendMessage (chat_id msg) AskMerchant)
             [FCatch (chat_id msg) (js ''Failed to start new ticket. Please try again.'')],
           cupdateUserState now (from_id msg) AWAITING_MERCHANT d cw1))"

definition start_cancel :: "message \<Rightarrow> cworld \<Rightarrow> outcome \<times> cworld" where
  "start_cancel msg cw =
     (if map_has (cstore cw) (from_id msg)
      then (Wait (SendMessage (chat_id msg) CancelledText)
              [FCatch (chat_id msg) (js ''Failed to cancel ticket. Please try again.'')],
            cdelete (from_id msg) cw)
      else (Wait (SendMessage (chat_id msg) NothingToCancel)
              [FCatch (chat_id msg) (js ''Failed to cancel ticket. Please try again.'')], cw))"

definition start_text :: "int \<Rightarrow> message \<Rightarrow> jstr \<Rightarrow> cworld \<Rightarrow> outcome \<times> cworld" where
  "start_text now msg t cw =
     (if js_includes (js ''/start'') t then start_start msg cw
      else if js_includes (js ''/help'') t then start_help msg cw
      else if js_includes (js ''/newticket'') t then start_newticket now msg cw
      else if js_includes (js ''/cancel'') t then start_cancel msg cw
      else (Ret (Inr ()), cw))"

section \<open>The sweep on the concurrent store\<close>

text \<open>\<open>cleanupExpiredStates\<close> (StateStore) on the stored conversation objects.\<close>

definition cexpired :: "int \<Rightarrow> centry \<Rightarrow> bool" where
  "cexpired now e \<longleftrightarrow> now - clast e > expiry_ms"

fun ccleanup_loop :: "js_env \<Rightarrow> int \<Rightarrow> (int \<times> centry) list \<Rightarrow> ((int, centry) js_map, unit) io" where
  "ccleanup_loop env now [] = io_return ()"
| "ccleanup_loop env now ((userId, e) # es) =
     (if cexpired now e
      then io_seq (io_modify (\<lambda>m. map_delete m userId))
             (io_seq (log_cleanup env) (ccleanup_loop env now es))
      else ccleanup_loop env now es)"

definition ccleanupExpiredStates :: "js_env \<Rightarrow> int \<Rightarrow> ((int, centry) js_map, unit) io" where
  "ccleanupExpiredStates env now m = ccleanup_loop env now m m"

section \<open>The process\<close>

text \<open>A pending handler: the request whose answer it awaits, and its frames.\<close>

type_synonym task = "outbound \<times> frame list"

datatype cproc = CRunning cworld "task list" | CCrashed js_error cworld

text \<open>
  A handler whose promise settles: nothing remains if it resolves, the process ends if
  it rejects (nobody handles the rejection); a handler that awaits joins the pool.
\<close>

definition add_task :: "outcome \<Rightarrow> task list \<Rightarrow> js_error + task list" where
  "add_task oc ts =
     (case oc of
        Ret (Inl e) \<Rightarrow> Inl e
      | Ret (Inr _) \<Rightarrow> Inr ts
      | Wait out fs \<Rightarrow> Inr (ts @ [(out, fs)]))"

fun add_tasks :: "outcome list \<Rightarrow> task list \<Rightarrow> js_error + task list" where
  "add_tasks [] ts = Inr ts"
| "add_tasks (oc # ocs) ts = (case add_task oc ts of Inl e \<Rightarrow> Inl e | Inr ts' \<Rightarrow> add_tasks ocs ts')"

text \<open>
  An update arrives: \<open>processUpdate\<close> calls the \<open>'message'\<close> handler, then
  \<open>handleMedia\<close> for a photo or video, then the first \<open>onText\<close> handler whose pattern
  matches, each up to its first \<open>await\<close>. A rejection nobody handles ends the process
  once they have all been called.
\<close>

definition spawn_update :: "js_env \<Rightarrow> int \<Rightarrow> message \<Rightarrow> cworld \<Rightarrow> task list \<Rightarrow> cproc" where
  "spawn_update env now msg cw ts =
     (case start_message env now msg cw of
        (o1, cw1) \<Rightarrow>
          (case (if is_media_msg msg then start_media env now msg cw1 else (Ret (Inr ()), cw1)) of
             (o2, cw2) \<Rightarrow>
               (case (case msg_text msg of Some t \<Rightarrow> start_text now msg t cw2 | None \<Rightarrow> (Ret (Inr ()), cw2)) of
                  (o3, cw3) \<Rightarrow>
                    (case add_tasks [o1, o2, o3] ts of
                       Inl e \<Rightarrow> CCrashed e cw3
                     | Inr ts' \<Rightarrow> CRunning cw3 ts'))))"

definition remove_nth :: "nat \<Rightarrow> 'a list \<Rightarrow> 'a list" where
  "remove_nth i xs = take i xs @ drop (Suc i) xs"

text \<open>
  The answer to the request of the \<open>i\<close>-th pending handler arrives (Messenger's
  \<open>send\<close>: delivered, or rejected by the network), and the handler resumes.
\<close>

definition deliver :: "js_env \<Rightarrow> nat \<Rightarrow> cworld \<Rightarrow> task list \<Rightarrow> cproc" where
  "deliver env i cw ts =
     (case ts ! i of
        (out, fs) \<Rightarrow>
          (case send out cw of
             (r, cw1) \<Rightarrow>
               (case unwind env fs r cw1 of
                  (oc, cw2) \<Rightarrow>
                    (case add_task oc (remove_nth i ts) of
                       Inl e \<Rightarrow> CCrashed e cw2
                     | Inr ts' \<Rightarrow> CRunning cw2 ts'))))"

definition sweep :: "js_env \<Rightarrow> int \<Rightarrow> cworld \<Rightarrow> task list \<Rightarrow> cproc" where
  "sweep env now cw ts =
     (case ccleanupExpiredStates env now (cstore cw) of
        (Inl e, m) \<Rightarrow> CCrashed e (cw\<lparr>cstore := m\<rparr>)
      | (Inr _, m) \<Rightarrow> CRunning (cw\<lparr>cstore := m\<rparr>) ts)"

definition cboot :: "bool list \<Rightarrow> cworld" where
  "cboot fs = \<lparr>outbox = [], faults = fs, cstore = [], drafts = (\<lambda>_. empty_ticket), lim = 0\<rparr>"

text \<open>The steps of the process, chosen by the environment and the scheduler.\<close>

datatype sched = Arrive message | Answer nat | Timer

definition cstep :: "js_env \<Rightarrow> int \<Rightarrow> sched \<Rightarrow> cworld \<Rightarrow> task list \<Rightarrow> cproc" where
  "cstep env now s cw ts =
     (case s of
        Arrive msg \<Rightarrow> spawn_update env now msg cw ts
      | Answer i \<Rightarrow> deliver env i cw ts
      | Timer \<Rightarrow> sweep env now cw ts)"

definition enabled :: "sched \<Rightarrow> task list \<Rightarrow> bool" where
  "enabled s ts = (case s of Answer i \<Rightarrow> i < length ts | _ \<Rightarrow> True)"

inductive creach :: "js_env \<Rightarrow> int \<Rightarrow> cproc \<Rightarrow> bool" where
  boot: "creach env t (CRunning (cboot fs) [])"
| step: "creach env t (CRunning cw ts) \<Longrightarrow> enabled s ts \<Longrightarrow> t \<le> t' \<Longrightarrow> creach env t' (cstep env t' s cw ts)"

text \<open>A schedule of timed steps run from a process state.\<close>

fun crun :: "js_env \<Rightarrow> cproc \<Rightarrow> (int \<times> sched) list \<Rightarrow> cproc" where
  "crun env p [] = p"
| "crun env (CRunning cw ts) ((t, s) # ss) = crun env (cstep env t s cw ts) ss"
| "crun env (CCrashed e cw) (_ # ss) = CCrashed e cw"

lemmas async_defs = cstep_def spawn_update_def deliver_def sweep_def add_task_def remove_nth_def
  start_message_def start_step_def start_media_def start_start_def start_help_def start_newticket_def
  start_cancel_def start_text_def start_createTicket_def then_frames_def start_sendErrorMessage_def
  media_next_def alloc_draft_def write_draft_def cset_def cdelete_def cupdateUserState_def
  enabled_def

end
