(* ===== verification/AsyncInvariant.thy ===== *)
theory AsyncInvariant
  imports AsyncModel BotBehaviour
begin

text \<open>
  The well-formedness of the heap in the concurrent model: every conversation in the
  store and every pending continuation refers to an allocated draft object, the store's
  keys are distinct, and no two conversations share a draft. Every step of the process
  keeps it (\<open>cproc_wf\<close>), so it holds in every reachable state: a draft written
  through one conversation is the draft of no other.
\<close>

section \<open>The invariant\<close>

fun frame_addrs :: "frame \<Rightarrow> nat list" where
  "frame_addrs (FTicketText _ d) = [d]"
| "frame_addrs (FMediaSent _ d _ _) = [d]"
| "frame_addrs (FMediaWarned _ d _) = [d]"
| "frame_addrs _ = []"

definition frames_ok :: "nat \<Rightarrow> frame list \<Rightarrow> bool" where
  "frames_ok n fs \<longleftrightarrow> (\<forall>f\<in>set fs. \<forall>d\<in>set (frame_addrs f). d < n)"

definition outcome_ok :: "nat \<Rightarrow> outcome \<Rightarrow> bool" where
  "outcome_ok n oc = (case oc of Ret _ \<Rightarrow> True | Wait _ fs \<Rightarrow> frames_ok n fs)"

definition store_ok :: "cworld \<Rightarrow> bool" where
  "store_ok cw \<longleftrightarrow>
     js_map_wf (cstore cw) \<and> distinct (map (\<lambda>q. cdraft (snd q)) (cstore cw)) \<and>
     (\<forall>p\<in>set (cstore cw). cdraft (snd p) < lim cw)"

definition heap_wf :: "cworld \<Rightarrow> task list \<Rightarrow> bool" where
  "heap_wf cw ts \<longleftrightarrow> store_ok cw \<and> (\<forall>t\<in>set ts. frames_ok (lim cw) (snd t))"

fun cproc_wf :: "cproc \<Rightarrow> bool" where
  "cproc_wf (CRunning cw ts) = heap_wf cw ts"
| "cproc_wf (CCrashed e cw) = store_ok cw"

text \<open>
  A run of synchronous code from \<open>cw\<close> is well behaved when it leaves a well-formed
  store, allocates only (\<open>lim\<close> grows) and awaits with frames that name allocated
  drafts.
\<close>

definition seg_ok :: "cworld \<Rightarrow> outcome \<times> cworld \<Rightarrow> bool" where
  "seg_ok cw res \<longleftrightarrow>
     (case res of (oc, cw') \<Rightarrow> store_ok cw' \<and> lim cw \<le> lim cw' \<and> outcome_ok (lim cw') oc)"

named_theorems wf_simps "rules that decide the heap invariant on the operations"

section \<open>Maps whose values carry distinct addresses\<close>

lemma distinct_vals_map_set:
  assumes "js_map_wf m" "distinct (map (\<lambda>q. g (snd q)) m)"
    and "\<forall>p\<in>set m. fst p \<noteq> k \<longrightarrow> g (snd p) \<noteq> g v"
  shows "distinct (map (\<lambda>q. g (snd q)) (map_set m k v))"
  using assms
proof (induction m)
  case Nil
  then show ?case by simp
next
  case (Cons p m)
  obtain k' v' where p: "p = (k', v')" by (cases p)
  from Cons.prems(1) p have wf: "js_map_wf m" and k': "k' \<notin> fst ` set m"
    by (simp_all add: js_map_wf_def)
  from Cons.prems(2) p have dm: "distinct (map (\<lambda>q. g (snd q)) m)" and v': "g v' \<notin> (\<lambda>q. g (snd q)) ` set m"
    by simp_all
  from Cons.prems(3) p have hm: "\<forall>q\<in>set m. fst q \<noteq> k \<longrightarrow> g (snd q) \<noteq> g v"
    and hp: "k' \<noteq> k \<Longrightarrow> g v' \<noteq> g v"
    by simp_all
  show ?case
  proof (cases "k' = k")
    case True
    have "g v \<notin> (\<lambda>q. g (snd q)) ` set m"
    proof
      assume "g v \<in> (\<lambda>q. g (snd q)) ` set m"
      then obtain q where q: "q \<in> set m" "g (snd q) = g v" by auto
      have "fst q \<noteq> k"
      proof
        assume "fst q = k"
        with q(1) True have "k' \<in> fst ` set m" by (metis imageI)
        with k' show False by simp
      qed
      with hm q show False by blast
    qed
    with dm p True show ?thesis by simp
  next
    case False
    have "g v' \<notin> (\<lambda>q. g (snd q)) ` set (map_set m k v)"
    proof
      assume "g v' \<in> (\<lambda>q. g (snd q)) ` set (map_set m k v)"
      then obtain q where q: "q \<in> set (map_set m k v)" "g (snd q) = g v'" by auto
      have "q = (k, v) \<or> q \<in> set m"
        using subsetD [OF set_map_set_subset q(1)] by simp
      then show False
      proof
        assume "q = (k, v)"
        with q(2) hp False show False by simp
      next
        assume "q \<in> set m"
        then have "(\<lambda>q. g (snd q)) q \<in> (\<lambda>q. g (snd q)) ` set m" by (rule imageI)
        with q(2) v' show False by simp
      qed
    qed
    moreover have "distinct (map (\<lambda>q. g (snd q)) (map_set m k v))"
      using Cons.IH wf dm hm by blast
    ultimately show ?thesis using p False by simp
  qed
qed

lemma distinct_map_delete: "distinct (map f m) \<Longrightarrow> distinct (map f (map_delete m k))"
proof (induction m)
  case Nil
  then show ?case by simp
next
  case (Cons p m)
  have "f p \<notin> f ` set (map_delete m k)"
    using Cons.prems image_mono [OF set_map_delete_subset [of m k], of f] by auto
  with Cons show ?case by (cases p) auto
qed

section \<open>Operations on the store\<close>

lemma frames_ok_simps [simp, wf_simps]:
  "frames_ok n []"
  "frames_ok n (f # fs) \<longleftrightarrow> (\<forall>d\<in>set (frame_addrs f). d < n) \<and> frames_ok n fs"
  "frames_ok n (fs @ gs) \<longleftrightarrow> frames_ok n fs \<and> frames_ok n gs"
  by (auto simp: frames_ok_def)

lemma frames_ok_mono: "frames_ok n fs \<Longrightarrow> n \<le> m \<Longrightarrow> frames_ok m fs"
  by (fastforce simp: frames_ok_def)

lemma outcome_ok_mono: "outcome_ok n oc \<Longrightarrow> n \<le> m \<Longrightarrow> outcome_ok m oc"
  by (auto simp: outcome_ok_def frames_ok_mono split: outcome.splits)

lemma store_ok_cdelete [wf_simps]: "store_ok cw \<Longrightarrow> store_ok (cdelete k cw)"
  using subsetD [OF set_map_delete_subset [of "cstore cw" k]]
  by (auto simp: store_ok_def cdelete_def distinct_map_delete)

lemma store_ok_write_draft [simp, wf_simps]: "store_ok (write_draft d td cw) = store_ok cw"
  by (simp add: store_ok_def write_draft_def)

lemma lim_write_draft [simp]: "lim (write_draft d td cw) = lim cw"
  by (simp add: write_draft_def)

lemma store_ok_cset:
  assumes "store_ok cw" "cdraft e < lim cw"
    and "\<forall>p\<in>set (cstore cw). fst p \<noteq> k \<longrightarrow> cdraft (snd p) \<noteq> cdraft e"
  shows "store_ok (cset k e cw)"
proof -
  have "distinct (map (\<lambda>q. cdraft (snd q)) (map_set (cstore cw) k e))"
    using assms by (intro distinct_vals_map_set) (auto simp: store_ok_def)
  with assms set_map_set_subset [of "cstore cw" k e] show ?thesis
    by (auto simp: store_ok_def cset_def)
qed

text \<open>Replacing a conversation by one with the same draft, as the handlers do.\<close>

lemma store_ok_get_lim: "store_ok cw \<Longrightarrow> map_get (cstore cw) k = Some e \<Longrightarrow> cdraft e < lim cw"
  unfolding store_ok_def using map_of_SomeD [of "cstore cw" k e] by fastforce

text \<open>No other conversation shares the draft of a stored one.\<close>

lemma store_ok_other_draft:
  assumes "store_ok cw" "map_get (cstore cw) k = Some e" "p \<in> set (cstore cw)" "fst p \<noteq> k"
  shows "cdraft (snd p) \<noteq> cdraft e"
proof -
  have e0: "(k, e) \<in> set (cstore cw)"
    using assms(2) by (simp add: map_of_SomeD)
  have "inj_on (\<lambda>q. cdraft (snd q)) (set (cstore cw))"
    using assms(1) by (simp add: store_ok_def distinct_map)
  moreover have "p \<noteq> (k, e)"
    using assms(4) by auto
  ultimately show ?thesis
    using assms(3) e0 inj_onD [of "\<lambda>q. cdraft (snd q)" "set (cstore cw)" p "(k, e)"] by auto
qed

lemma store_ok_cset_same [wf_simps]:
  assumes "store_ok cw" "map_get (cstore cw) k = Some e0" "cdraft e = cdraft e0"
  shows "store_ok (cset k e cw)"
proof (rule store_ok_cset [OF assms(1)])
  show "cdraft e < lim cw"
    using store_ok_get_lim [OF assms(1,2)] assms(3) by simp
  show "\<forall>p\<in>set (cstore cw). fst p \<noteq> k \<longrightarrow> cdraft (snd p) \<noteq> cdraft e"
    using store_ok_other_draft [OF assms(1,2)] assms(3) by simp
qed

text \<open>A conversation with a freshly allocated draft.\<close>

lemma store_ok_alloc_update [wf_simps]:
  assumes "store_ok cw" "alloc_draft td cw = (d, cw1)"
  shows "store_ok (cupdateUserState now k st d cw1)" "lim cw1 = Suc (lim cw)" "d = lim cw"
proof -
  from assms(2) have cw1: "cw1 = cw\<lparr>drafts := (drafts cw)(lim cw := td), lim := Suc (lim cw)\<rparr>"
    and d: "d = lim cw"
    by (auto simp: alloc_draft_def)
  have ok1: "store_ok cw1"
    using assms(1) by (auto simp: store_ok_def cw1)
  show "store_ok (cupdateUserState now k st d cw1)"
    unfolding cupdateUserState_def
    using assms(1) by (intro store_ok_cset [OF ok1]) (auto simp: cw1 d store_ok_def)
  show "lim cw1 = Suc (lim cw)" "d = lim cw"
    by (simp_all add: cw1 d)
qed

lemma lim_cdelete [simp]: "lim (cdelete k cw) = lim cw"
  by (simp add: cdelete_def)

lemma lim_cset [simp]: "lim (cset k e cw) = lim cw"
  by (simp add: cset_def)

lemma lim_cupdateUserState [simp]: "lim (cupdateUserState now k st d cw) = lim cw"
  by (simp add: cupdateUserState_def)

lemma cstore_write_draft [simp]: "cstore (write_draft d td cw) = cstore cw"
  by (simp add: write_draft_def)

lemma map_get_cset [simp]: "map_get (cstore (cset k e cw)) k = Some e"
  by (simp add: cset_def)

lemma send_keeps_heap:
  assumes "send out cw = (r, cw1)"
  shows "cstore cw1 = cstore cw" "drafts cw1 = drafts cw" "lim cw1 = lim cw"
  using assms by (auto elim: send_result_cases)

lemma store_ok_send: "send out cw = (r, cw1) \<Longrightarrow> store_ok cw1 = store_ok cw"
  by (simp add: store_ok_def send_keeps_heap)

section \<open>Segments of synchronous code\<close>

lemma seg_okI [intro]:
  "store_ok cw' \<Longrightarrow> lim cw \<le> lim cw' \<Longrightarrow> outcome_ok (lim cw') oc \<Longrightarrow> seg_ok cw (oc, cw')"
  by (simp add: seg_ok_def)

lemma seg_ok_same [intro]: "store_ok cw \<Longrightarrow> outcome_ok (lim cw) oc \<Longrightarrow> seg_ok cw (oc, cw)"
  by (simp add: seg_ok_def)

lemma outcome_ok_simps [simp, wf_simps]:
  "outcome_ok n (Ret r)"
  "outcome_ok n (Wait out fs) = frames_ok n fs"
  by (simp_all add: outcome_ok_def)

lemma media_next_ok: "d < n \<Longrightarrow> outcome_ok n (media_next env u d i cw)"
  by (simp add: media_next_def Let_def)

lemma resume_seg_ok:
  assumes "store_ok cw" "frames_ok (lim cw) [f]"
  shows "seg_ok cw (resume env f r cw)"
  using assms
  by (cases f) (auto simp: start_sendErrorMessage_def media_next_ok store_ok_cdelete split: sum.splits)

lemma seg_ok_lim: "seg_ok cw (oc, cw') \<Longrightarrow> lim cw \<le> lim cw'"
  by (simp add: seg_ok_def)

lemma unwind_seg_ok:
  "store_ok cw \<Longrightarrow> frames_ok (lim cw) fs \<Longrightarrow> seg_ok cw (unwind env fs r cw)"
proof (induction fs arbitrary: r cw)
  case Nil
  then show ?case by auto
next
  case (Cons f fs)
  obtain oc1 cw1 where res: "resume env f r cw = (oc1, cw1)" by fastforce
  from Cons.prems have ok1: "seg_ok cw (oc1, cw1)"
    using resume_seg_ok [of cw f env r] res by simp
  then have s1: "store_ok cw1" and l1: "lim cw \<le> lim cw1" and o1: "outcome_ok (lim cw1) oc1"
    by (simp_all add: seg_ok_def)
  have fs1: "frames_ok (lim cw1) fs"
    using Cons.prems(2) l1 by (simp add: frames_ok_mono [of "lim cw" fs "lim cw1"])
  show ?case
  proof (cases oc1)
    case (Ret r')
    have "seg_ok cw1 (unwind env fs r' cw1)"
      using Cons.IH s1 fs1 by blast
    with l1 res Ret show ?thesis
      by (auto simp: seg_ok_def split: prod.splits)
  next
    case (Wait out fs')
    with res s1 l1 o1 fs1 show ?thesis by auto
  qed
qed

lemma then_frames_seg_ok:
  assumes "seg_ok cw res" "frames_ok (lim cw) ks"
  shows "seg_ok cw (then_frames env res ks)"
proof -
  obtain oc cw' where res: "res = (oc, cw')" by fastforce
  with assms have s: "store_ok cw'" and l: "lim cw \<le> lim cw'" and o: "outcome_ok (lim cw') oc"
    and ks: "frames_ok (lim cw') ks"
    by (auto simp: seg_ok_def frames_ok_mono)
  show ?thesis
  proof (cases oc)
    case (Ret r)
    have "seg_ok cw' (unwind env ks r cw')"
      using unwind_seg_ok s ks by blast
    with l res Ret show ?thesis
      by (auto simp: then_frames_def seg_ok_def split: prod.splits)
  next
    case (Wait out fs)
    with res s l o ks show ?thesis by (auto simp: then_frames_def)
  qed
qed

section \<open>The synchronous parts of the handlers\<close>

lemma store_ok_update_same [wf_simps]:
  "store_ok cw \<Longrightarrow> map_get (cstore cw) k = Some e0 \<Longrightarrow> store_ok (cupdateUserState now k st (cdraft e0) cw)"
  unfolding cupdateUserState_def by (rule store_ok_cset_same) simp_all

lemma start_createTicket_seg_ok:
  "store_ok cw \<Longrightarrow> d < lim cw \<Longrightarrow> seg_ok cw (start_createTicket env created d cw)"
  unfolding start_createTicket_def Let_def
  by (rule then_frames_seg_ok) (auto split: sum.splits)

lemma start_step_seg_ok:
  assumes ok: "store_ok cw" and get: "map_get (cstore cw) (from_id msg) = Some e"
  shows "seg_ok cw (start_step env now msg e cw)"
proof -
  let ?k = "from_id msg" and ?d = "cdraft e"
  have d: "?d < lim cw" using store_ok_get_lim [OF ok get] .
  have w: "\<And>td. store_ok (write_draft ?d td cw)" "\<And>td. map_get (cstore (write_draft ?d td cw)) ?k = Some e"
    using ok get by simp_all
  show ?thesis
  proof (cases "cstate e")
    case AWAITING_MERCHANT
    then show ?thesis
      using store_ok_update_same [OF w] by (auto simp: start_step_def Let_def)
  next
    case AWAITING_DESCRIPTION
    let ?cw1 = "\<lambda>td. cset ?k (e\<lparr>cstate := AWAITING_MEDIA\<rparr>) (write_draft ?d td cw)"
    have c1: "\<And>td. store_ok (?cw1 td)"
      using w by (intro store_ok_cset_same) simp_all
    have c2: "\<And>td st. store_ok (cupdateUserState now ?k st ?d (?cw1 td))"
      using store_ok_update_same [OF c1 map_get_cset] by simp
    from AWAITING_DESCRIPTION c1 c2 show ?thesis
      by (auto simp: start_step_def Let_def split: option.splits)
  next
    case AWAITING_MEDIA
    have "seg_ok cw (then_frames env (start_createTicket env (iso_string env now) ?d cw)
                       [FDoneCreated (chat_id msg) ?k])"
      using start_createTicket_seg_ok [OF ok d] by (rule then_frames_seg_ok) simp
    with AWAITING_MEDIA ok show ?thesis
      by (auto simp: start_step_def Let_def split: option.splits)
  qed
qed

lemma start_message_seg_ok: "store_ok cw \<Longrightarrow> seg_ok cw (start_message env now msg cw)"
  unfolding start_message_def
  by (auto intro!: then_frames_seg_ok start_step_seg_ok split: option.splits)

lemma start_media_seg_ok: "store_ok cw \<Longrightarrow> seg_ok cw (start_media env now msg cw)"
  unfolding start_media_def
  by (auto intro!: then_frames_seg_ok store_ok_update_same split: option.splits sum.splits)

lemma start_newticket_seg_ok: "store_ok cw \<Longrightarrow> seg_ok cw (start_newticket now msg cw)"
proof -
  assume ok: "store_ok cw"
  obtain d cw1 where a: "alloc_draft empty_ticket cw = (d, cw1)" by fastforce
  from store_ok_alloc_update [OF ok a] show ?thesis
    by (auto simp: start_newticket_def a)
qed

lemma start_text_seg_ok: "store_ok cw \<Longrightarrow> seg_ok cw (start_text now msg t cw)"
  using start_newticket_seg_ok [of cw now msg]
  by (auto simp: start_text_def start_start_def start_help_def start_cancel_def store_ok_cdelete)

section \<open>Steps of the process\<close>

lemma add_task_ok:
  assumes "add_task oc ts = Inr ts'" "outcome_ok n oc" "\<forall>t\<in>set ts. frames_ok n (snd t)"
  shows "\<forall>t\<in>set ts'. frames_ok n (snd t)"
  using assms by (auto simp: add_task_def split: outcome.splits sum.splits)

lemma add_tasks_ok:
  "add_tasks ocs ts = Inr ts' \<Longrightarrow> \<forall>oc\<in>set ocs. outcome_ok n oc \<Longrightarrow> \<forall>t\<in>set ts. frames_ok n (snd t) \<Longrightarrow>
   \<forall>t\<in>set ts'. frames_ok n (snd t)"
proof (induction ocs arbitrary: ts)
  case Nil
  then show ?case by simp
next
  case (Cons oc ocs)
  then obtain ts1 where a: "add_task oc ts = Inr ts1" "add_tasks ocs ts1 = Inr ts'"
    by (auto split: sum.splits)
  with Cons.prems add_task_ok [OF a(1)] have "\<forall>t\<in>set ts1. frames_ok n (snd t)" by simp
  with Cons.IH a(2) Cons.prems(2) show ?case by simp
qed

lemma tasks_ok_mono:
  "\<forall>t\<in>set ts. frames_ok n (snd t) \<Longrightarrow> n \<le> m \<Longrightarrow> \<forall>t\<in>set ts. frames_ok m (snd t)"
  using frames_ok_mono by blast

lemma set_remove_nth: "set (remove_nth i xs) \<subseteq> set xs"
  by (auto simp: remove_nth_def dest: in_set_takeD in_set_dropD)

lemma seg_ok_chain:
  "seg_ok cw (oc1, cw1) \<Longrightarrow> seg_ok cw1 (oc2, cw2) \<Longrightarrow> outcome_ok (lim cw2) oc1 \<and> lim cw \<le> lim cw2"
  by (auto simp: seg_ok_def outcome_ok_mono)

lemma spawn_update_wf:
  assumes "heap_wf cw ts"
  shows "cproc_wf (spawn_update env now msg cw ts)"
proof -
  obtain o1 cw1 where s1: "start_message env now msg cw = (o1, cw1)" by fastforce
  obtain o2 cw2 where s2: "(if is_media_msg msg then start_media env now msg cw1 else (Ret (Inr ()), cw1)) = (o2, cw2)"
    by fastforce
  obtain o3 cw3 where s3: "(case msg_text msg of Some t \<Rightarrow> start_text now msg t cw2 | None \<Rightarrow> (Ret (Inr ()), cw2)) = (o3, cw3)"
    by fastforce
  have ok0: "store_ok cw" and ts0: "\<forall>t\<in>set ts. frames_ok (lim cw) (snd t)"
    using assms by (simp_all add: heap_wf_def)
  have g1: "seg_ok cw (o1, cw1)"
    using start_message_seg_ok [OF ok0, of env now msg] s1 by simp
  then have ok1: "store_ok cw1" by (simp add: seg_ok_def)
  have g2: "seg_ok cw1 (o2, cw2)"
    using start_media_seg_ok [OF ok1, of env now msg] s2 ok1 by (auto split: if_splits)
  then have ok2: "store_ok cw2" by (simp add: seg_ok_def)
  have g3: "seg_ok cw2 (o3, cw3)"
    using s3 ok2
  proof (cases "msg_text msg")
    case (Some t)
    with s3 start_text_seg_ok [OF ok2, of now msg t] show ?thesis by simp
  qed auto
  have ok3: "store_ok cw3" and o3: "outcome_ok (lim cw3) o3" and l23: "lim cw2 \<le> lim cw3"
    using g3 by (simp_all add: seg_ok_def)
  have o2: "outcome_ok (lim cw3) o2" and l13: "lim cw1 \<le> lim cw3"
    using seg_ok_chain [OF g2 g3] by simp_all
  have o1: "outcome_ok (lim cw2) o1" and l02: "lim cw \<le> lim cw2"
    using seg_ok_chain [OF g1 g2] by simp_all
  have all: "\<forall>oc\<in>set [o1, o2, o3]. outcome_ok (lim cw3) oc"
    using o1 o2 o3 l23 outcome_ok_mono by auto
  have ts3: "\<forall>t\<in>set ts. frames_ok (lim cw3) (snd t)"
    using tasks_ok_mono [OF ts0] l02 l23 by simp
  show ?thesis
  proof (cases "add_tasks [o1, o2, o3] ts")
    case (Inl e)
    with ok3 show ?thesis by (simp add: spawn_update_def s1 s2 s3 del: add_tasks.simps)
  next
    case (Inr ts')
    with add_tasks_ok [OF Inr all ts3] ok3 show ?thesis
      by (simp add: spawn_update_def s1 s2 s3 heap_wf_def del: add_tasks.simps)
  qed
qed

lemma deliver_wf:
  assumes "heap_wf cw ts" "i < length ts"
  shows "cproc_wf (deliver env i cw ts)"
proof -
  obtain out fs where t: "ts ! i = (out, fs)" by fastforce
  obtain r cw1 where snd1: "send out cw = (r, cw1)" by fastforce
  obtain oc cw2 where u: "unwind env fs r cw1 = (oc, cw2)" by fastforce
  have ok0: "store_ok cw" and ts0: "\<forall>t\<in>set ts. frames_ok (lim cw) (snd t)"
    using assms(1) by (simp_all add: heap_wf_def)
  have fs0: "frames_ok (lim cw) fs"
    using ts0 nth_mem [OF assms(2)] t by fastforce
  have ok1: "store_ok cw1" and l1: "lim cw1 = lim cw"
    using ok0 store_ok_send [OF snd1] send_keeps_heap [OF snd1] by simp_all
  have g: "seg_ok cw1 (oc, cw2)"
    using unwind_seg_ok [OF ok1, of fs env r] fs0 l1 u by simp
  then have ok2: "store_ok cw2" and l2: "lim cw1 \<le> lim cw2" and o: "outcome_ok (lim cw2) oc"
    by (simp_all add: seg_ok_def)
  have "\<forall>t\<in>set (remove_nth i ts). frames_ok (lim cw2) (snd t)"
    using tasks_ok_mono [OF ts0] l1 l2 set_remove_nth [of i ts] by auto
  with ok2 o show ?thesis
    by (auto simp: deliver_def t snd1 u heap_wf_def dest: add_task_ok split: sum.splits)
qed

lemma ccleanup_loop_deletes:
  assumes "\<And>m k. P m \<Longrightarrow> P (map_delete m k)"
  shows "P m \<Longrightarrow> P (snd (ccleanup_loop env now es m))"
proof (induction es arbitrary: m)
  case Nil
  then show ?case by (simp add: io_defs)
next
  case (Cons p es)
  obtain k e where p: "p = (k, e)" by fastforce
  have "P (map_delete m k)" using assms Cons.prems by blast
  with Cons p show ?case
    by (auto simp: io_defs log_cleanup_def split: prod.splits sum.splits)
qed

lemma sweep_wf:
  assumes "heap_wf cw ts"
  shows "cproc_wf (sweep env now cw ts)"
proof -
  let ?m = "snd (ccleanupExpiredStates env now (cstore cw))"
  have "store_ok (cw\<lparr>cstore := ?m\<rparr>)"
    unfolding ccleanupExpiredStates_def
  proof (rule ccleanup_loop_deletes [where P = "\<lambda>m. store_ok (cw\<lparr>cstore := m\<rparr>)"])
    fix m k assume "store_ok (cw\<lparr>cstore := m\<rparr>)"
    then show "store_ok (cw\<lparr>cstore := map_delete m k\<rparr>)"
      using store_ok_cdelete [of "cw\<lparr>cstore := m\<rparr>" k] by (simp add: cdelete_def)
  next
    show "store_ok (cw\<lparr>cstore := cstore cw\<rparr>)" using assms by (simp add: heap_wf_def)
  qed
  with assms show ?thesis
    by (auto simp: sweep_def heap_wf_def split: prod.splits sum.splits)
qed

lemma cstep_wf: "heap_wf cw ts \<Longrightarrow> enabled s ts \<Longrightarrow> cproc_wf (cstep env now s cw ts)"
  by (cases s) (simp_all add: cstep_def enabled_def spawn_update_wf deliver_wf sweep_wf)

section \<open>The heap in every reachable state\<close>

text \<open>
  C24: In every reachable state of the concurrent process, the keys of the store are
  distinct, every stored conversation and every pending continuation refers to an
  allocated draft object, and no two stored conversations share a draft; a crashed
  process keeps a well-formed store.
\<close>

theorem reachable_heap_wf: "creach env t p \<Longrightarrow> cproc_wf p"
proof (induction rule: creach.induct)
  case (boot env t fs)
  then show ?case by (simp add: cboot_def heap_wf_def store_ok_def)
next
  case (step env t cw ts s t')
  then show ?case by (simp add: cstep_wf)
qed

text \<open>
  The state after alice's \<open>/newticket\<close> from boot: her conversation holds the first
  draft allocated.
\<close>

theorem reachable_heap_wf_witness:
  "creach demo_env 1000 (cstep demo_env 1000 (Arrive (alice (TextMsg (js ''/newticket'')))) (cboot []) []) \<and>
   (case cstep demo_env 1000 (Arrive (alice (TextMsg (js ''/newticket'')))) (cboot []) [] of
      CRunning cw ts \<Rightarrow> distinct (map (\<lambda>q. cdraft (snd q)) (cstore cw)) \<and> map fst (cstore cw) = [7] \<and>
                        cdraft (snd (hd (cstore cw))) < lim cw
    | CCrashed e cw \<Rightarrow> False)"
proof -
  let ?p = "cstep demo_env 1000 (Arrive (alice (TextMsg (js ''/newticket'')))) (cboot []) []"
  have r: "creach demo_env 1000 ?p"
    by (rule creach.step [OF creach.boot [of _ 1000]]) (simp_all add: enabled_def)
  have wf: "cproc_wf ?p" by (rule reachable_heap_wf [OF r])
  have ev: "?p = CRunning \<lparr>outbox = [], faults = [],
                 cstore = [(7, \<lparr>cstate = AWAITING_MERCHANT, cdraft = 0, clast = 1000\<rparr>)],
                 drafts = (\<lambda>_. empty_ticket), lim = 1\<rparr>
                 [(SendMessage 7 AskMerchant, [FCatch 7 (js ''Failed to start new ticket. Please try again.'')])]"
    by (simp add: async_defs alice_def demo_env_def cboot_def msg_text_def is_media_msg_def fun_upd_idem)
  from wf have "store_ok (case ?p of CRunning cw ts \<Rightarrow> cw | CCrashed e cw \<Rightarrow> cw)"
    by (cases ?p) (simp_all add: heap_wf_def)
  with r show ?thesis
    by (simp only: ev) (simp add: store_ok_def)
qed

end
