(* ===== verification/AsyncRaces.thy ===== *)
theory AsyncRaces
  imports AsyncInvariant
begin

text \<open>
  The races of the specification's concurrency section (5), in the concurrent model,
  stated for every state of the store. Nothing serialises the handlers of one user,
  and the library runs each handler only to its first \<open>await\<close> before the next
  update starts:
  \<^item> a turn of the \<open>'message'\<close> handler that awaits the dispatch of a ticket, or
    the report of a failed turn, deletes the user's conversation when it resumes,
    whichever conversation the user has by then (\<open>deleting_stack\<close>);
  \<^item> a description that fails the validation leaves the conversation in the media
    phase with the invalid draft while its report is pending, and a \<open>done\<close> sent
    then dispatches the invalid ticket;
  \<^item> a second \<open>done\<close> during a dispatch dispatches the ticket again;
  \<^item> a photo accepted while \<open>createTicket\<close> iterates the attachments joins the
    loop;
  \<^item> a failing description that contains \<open>/newticket\<close> restarts the conversation
    and then deletes it.
\<close>

section \<open>Turns that end by deleting the conversation\<close>

text \<open>
  The stacks of a \<open>'message'\<close> turn of user \<open>u\<close> that is reporting a failure, or
  that is dispatching its ticket: \<open>createTicket\<close> after its text or an attachment,
  then the success message, then \<open>userStates.delete\<close>, all inside the handler's
  \<open>try\<close>.
\<close>

inductive deleting_stack :: "int \<Rightarrow> frame list \<Rightarrow> bool" where
  report: "deleting_stack u [FSendErr, FTurnDelete u]"
| success: "deleting_stack u [FDoneSent u, FTurnCatch c u]"
| on_text_sent: "deleting_stack u [FTicketText us d, FCreateCatch, FDoneCreated c u, FTurnCatch c u]"
| on_media_sent: "deleting_stack u [FMediaSent us d i it, FCreateCatch, FDoneCreated c u, FTurnCatch c u]"
| on_media_warned: "deleting_stack u [FMediaWarned us d i, FCreateCatch, FDoneCreated c u, FTurnCatch c u]"


text \<open>alice's conversation in the media phase, with the complete draft at address 0.\<close>

definition media_cworld :: cworld where
  "media_cworld = \<lparr>outbox = [], faults = [], cstore = [(7, \<lparr>cstate = AWAITING_MEDIA, cdraft = 0, clast = 3000\<rparr>)],
                   drafts = (\<lambda>_. demo_draft), lim = 1\<rparr>"

text \<open>The same with one video already attached.\<close>

definition media1_cworld :: cworld where
  "media1_cworld = media_cworld\<lparr>drafts := (\<lambda>_. demo_draft\<lparr>media := [\<lparr>item_type = Video, fileId = js ''v1''\<rparr>]\<rparr>)\<rparr>"

text \<open>alice's conversation awaiting the description, after the one-letter merchant \<open>A\<close>.\<close>

definition desc_cworld :: cworld where
  "desc_cworld = \<lparr>outbox = [], faults = [], cstore = [(7, \<lparr>cstate = AWAITING_DESCRIPTION, cdraft = 0, clast = 2000\<rparr>)],
                  drafts = (\<lambda>_. empty_ticket\<lparr>merchantName := Some (js ''A'')\<rparr>), lim = 1\<rparr>"

text \<open>The definitions a concrete state unfolds.\<close>

lemmas witness_defs = media_cworld_def media1_cworld_def desc_cworld_def demo_defs empty_ticket_def
  msg_text_def is_media_msg_def reporter_handle_def media_of_message_def validateTicketData_def
  short_field_def js_trim_def js_is_space_def js_to_lower_def js_lower_unit_def

text \<open>
  C25: A turn in a deleting stack never rejects, and each answer to its request
  either leaves it waiting in a deleting stack or completes it with no conversation
  stored for the user. The state it resumes in is arbitrary (only its keys are
  distinct): whatever other handlers did to the store meanwhile, the turn deletes the
  entry the user has when it ends.
\<close>

theorem deleting_stack_deletes:
  assumes "deleting_stack u fs" "js_map_wf (cstore cw)" "unwind env fs r cw = (oc, cw')"
  shows "(\<exists>out fs'. oc = Wait out fs' \<and> deleting_stack u fs') \<or>
         (oc = Ret (Inr ()) \<and> map_get (cstore cw') u = None)"
  using assms(1)
proof (cases rule: deleting_stack.cases)
  case report
  with assms(2,3) show ?thesis by (auto simp: cdelete_def split: sum.splits)
next
  case (success c)
  with assms(2,3) show ?thesis
    by (auto simp: cdelete_def intro: deleting_stack.intros split: sum.splits)
next
  case (on_text_sent us d c)
  with assms(3) show ?thesis
    by (auto simp: media_next_def Let_def intro: deleting_stack.intros split: sum.splits if_splits)
next
  case (on_media_sent us d i it c)
  with assms(3) show ?thesis
    by (auto simp: media_next_def Let_def intro: deleting_stack.intros split: sum.splits if_splits)
next
  case (on_media_warned us d i c)
  with assms(3) show ?thesis
    by (auto simp: media_next_def Let_def intro: deleting_stack.intros split: sum.splits if_splits)
qed

text \<open>
  The dispatch of alice's ticket has been answered and the success message is
  delivered: the turn completes, and alice's conversation is gone.
\<close>

theorem deleting_stack_deletes_witness:
  "deleting_stack 7 [FDoneSent 7, FTurnCatch 7 7] \<and> js_map_wf (cstore media_cworld) \<and>
   unwind demo_env [FDoneSent 7, FTurnCatch 7 7] (Inr ()) media_cworld = (Ret (Inr ()), cdelete 7 media_cworld) \<and>
   map_get (cstore (cdelete 7 media_cworld)) 7 = None"
proof -
  have h: "deleting_stack 7 [FDoneSent 7, FTurnCatch 7 7]" "js_map_wf (cstore media_cworld)"
    "unwind demo_env [FDoneSent 7, FTurnCatch 7 7] (Inr ()) media_cworld = (Ret (Inr ()), cdelete 7 media_cworld)"
    by (simp_all add: media_cworld_def js_map_wf_def deleting_stack.success)
  from deleting_stack_deletes [OF h(1) h(2) h(3)] have "map_get (cstore (cdelete 7 media_cworld)) 7 = None"
    by simp
  with h show ?thesis by simp
qed

lemma text_not_media: "msg_text msg = Some t \<Longrightarrow> \<not> is_media_msg msg"
  by (auto simp: msg_text_def is_media_msg_def split: content.splits)

text \<open>
  C26: A turn of the \<open>'message'\<close> handler that submits with \<open>done\<close> in the media
  phase, or whose description fails the validation, awaits with a deleting stack; by
  C25 it ends by deleting the user's conversation, whatever the user does meanwhile.
\<close>

theorem turn_awaits_deleting:
  assumes get: "map_get (cstore cw) (from_id msg) = Some e" and tm: "msg_text msg = Some t"
    and turn: "cstate e = AWAITING_MEDIA \<and> js_to_lower t = js ''done'' \<or>
               cstate e = AWAITING_DESCRIPTION \<and> \<not> js_starts_with (js ''/'') t \<and>
               validateTicketData ((drafts cw (cdraft e))\<lparr>description := Some t,
                                     username := Some (reporter_handle msg)\<rparr>) \<noteq> None"
  shows "\<exists>out fs. fst (start_message env now msg cw) = Wait out fs \<and> deleting_stack (from_id msg) fs"
proof -
  have nm: "\<not> is_media_msg msg" using text_not_media [OF tm] .
  from turn show ?thesis
  proof
    assume dn: "cstate e = AWAITING_MEDIA \<and> js_to_lower t = js ''done''"
    then have ns: "\<not> js_starts_with (js ''/'') t" using done_not_command by blast
    from dn get tm nm ns show ?thesis
      by (auto simp: start_message_def start_step_def start_createTicket_def then_frames_def Let_def
               intro: deleting_stack.intros split: sum.splits)
  next
    assume desc: "cstate e = AWAITING_DESCRIPTION \<and> \<not> js_starts_with (js ''/'') t \<and>
               validateTicketData ((drafts cw (cdraft e))\<lparr>description := Some t,
                                     username := Some (reporter_handle msg)\<rparr>) \<noteq> None"
    with get tm nm show ?thesis
      by (auto simp: start_message_def start_step_def then_frames_def Let_def write_draft_def cset_def
               intro: deleting_stack.intros split: option.splits)
  qed
qed

theorem turn_awaits_deleting_witness:
  "map_get (cstore media_cworld) (from_id (alice (TextMsg (js ''done'')))) =
     Some \<lparr>cstate = AWAITING_MEDIA, cdraft = 0, clast = 3000\<rparr> \<and>
   msg_text (alice (TextMsg (js ''done''))) = Some (js ''done'') \<and>
   js_to_lower (js ''done'') = js ''done'' \<and>
   (\<exists>out fs. fst (start_message demo_env 4000 (alice (TextMsg (js ''done''))) media_cworld) = Wait out fs \<and>
             deleting_stack 7 fs)"
proof -
  have h: "map_get (cstore media_cworld) (from_id (alice (TextMsg (js ''done'')))) =
             Some \<lparr>cstate = AWAITING_MEDIA, cdraft = 0, clast = 3000\<rparr>"
    "msg_text (alice (TextMsg (js ''done''))) = Some (js ''done'')"
    "js_to_lower (js ''done'') = js ''done''"
    by (simp_all add: media_cworld_def alice_def msg_text_def js_to_lower_def js_lower_unit_def)
  have "\<exists>out fs. fst (start_message demo_env 4000 (alice (TextMsg (js ''done''))) media_cworld) = Wait out fs \<and>
             deleting_stack (from_id (alice (TextMsg (js ''done'')))) fs"
    by (rule turn_awaits_deleting [OF h(1) h(2)]) (simp add: js_to_lower_def js_lower_unit_def)
  with h show ?thesis by (simp add: alice_def)
qed

section \<open>The synchronous code of an arriving update\<close>

lemma arrive_turn:
  assumes "msg_text msg = Some t"
    and "\<not> js_includes (js ''/start'') t" "\<not> js_includes (js ''/help'') t"
    and "\<not> js_includes (js ''/newticket'') t" "\<not> js_includes (js ''/cancel'') t"
    and "start_message env now msg cw = (Wait out fs, cw1)"
  shows "cstep env now (Arrive msg) cw ts = CRunning cw1 (ts @ [(out, fs)])"
  using assms text_not_media [OF assms(1)]
  by (simp add: cstep_def spawn_update_def start_text_def add_task_def)

lemma failed_description_start:
  assumes get: "map_get (cstore cw) (from_id msg) = Some e" and ph: "cstate e = AWAITING_DESCRIPTION"
    and tm: "msg_text msg = Some t" and ns: "\<not> js_starts_with (js ''/'') t"
    and inv: "validateTicketData ((drafts cw (cdraft e))\<lparr>description := Some t, username := Some (reporter_handle msg)\<rparr>) = Some err"
  shows "start_message env now msg cw =
           (Wait (SendMessage (chat_id msg) (ErrorReport err)) [FSendErr, FTurnDelete (from_id msg)],
            cset (from_id msg) (e\<lparr>cstate := AWAITING_MEDIA\<rparr>)
              (write_draft (cdraft e) ((drafts cw (cdraft e))\<lparr>description := Some t, username := Some (reporter_handle msg)\<rparr>) cw))"
  using assms text_not_media [OF tm]
  by (simp add: start_message_def start_step_def then_frames_def Let_def write_draft_def cset_def)

lemma done_start:
  assumes get: "map_get (cstore cw) (from_id msg) = Some e" and ph: "cstate e = AWAITING_MEDIA"
    and tm: "msg_text msg = Some d" and dn: "js_to_lower d = js ''done''"
    and f: "merchantName (drafts cw (cdraft e)) = Some m" "description (drafts cw (cdraft e)) = Some ds"
      "username (drafts cw (cdraft e)) = Some us"
  shows "start_message env now msg cw =
           (Wait (SendMessage (target_chat env)
                    (TicketHtml (ticket_template (escape_ref m) (escape_ref us) (escape_ref ds) (iso_string env now))))
              [FTicketText us (cdraft e), FCreateCatch, FDoneCreated (chat_id msg) (from_id msg),
               FTurnCatch (chat_id msg) (from_id msg)], cw)"
proof -
  have "\<not> js_starts_with (js ''/'') d" using done_not_command [OF dn] by blast
  with assms text_not_media [OF tm] show ?thesis
    by (simp add: start_message_def start_step_def start_createTicket_def then_frames_def Let_def
                  formatTicketMessage_Some js_str_of_def)
qed

lemma done_arrival:
  assumes "map_get (cstore cw) (from_id msg) = Some e" "cstate e = AWAITING_MEDIA"
    and tm: "msg_text msg = Some d" and dn: "js_to_lower d = js ''done''"
    and "merchantName (drafts cw (cdraft e)) = Some m" "description (drafts cw (cdraft e)) = Some ds"
      "username (drafts cw (cdraft e)) = Some us"
  shows "cstep env now (Arrive msg) cw ts =
           CRunning cw (ts @ [(SendMessage (target_chat env)
                    (TicketHtml (ticket_template (escape_ref m) (escape_ref us) (escape_ref ds) (iso_string env now))),
              [FTicketText us (cdraft e), FCreateCatch, FDoneCreated (chat_id msg) (from_id msg),
               FTurnCatch (chat_id msg) (from_id msg)])])"
  using done_not_command [OF dn]
  by (intro arrive_turn [OF tm] done_start [OF assms]) simp_all

section \<open>Validation bypassed\<close>

text \<open>
  C1: The conversation is not deleted when the validation fails, only after the error
  report has been answered. From any state of the store, a description turn whose
  draft fails \<open>validateTicketData\<close> leaves the user's conversation in the media
  phase, holding the draft that failed, while the process awaits the report. The
  specification has the failing turn delete the state; until the answer arrives any
  other update of the user sees a media-phase conversation with an invalid draft.
\<close>

theorem failed_description_keeps_invalid_entry:
  assumes get: "map_get (cstore cw) (from_id msg) = Some e" and ph: "cstate e = AWAITING_DESCRIPTION"
    and tm: "msg_text msg = Some t" and ns: "\<not> js_starts_with (js ''/'') t"
    and nc: "\<not> js_includes (js ''/start'') t" "\<not> js_includes (js ''/help'') t"
      "\<not> js_includes (js ''/newticket'') t" "\<not> js_includes (js ''/cancel'') t"
    and inv: "validateTicketData ((drafts cw (cdraft e))\<lparr>description := Some t, username := Some (reporter_handle msg)\<rparr>) = Some err"
  shows "\<exists>cw1. cstep env now (Arrive msg) cw ts =
           CRunning cw1 (ts @ [(SendMessage (chat_id msg) (ErrorReport err), [FSendErr, FTurnDelete (from_id msg)])]) \<and>
         map_get (cstore cw1) (from_id msg) = Some (e\<lparr>cstate := AWAITING_MEDIA\<rparr>) \<and>
         validateTicketData (drafts cw1 (cdraft e)) = Some err"
  using arrive_turn [OF tm nc failed_description_start [OF get ph tm ns inv]] inv
  by (simp add: cset_def write_draft_def)

theorem failed_description_keeps_invalid_entry_witness:
  "\<exists>cw1. cstep demo_env 3000 (Arrive (alice (TextMsg demo_desc))) desc_cworld [] =
           CRunning cw1 [(SendMessage 7 (ErrorReport merchant_too_short), [FSendErr, FTurnDelete 7])] \<and>
         map_get (cstore cw1) 7 = Some \<lparr>cstate = AWAITING_MEDIA, cdraft = 0, clast = 2000\<rparr> \<and>
         validateTicketData (drafts cw1 0) = Some merchant_too_short"
proof -
  have h: "map_get (cstore desc_cworld) (from_id (alice (TextMsg demo_desc))) =
             Some \<lparr>cstate = AWAITING_DESCRIPTION, cdraft = 0, clast = 2000\<rparr>"
    "cstate \<lparr>cstate = AWAITING_DESCRIPTION, cdraft = 0, clast = 2000\<rparr> = AWAITING_DESCRIPTION"
    "msg_text (alice (TextMsg demo_desc)) = Some demo_desc" "\<not> js_starts_with (js ''/'') demo_desc"
    "\<not> js_includes (js ''/start'') demo_desc" "\<not> js_includes (js ''/help'') demo_desc"
    "\<not> js_includes (js ''/newticket'') demo_desc" "\<not> js_includes (js ''/cancel'') demo_desc"
    "validateTicketData ((drafts desc_cworld (cdraft \<lparr>cstate = AWAITING_DESCRIPTION, cdraft = 0, clast = 2000\<rparr>))
        \<lparr>description := Some demo_desc, username := Some (reporter_handle (alice (TextMsg demo_desc)))\<rparr>) =
       Some merchant_too_short"
    by (simp_all add: witness_defs)
  show ?thesis
    using failed_description_keeps_invalid_entry [OF h, where env = demo_env and now = 3000 and ts = "[]"]
    by (simp add: alice_def)
qed

text \<open>
  C2: The validation can be bypassed. When the description fails the validation (for
  example a one-letter merchant name) and the user sends \<open>done\<close> before the error
  report has been answered, the \<open>done\<close> turn dispatches the draft that failed: the
  ticket text built from it is the next request queued for the destination chat.
  \<open>createTicket\<close> does not validate again.
\<close>

theorem done_in_window_dispatches_invalid_ticket:
  assumes get: "map_get (cstore cw) (from_id msg) = Some e" and ph: "cstate e = AWAITING_DESCRIPTION"
    and tm: "msg_text msg = Some t" and ns: "\<not> js_starts_with (js ''/'') t"
    and nc: "\<not> js_includes (js ''/start'') t" "\<not> js_includes (js ''/help'') t"
      "\<not> js_includes (js ''/newticket'') t" "\<not> js_includes (js ''/cancel'') t"
    and inv: "validateTicketData ((drafts cw (cdraft e))\<lparr>description := Some t, username := Some (reporter_handle msg)\<rparr>) = Some err"
    and mer: "merchantName (drafts cw (cdraft e)) = Some m"
    and m2: "from_id msg2 = from_id msg" "msg_text msg2 = Some d" "js_to_lower d = js ''done''"
  shows "\<exists>cw1 ts1 fs. cstep env now (Arrive msg) cw ts = CRunning cw1 ts1 \<and>
           validateTicketData (drafts cw1 (cdraft e)) = Some err \<and>
           cstep env later (Arrive msg2) cw1 ts1 =
             CRunning cw1 (ts1 @ [(SendMessage (target_chat env)
               (TicketHtml (ticket_template (escape_ref m) (escape_ref (reporter_handle msg)) (escape_ref t)
                              (iso_string env later))), fs)])"
proof -
  let ?td = "(drafts cw (cdraft e))\<lparr>description := Some t, username := Some (reporter_handle msg)\<rparr>"
  let ?cw1 = "cset (from_id msg) (e\<lparr>cstate := AWAITING_MEDIA\<rparr>) (write_draft (cdraft e) ?td cw)"
  let ?ts1 = "ts @ [(SendMessage (chat_id msg) (ErrorReport err), [FSendErr, FTurnDelete (from_id msg)])]"
  have a1: "cstep env now (Arrive msg) cw ts = CRunning ?cw1 ?ts1"
    by (rule arrive_turn [OF tm nc failed_description_start [OF get ph tm ns inv]])
  have g1: "map_get (cstore ?cw1) (from_id msg2) = Some (e\<lparr>cstate := AWAITING_MEDIA\<rparr>)"
    using m2(1) by (simp add: cset_def)
  have d1: "drafts ?cw1 (cdraft e) = ?td" by (simp add: cset_def write_draft_def)
  have "cstep env later (Arrive msg2) ?cw1 ?ts1 =
          CRunning ?cw1 (?ts1 @ [(SendMessage (target_chat env)
             (TicketHtml (ticket_template (escape_ref m) (escape_ref (reporter_handle msg)) (escape_ref t)
                            (iso_string env later))),
             [FTicketText (reporter_handle msg) (cdraft e), FCreateCatch, FDoneCreated (chat_id msg2) (from_id msg2),
              FTurnCatch (chat_id msg2) (from_id msg2)])])"
    by (simp add: done_arrival [OF g1 _ m2(2,3), where m = m and ds = t and us = "reporter_handle msg"] d1 mer)
  moreover have "validateTicketData (drafts ?cw1 (cdraft e)) = Some err" using d1 inv by simp
  ultimately show ?thesis using a1 by blast
qed

theorem done_in_window_dispatches_invalid_ticket_witness:
  "\<exists>cw1 ts1 fs. cstep demo_env 3000 (Arrive (alice (TextMsg demo_desc))) desc_cworld [] = CRunning cw1 ts1 \<and>
     validateTicketData (drafts cw1 0) = Some merchant_too_short \<and>
     cstep demo_env 3001 (Arrive (alice (TextMsg (js ''done'')))) cw1 ts1 =
       CRunning cw1 (ts1 @ [(SendMessage (target_chat demo_env)
         (TicketHtml (ticket_template (escape_ref (js ''A'')) (escape_ref (js ''alice'')) (escape_ref demo_desc)
                        (iso_string demo_env 3001))), fs)])"
proof -
  have h: "map_get (cstore desc_cworld) (from_id (alice (TextMsg demo_desc))) =
             Some \<lparr>cstate = AWAITING_DESCRIPTION, cdraft = 0, clast = 2000\<rparr>"
    "cstate \<lparr>cstate = AWAITING_DESCRIPTION, cdraft = 0, clast = 2000\<rparr> = AWAITING_DESCRIPTION"
    "msg_text (alice (TextMsg demo_desc)) = Some demo_desc" "\<not> js_starts_with (js ''/'') demo_desc"
    "\<not> js_includes (js ''/start'') demo_desc" "\<not> js_includes (js ''/help'') demo_desc"
    "\<not> js_includes (js ''/newticket'') demo_desc" "\<not> js_includes (js ''/cancel'') demo_desc"
    "validateTicketData ((drafts desc_cworld (cdraft \<lparr>cstate = AWAITING_DESCRIPTION, cdraft = 0, clast = 2000\<rparr>))
        \<lparr>description := Some demo_desc, username := Some (reporter_handle (alice (TextMsg demo_desc)))\<rparr>) =
       Some merchant_too_short"
    "merchantName (drafts desc_cworld (cdraft \<lparr>cstate = AWAITING_DESCRIPTION, cdraft = 0, clast = 2000\<rparr>)) = Some (js ''A'')"
    "from_id (alice (TextMsg (js ''done''))) = from_id (alice (TextMsg demo_desc))"
    "msg_text (alice (TextMsg (js ''done''))) = Some (js ''done'')" "js_to_lower (js ''done'') = js ''done''"
    by (simp_all add: witness_defs)
  show ?thesis
    using done_in_window_dispatches_invalid_ticket [OF h, where env = demo_env and now = 3000 and ts = "[]" and later = 3001]
    by (simp add: alice_def reporter_handle_def)
qed

section \<open>Races of one user\<close>

text \<open>
  C27: Nothing marks a conversation as being submitted. From any state in which the
  user's conversation awaits media with a complete draft, two \<open>done\<close> messages (any
  letter case) that arrive before the first dispatch has completed both queue the
  ticket text for the destination chat, and neither changes the store.
\<close>

theorem double_done_dispatches_twice:
  assumes get: "map_get (cstore cw) (from_id msg1) = Some e" "cstate e = AWAITING_MEDIA"
    and m1: "msg_text msg1 = Some d1" "js_to_lower d1 = js ''done''"
    and m2: "from_id msg2 = from_id msg1" "msg_text msg2 = Some d2" "js_to_lower d2 = js ''done''"
    and f: "merchantName (drafts cw (cdraft e)) = Some m" "description (drafts cw (cdraft e)) = Some ds"
      "username (drafts cw (cdraft e)) = Some us"
  shows "\<exists>fs1 fs2.
           cstep env now (Arrive msg1) cw ts =
             CRunning cw (ts @ [(SendMessage (target_chat env)
               (TicketHtml (ticket_template (escape_ref m) (escape_ref us) (escape_ref ds) (iso_string env now))), fs1)]) \<and>
           cstep env later (Arrive msg2) cw
             (ts @ [(SendMessage (target_chat env)
               (TicketHtml (ticket_template (escape_ref m) (escape_ref us) (escape_ref ds) (iso_string env now))), fs1)]) =
             CRunning cw (ts @ [(SendMessage (target_chat env)
               (TicketHtml (ticket_template (escape_ref m) (escape_ref us) (escape_ref ds) (iso_string env now))), fs1),
               (SendMessage (target_chat env)
               (TicketHtml (ticket_template (escape_ref m) (escape_ref us) (escape_ref ds) (iso_string env later))), fs2)])"
proof -
  have g2: "map_get (cstore cw) (from_id msg2) = Some e" using get m2(1) by simp
  show ?thesis
    using done_arrival [OF get m1 f, of env now ts] done_arrival [OF g2 get(2) m2(2,3) f] by auto
qed

theorem double_done_dispatches_twice_witness:
  "\<exists>fs1 fs2.
     cstep demo_env 4000 (Arrive (alice (TextMsg (js ''done'')))) media_cworld [] =
       CRunning media_cworld [(SendMessage (target_chat demo_env) (TicketHtml (ticket_template (escape_ref (js ''Acme Corp''))
           (escape_ref (js ''alice'')) (escape_ref demo_desc) (iso_string demo_env 4000))), fs1)] \<and>
     cstep demo_env 4001 (Arrive (alice (TextMsg (js ''Done'')))) media_cworld
       [(SendMessage (target_chat demo_env) (TicketHtml (ticket_template (escape_ref (js ''Acme Corp''))
           (escape_ref (js ''alice'')) (escape_ref demo_desc) (iso_string demo_env 4000))), fs1)] =
       CRunning media_cworld [(SendMessage (target_chat demo_env) (TicketHtml (ticket_template (escape_ref (js ''Acme Corp''))
           (escape_ref (js ''alice'')) (escape_ref demo_desc) (iso_string demo_env 4000))), fs1),
         (SendMessage (target_chat demo_env) (TicketHtml (ticket_template (escape_ref (js ''Acme Corp''))
           (escape_ref (js ''alice'')) (escape_ref demo_desc) (iso_string demo_env 4001))), fs2)]"
proof -
  have h: "map_get (cstore media_cworld) (from_id (alice (TextMsg (js ''done'')))) =
             Some \<lparr>cstate = AWAITING_MEDIA, cdraft = 0, clast = 3000\<rparr>"
    "cstate \<lparr>cstate = AWAITING_MEDIA, cdraft = 0, clast = 3000\<rparr> = AWAITING_MEDIA"
    "msg_text (alice (TextMsg (js ''done''))) = Some (js ''done'')" "js_to_lower (js ''done'') = js ''done''"
    "from_id (alice (TextMsg (js ''Done''))) = from_id (alice (TextMsg (js ''done'')))"
    "msg_text (alice (TextMsg (js ''Done''))) = Some (js ''Done'')" "js_to_lower (js ''Done'') = js ''done''"
    "merchantName (drafts media_cworld (cdraft \<lparr>cstate = AWAITING_MEDIA, cdraft = 0, clast = 3000\<rparr>)) = Some (js ''Acme Corp'')"
    "description (drafts media_cworld (cdraft \<lparr>cstate = AWAITING_MEDIA, cdraft = 0, clast = 3000\<rparr>)) = Some demo_desc"
    "username (drafts media_cworld (cdraft \<lparr>cstate = AWAITING_MEDIA, cdraft = 0, clast = 3000\<rparr>)) = Some (js ''alice'')"
    by (simp_all add: witness_defs)
  show ?thesis
    using double_done_dispatches_twice [OF h, where env = demo_env and now = 4000 and later = 4001 and ts = "[]"]
    by simp
qed

text \<open>
  C28: \<open>createTicket\<close> iterates the live \<open>media\<close> array of the stored draft. When the
  loop has sent the last attachment and awaits its answer, the answer would end the
  loop; if a photo or video of the same user arrives first, it is pushed onto that
  array (and acknowledged), and the same answer now sends it as the next attachment.
\<close>

theorem photo_during_dispatch_is_sent:
  assumes get: "map_get (cstore cw) (from_id msg) = Some e" "cstate e = AWAITING_MEDIA"
    and item: "media_of_message msg = Inr item"
    and last: "Suc i = length (media (drafts cw (cdraft e)))"
  shows "unwind env (FMediaSent us (cdraft e) i it # ks) (Inr ()) cw = unwind env ks (Inr ()) cw \<and>
         (\<exists>cw'. cstep env now (Arrive msg) cw ts =
                  CRunning cw' (ts @ [(SendMessage (chat_id msg) MediaAttached, [FCatch (chat_id msg) media_failed])]) \<and>
                unwind env (FMediaSent us (cdraft e) i it # ks) (Inr ()) cw' =
                  (Wait (media_request env us item) (FMediaSent us (cdraft e) (Suc i) item # ks), cw'))"
proof -
  from item have mm: "is_media_msg msg" "msg_text msg = None"
    by (auto simp: media_of_message_def is_media_msg_def msg_text_def split: content.splits if_splits)
  let ?cw' = "cupdateUserState now (from_id msg) AWAITING_MEDIA (cdraft e)
                (write_draft (cdraft e) ((drafts cw (cdraft e))\<lparr>media := media (drafts cw (cdraft e)) @ [item]\<rparr>) cw)"
  have "cstep env now (Arrive msg) cw ts =
          CRunning ?cw' (ts @ [(SendMessage (chat_id msg) MediaAttached, [FCatch (chat_id msg) media_failed])])"
    using get item mm
    by (simp add: cstep_def spawn_update_def start_message_def start_media_def then_frames_def add_task_def)
  moreover have "unwind env (FMediaSent us (cdraft e) i it # ks) (Inr ()) ?cw' =
                  (Wait (media_request env us item) (FMediaSent us (cdraft e) (Suc i) item # ks), ?cw')"
    using last by (simp add: media_next_def Let_def cupdateUserState_def cset_def write_draft_def nth_append)
  moreover have "unwind env (FMediaSent us (cdraft e) i it # ks) (Inr ()) cw = unwind env ks (Inr ()) cw"
    using last by (simp add: media_next_def Let_def)
  ultimately show ?thesis by blast
qed

theorem photo_during_dispatch_is_sent_witness:
  "unwind demo_env [FMediaSent (js ''alice'') 0 0 \<lparr>item_type = Video, fileId = js ''v1''\<rparr>, FCreateCatch,
      FDoneCreated 7 7, FTurnCatch 7 7] (Inr ()) media1_cworld =
     unwind demo_env [FCreateCatch, FDoneCreated 7 7, FTurnCatch 7 7] (Inr ()) media1_cworld \<and>
   (\<exists>cw'. cstep demo_env 4002 (Arrive (alice (PhotoMsg [js ''small'', js ''large'']))) media1_cworld [] =
            CRunning cw' [(SendMessage 7 MediaAttached, [FCatch 7 media_failed])] \<and>
          unwind demo_env [FMediaSent (js ''alice'') 0 0 \<lparr>item_type = Video, fileId = js ''v1''\<rparr>, FCreateCatch,
              FDoneCreated 7 7, FTurnCatch 7 7] (Inr ()) cw' =
            (Wait (media_request demo_env (js ''alice'') \<lparr>item_type = Photo, fileId = js ''large''\<rparr>)
               [FMediaSent (js ''alice'') 0 (Suc 0) \<lparr>item_type = Photo, fileId = js ''large''\<rparr>, FCreateCatch,
                FDoneCreated 7 7, FTurnCatch 7 7], cw'))"
proof -
  have h: "map_get (cstore media1_cworld) (from_id (alice (PhotoMsg [js ''small'', js ''large'']))) =
             Some \<lparr>cstate = AWAITING_MEDIA, cdraft = 0, clast = 3000\<rparr>"
    "cstate \<lparr>cstate = AWAITING_MEDIA, cdraft = 0, clast = 3000\<rparr> = AWAITING_MEDIA"
    "media_of_message (alice (PhotoMsg [js ''small'', js ''large''])) = Inr \<lparr>item_type = Photo, fileId = js ''large''\<rparr>"
    "Suc 0 = length (media (drafts media1_cworld (cdraft \<lparr>cstate = AWAITING_MEDIA, cdraft = 0, clast = 3000\<rparr>)))"
    by (simp_all add: witness_defs)
  show ?thesis
    using photo_during_dispatch_is_sent [OF h, where env = demo_env and now = 4002 and ts = "[]"
        and us = "js ''alice''" and it = "\<lparr>item_type = Video, fileId = js ''v1''\<rparr>"
        and ks = "[FCreateCatch, FDoneCreated 7 7, FTurnCatch 7 7]"]
    by (simp add: alice_def)
qed

text \<open>
  C29: A description that fails the validation and contains \<open>/newticket\<close> reaches
  both handlers of the update. The \<open>onText\<close> handler restarts the conversation with
  an empty draft and asks for a merchant name, and the failing turn awaits its
  report in a stack that, whatever the answer and whatever the store then holds,
  deletes the user's conversation: the restarted conversation is lost in every
  order of the two answers.
\<close>

theorem failed_turn_deletes_restart:
  assumes get: "map_get (cstore cw) (from_id msg) = Some e" and ph: "cstate e = AWAITING_DESCRIPTION"
    and tm: "msg_text msg = Some t" and ns: "\<not> js_starts_with (js ''/'') t"
    and nc: "\<not> js_includes (js ''/start'') t" "\<not> js_includes (js ''/help'') t" "js_includes (js ''/newticket'') t"
    and inv: "validateTicketData ((drafts cw (cdraft e))\<lparr>description := Some t, username := Some (reporter_handle msg)\<rparr>) = Some err"
  shows "\<exists>cw1 d. cstep env now (Arrive msg) cw ts =
           CRunning cw1 (ts @ [(SendMessage (chat_id msg) (ErrorReport err), [FSendErr, FTurnDelete (from_id msg)]),
                               (SendMessage (chat_id msg) AskMerchant,
                                [FCatch (chat_id msg) (js ''Failed to start new ticket. Please try again.'')])]) \<and>
         map_get (cstore cw1) (from_id msg) = Some \<lparr>cstate = AWAITING_MERCHANT, cdraft = d, clast = now\<rparr> \<and>
         drafts cw1 d = empty_ticket \<and>
         (\<forall>r cw2. unwind env [FSendErr, FTurnDelete (from_id msg)] r cw2 = (Ret (Inr ()), cdelete (from_id msg) cw2))"
proof -
  have u: "unwind env [FSendErr, FTurnDelete (from_id msg)] r cw2 = (Ret (Inr ()), cdelete (from_id msg) cw2)" for r cw2
    by simp
  show ?thesis
    using failed_description_start [OF get ph tm ns inv, of env now] text_not_media [OF tm] tm nc u
    by (simp add: cstep_def spawn_update_def start_text_def start_newticket_def add_task_def alloc_draft_def
                  cupdateUserState_def cset_def)
qed

theorem failed_turn_deletes_restart_witness:
  "\<exists>cw1 d. cstep demo_env 3000 (Arrive (alice (TextMsg (js ''Broken checkout /newticket'')))) desc_cworld [] =
       CRunning cw1 [(SendMessage 7 (ErrorReport merchant_too_short), [FSendErr, FTurnDelete 7]),
                     (SendMessage 7 AskMerchant, [FCatch 7 (js ''Failed to start new ticket. Please try again.'')])] \<and>
     map_get (cstore cw1) 7 = Some \<lparr>cstate = AWAITING_MERCHANT, cdraft = d, clast = 3000\<rparr> \<and>
     drafts cw1 d = empty_ticket \<and>
     (\<forall>r cw2. unwind demo_env [FSendErr, FTurnDelete 7] r cw2 = (Ret (Inr ()), cdelete 7 cw2))"
proof -
  have h: "map_get (cstore desc_cworld) (from_id (alice (TextMsg (js ''Broken checkout /newticket'')))) =
             Some \<lparr>cstate = AWAITING_DESCRIPTION, cdraft = 0, clast = 2000\<rparr>"
    "cstate \<lparr>cstate = AWAITING_DESCRIPTION, cdraft = 0, clast = 2000\<rparr> = AWAITING_DESCRIPTION"
    "msg_text (alice (TextMsg (js ''Broken checkout /newticket''))) = Some (js ''Broken checkout /newticket'')"
    "\<not> js_starts_with (js ''/'') (js ''Broken checkout /newticket'')"
    "\<not> js_includes (js ''/start'') (js ''Broken checkout /newticket'')"
    "\<not> js_includes (js ''/help'') (js ''Broken checkout /newticket'')"
    "js_includes (js ''/newticket'') (js ''Broken checkout /newticket'')"
    "validateTicketData ((drafts desc_cworld (cdraft \<lparr>cstate = AWAITING_DESCRIPTION, cdraft = 0, clast = 2000\<rparr>))
        \<lparr>description := Some (js ''Broken checkout /newticket''),
         username := Some (reporter_handle (alice (TextMsg (js ''Broken checkout /newticket''))))\<rparr>) =
       Some merchant_too_short"
    by (simp_all add: witness_defs)
  show ?thesis
    using failed_turn_deletes_restart [OF h, where env = demo_env and now = 3000 and ts = "[]"]
    by (simp add: alice_def)
qed

end
