(* ===== verification/Spec2Isabelle.thy ===== *)
theory Spec2Isabelle
  imports BotBehaviour Server AsyncRaces
begin

text \<open>
  \<^bold>\<open>A verification model of the support-ticket Telegram bot (arman1601/bot-prod).\<close>

  \<^bold>\<open>The program.\<close> src/bot.js keeps one conversation per user in the in-memory
  \<open>Map\<close> \<open>userStates\<close> and walks it through three phases (merchant name,
  description, optional media) on the messages node-telegram-bot-api delivers to its
  handlers (\<open>onText\<close> for /start, /help, /newticket, /cancel; \<open>'photo'\<close> and
  \<open>'video'\<close> for \<open>handleMedia\<close>; \<open>'message'\<close> for the plain-text turns).
  src/ticketService.js validates the draft (\<open>validateTicketData\<close>), formats it as
  HTML with the user's text escaped (\<open>escapeHtml\<close>, \<open>formatTicketMessage\<close>) and
  sends it with its attachments to the destination chat (\<open>createTicket\<close>). A timer
  (\<open>setInterval\<close>, every 5 minutes) deletes conversations untouched for 30 minutes
  (\<open>cleanupExpiredStates\<close>). src/index.js is an Express server with a webhook and
  a health endpoint.

  \<^bold>\<open>The theories.\<close>
  \<^item> \<open>JsPrelude\<close>: JavaScript strings as lists of UTF-16 code units (\<open>jstr\<close>,
    literals through \<open>js\<close>), the built-ins the code calls (\<open>trim\<close>, \<open>startsWith\<close>,
    \<open>toLowerCase\<close> as compared with \<open>'done'\<close>, a regular expression of literal
    characters), the exceptions (\<open>js_error\<close>, with \<open>error.message\<close>), the
    environment \<open>js_env\<close> (destination chat, clock rendering, and whether the
    undeclared identifiers \<open>logger\<close> and \<open>lconsole\<close> are bound; in the deployed
    program, \<open>deployed_env\<close>, they are not), and the exception-state monad
    (\<open>io_bind\<close>, \<open>io_seq\<close>, \<open>io_catch\<close> for \<open>await\<close>, sequencing and \<open>try/catch\<close>).
  \<^item> \<open>JsMap\<close>: the insertion-ordered \<open>Map\<close> as an association list, refined to
    \<open>map_of\<close> and to HOL-Library's AList.
  \<^item> \<open>Messenger\<close>: the Bot API requests (\<open>outbound\<close>) and the network as state
    (\<open>net\<close>: \<open>outbox\<close> of delivered requests, \<open>faults\<close> the oracle of failing
    requests); \<open>send\<close> is the one effect every handler has on the outside world.
  \<^item> \<open>TicketService\<close>: ticketService.js, every function of it: the draft record
    \<open>ticket_data\<close>, \<open>validateTicketData\<close>, \<open>escapeHtml\<close> with its one-pass
    reference \<open>escape_ref\<close> and the decoder \<open>unescape_html\<close>, \<open>formatTicketMessage\<close>
    (the template \<open>ticket_template\<close> code unit by code unit), and \<open>createTicket\<close>
    with its media loop \<open>send_media_items\<close>.
  \<^item> \<open>StateStore\<close>: the phases (ticketStates.js is not among the sources; its three
    values come from the specification), the per-user record \<open>user_state\<close>,
    \<open>updateUserState\<close>, and the sweep \<open>cleanupExpiredStates\<close> (loop \<open>cleanup_loop\<close>).
  \<^item> \<open>Bot\<close>: bot.js's handlers (\<open>sendErrorMessage\<close>, \<open>on_start\<close>, \<open>on_help\<close>,
    \<open>on_newticket\<close>, \<open>on_cancel\<close>, \<open>handleMedia\<close>, the \<open>'message'\<close> handler
    \<open>on_message\<close> with its \<open>switch\<close> \<open>message_step\<close>), the library's dispatch of
    one update (\<open>process_message\<close>, \<open>on_text\<close>), the process (\<open>bot_event\<close>: an
    incoming message or the sweep timer; an unhandled rejection or a throw from the
    timer crashes it) and its runs (\<open>reach\<close>, an inductive relation from boot with
    non-decreasing event times). \<open>bot_event\<close> runs all the handlers of one update
    to completion before the next event: this is the behaviour when the user waits
    for each reply, and the model of the single-update properties; it is not the
    program's concurrency, which AsyncModel models.
  \<^item> \<open>BotInvariant\<close>: the store invariant \<open>store_inv\<close> of the run-to-completion
    model and its preservation by every handler (the \<open>keeps\<close> rules), lifted to its
    reachable states by rule induction. It is a lemma of that model only: in the
    program (AsyncModel) it fails while a failed turn awaits its report (C1).
  \<^item> \<open>BotBehaviour\<close>: the properties of the handlers and of reachable states, with
    witnesses run from boot by the simplifier.
  \<^item> \<open>Server\<close>: src/index.js: \<open>process.env\<close> (\<open>process_env\<close>, \<open>port_of\<close>,
    \<open>webhook_path\<close>), \<open>startServer\<close> with its listen failure, and the Express
    application \<open>app\<close> (body parser \<open>json_middleware\<close>, the routes
    \<open>webhook_route\<close> and \<open>health_route\<close> in registration order, 404, 400 and the
    500 of a throwing route). The route calls \<open>bot.handleUpdate\<close>; the bot object
    offers only \<open>processUpdate\<close> (\<open>bot_method\<close>), and \<open>app_with\<close> takes the
    called name as a parameter so the intended call can be stated too.
  \<^item> \<open>AsyncModel\<close>: the handlers split at their \<open>await\<close>s. Each \<open>start_\<close>
    definition (\<open>start_message\<close> with its \<open>switch\<close> \<open>start_step\<close>,
    \<open>start_media\<close>, \<open>start_text\<close>, \<open>start_createTicket\<close>, ...) is the
    synchronous code of a handler up to its first \<open>await\<close>; the code after an
    \<open>await\<close> is a defunctionalised frame (\<open>frame\<close>) run by \<open>resume\<close> and
    \<open>unwind\<close> on the request's answer. The draft objects the handlers mutate in
    place are on a heap (\<open>drafts\<close>, allocated by \<open>alloc_draft\<close>), so a
    \<open>ticketData\<close> shared between a stored conversation and a running
    \<open>createTicket\<close> is one object. The process (\<open>cstep\<close>, reachability
    \<open>creach\<close>) keeps a pool of pending handlers and, at each step, takes a new
    update (all its handlers run to their first \<open>await\<close>, in emission order), the
    answer to any pending request, or the sweep timer.
  \<^item> \<open>AsyncInvariant\<close>: the heap invariant \<open>cproc_wf\<close> (distinct keys, every
    conversation and frame naming an allocated draft, no two conversations sharing
    one) and its preservation by every step.
  \<^item> \<open>AsyncRaces\<close>: the stacks that end by deleting the user's conversation
    (\<open>deleting_stack\<close>, an inductive predicate), the synchronous code of an
    arriving update (\<open>arrive_turn\<close>, \<open>done_arrival\<close>), and the races, each stated
    for every state of the store.
  \<^item> This theory: the end-to-end scenarios of the specification, for every merchant
    name and description.

  \<^bold>\<open>What is shown.\<close> In the concurrent model, the validation bypass: a failed
  description leaves an invalid draft in the media phase until its report is
  answered (C1), and a \<open>done\<close> in that window dispatches it (C2); submitting with
  \<open>done\<close> (C3); \<open>createTicket\<close> on every pattern of network failures, as deployed
  and as intended (C4--C6); \<open>escapeHtml\<close>'s equivalence with one-pass escaping, its
  round trip and its markup safety (C7--C9); the exact validation rule, in UTF-16 code
  units (C10); the sweep as deployed and as intended (C11, C12); the remaining handler
  behaviours (C13--C19); the end-to-end scenarios for every valid and every short
  merchant name (C20, C21); the order of the handlers of one update (C22); the
  deployed webhook answers 500 (C23); in the concurrent model, the heap invariant in
  every reachable state (C24), the turns that end by deleting the user's
  conversation whatever it is by then (C25, C26), and the races of one user: a second
  \<open>done\<close> dispatches again (C27), a photo accepted during the dispatch joins the
  attachment loop (C28), and a failing description containing \<open>/newticket\<close>
  deletes the conversation its own update restarted (C29).

  \<^bold>\<open>Bounds and choices.\<close> Timestamps are \<open>int\<close> milliseconds: \<open>Date.now()\<close> is
  an integer below \<open>2^53\<close>, where JavaScript numbers are exact, so no rounding is
  modelled. Lengths are in UTF-16 code units, as \<open>String.prototype.length\<close>
  counts. Loops are structural recursion over the list they iterate (the media of
  a draft, the entries of the map), so no fuel is needed. The specification (5)
  says nothing serialises the events of one user. In Bot each update runs to
  completion before the next event, which holds when the user waits for each reply;
  the claims stated there (C3, C13--C22) are about one update from a given state, or
  about such a paced conversation. AsyncModel runs each handler only to its first
  \<open>await\<close>, as the library does when it emits an update, and lets every answer
  arrive in any order; the claims about the store under concurrency (C1, C2, C24--C29)
  are stated there. The network is an oracle list consumed one answer per request.

  \<^bold>\<open>Not modelled.\<close> Console logging (except where the logging call itself
  throws), so the \<open>polling_error\<close> listener of bot.js, which only logs through the
  defined \<open>console\<close>, has no definition: it changes no state and cannot throw;
  the texts of the fixed replies (named by constructors of
  \<open>bot_text\<close>); \<open>toISOString\<close> (a parameter of the environment); Express's
  path matching (a parameter \<open>pm\<close> of \<open>app_with\<close>) and the HTTP transport; the
  transport library itself (polling, retries, the request timeout; not under src/),
  of which the dispatch order of one update is modelled and the arrival of an update
  is an event of both process models. In AsyncModel the microtasks between an
  answer and the code it resumes are not separated: an awaited \<open>async\<close> call
  that settles returns into its caller in the same step. Each answer arrives in a
  task of its own and the microtask queue drains before the next task, so this
  merges steps no other handler could run between.
\<close>

section \<open>End-to-end scenarios of the specification\<close>

text \<open>
  A text the \<open>'message'\<close> handler treats as a turn of the conversation and no
  \<open>onText\<close> pattern matches.
\<close>

definition plain_text :: "jstr \<Rightarrow> bool" where
  "plain_text t \<longleftrightarrow>
     \<not> js_starts_with (js ''/'') t \<and> \<not> js_includes (js ''/start'') t \<and> \<not> js_includes (js ''/help'') t \<and>
     \<not> js_includes (js ''/newticket'') t \<and> \<not> js_includes (js ''/cancel'') t"

text \<open>
  The conversation of the specification's scenarios, from boot: alice starts a ticket
  at time 1000, names the merchant at 2000, describes the problem at 3000 and sends
  \<open>done\<close> at 4000, each message after the previous one has been answered.
\<close>

definition ticket_scenario :: "jstr \<Rightarrow> jstr \<Rightarrow> (int \<times> event) list" where
  "ticket_scenario merchant desc =
     [(1000, Incoming (alice (TextMsg (js ''/newticket'')))),
      (2000, Incoming (alice (TextMsg merchant))),
      (3000, Incoming (alice (TextMsg desc))),
      (4000, Incoming (alice (TextMsg (js ''done''))))]"

text \<open>
  C20: For every merchant name and description that pass the validation, on a network
  that delivers every request, the user receives the three prompts in sequence
  (merchant, description, media or done), the destination chat receives exactly one
  ticket message built from the escaped merchant name, reporter and description and
  no attachment, the user is told the ticket was created, and no conversation is
  left in the store.
\<close>

theorem end_to_end_ticket:
  assumes "plain_text m" "plain_text d"
    and "validateTicketData \<lparr>merchantName = Some m, description = Some d, username = Some (js ''alice''), media = []\<rparr> = None"
  shows "run_events env (Running (boot_world [])) (ticket_scenario m d) =
     Running \<lparr>outbox = [SendMessage 7 AskMerchant, SendMessage 7 AskDescription, SendMessage 7 InfoReceived,
                         SendMessage (target_chat env)
                           (TicketHtml (ticket_template (escape_ref m) (escape_ref (js ''alice'')) (escape_ref d)
                                          (iso_string env 4000))),
                         SendMessage 7 TicketCreated],
              faults = [], userStates = []\<rparr>"
  using assms
  by (simp add: plain_text_def ticket_scenario_def bot_defs boot_world_def alice_def empty_ticket_def
                createTicket_def formatTicketMessage_Some js_to_lower_def js_lower_unit_def)

theorem end_to_end_ticket_witness:
  "run_events demo_env (Running (boot_world [])) (ticket_scenario (js ''Acme Corp'') demo_desc) =
     Running \<lparr>outbox = [SendMessage 7 AskMerchant, SendMessage 7 AskDescription, SendMessage 7 InfoReceived,
                         SendMessage (target_chat demo_env)
                           (TicketHtml (ticket_template (escape_ref (js ''Acme Corp'')) (escape_ref (js ''alice''))
                                          (escape_ref demo_desc) (iso_string demo_env 4000))),
                         SendMessage 7 TicketCreated],
              faults = [], userStates = []\<rparr>"
proof -
  have h: "plain_text (js ''Acme Corp'')" "plain_text demo_desc"
    "validateTicketData \<lparr>merchantName = Some (js ''Acme Corp''), description = Some demo_desc,
        username = Some (js ''alice''), media = []\<rparr> = None"
    by (simp_all add: plain_text_def demo_desc_def validateTicketData_def short_field_def js_trim_def js_is_space_def)
  show ?thesis by (rule end_to_end_ticket [OF h])
qed

text \<open>
  C21: For every merchant name shorter than 2 code units after trimming, the name is
  accepted when it is entered (no validation happens at that step); the description
  step validates the whole draft, reports "Merchant name must be at least 2
  characters long" and deletes the conversation, so the later \<open>done\<close> is ignored and
  nothing reaches the destination chat, whatever the description.
\<close>

theorem end_to_end_short_merchant:
  assumes "plain_text m" "plain_text d" "length (js_trim m) < 2"
  shows "run_events env (Running (boot_world [])) (ticket_scenario m d) =
     Running \<lparr>outbox = [SendMessage 7 AskMerchant, SendMessage 7 AskDescription,
                         SendMessage 7 (ErrorReport merchant_too_short)],
              faults = [], userStates = []\<rparr>"
  using assms
  by (simp add: plain_text_def ticket_scenario_def bot_defs boot_world_def alice_def empty_ticket_def
                validateTicketData_def short_field_iff js_to_lower_def js_lower_unit_def)

theorem end_to_end_short_merchant_witness:
  "run_events demo_env (Running (boot_world [])) (ticket_scenario (js ''A'') demo_desc) =
     Running \<lparr>outbox = [SendMessage 7 AskMerchant, SendMessage 7 AskDescription,
                         SendMessage 7 (ErrorReport merchant_too_short)],
              faults = [], userStates = []\<rparr>"
proof -
  have h: "plain_text (js ''A'')" "plain_text demo_desc" "length (js_trim (js ''A'')) < 2"
    by (simp_all add: plain_text_def demo_desc_def js_trim_def js_is_space_def)
  show ?thesis by (rule end_to_end_short_merchant [OF h])
qed

end
